theory Spec2Isabelle
  imports Main
begin

section \<open>Sizes, records of the MCAP file, exceptions\<close>

text \<open>
  Sizes are \<open>std::uint64_t\<close> in the writer.  They are natural numbers here, and the two
  places where \<open>McapWriter.cpp\<close> itself computes with them write the wrap-around out.
\<close>

definition u64_add :: "nat \<Rightarrow> nat \<Rightarrow> nat" where
  "u64_add a b = (a + b) mod 2 ^ 64"

definition u64_sub :: "nat \<Rightarrow> nat \<Rightarrow> nat" where
  "u64_sub a b = (a mod 2 ^ 64 + (2 ^ 64 - b mod 2 ^ 64)) mod 2 ^ 64"

text \<open>
  The records handed to the MCAP library.  Each one carries the number of bytes the size
  tracker charges for it (\<open>dataSize\<close> for messages and attachments).
\<close>

record schema =
  schema_id :: nat
  schema_name :: string
  schema_size :: nat

record channel =
  channel_id :: nat
  channel_topic :: string
  channel_schema_id :: nat
  channel_size :: nat

record mcap_message =
  msg_channel_id :: nat
  msg_sequence :: nat
  msg_dataSize :: nat

record metadata =
  metadata_name :: string
  metadata_map :: "(string \<times> string) list"
  metadata_size :: nat

record attachment =
  attachment_name :: string
  attachment_data :: nat
  attachment_dataSize :: nat

text \<open>
  \<open>fastdds::rtps::SerializedPayload_t\<close>: the writer keeps a pointer to the caller's object,
  so a payload is its address together with the \<open>length\<close> and \<open>data\<close> fields read through
  the pointer.
\<close>

record serialized_payload =
  payload_addr :: nat
  payload_data :: nat
  payload_length :: nat

datatype mcap_record =
    RSchema schema
  | RChannel channel
  | RMessage mcap_message
  | RMetadata metadata
  | RAttachment attachment

datatype exn =
    FullFileException nat      \<comment> \<open>carries \<open>data_size_to_write\<close>\<close>
  | FullDiskException
  | InitializationException
  | invalid_argument

record output_settings =
  max_file_size :: nat
  max_size :: nat
  safety_margin :: nat

section \<open>The collaborators of the writer\<close>

subsection \<open>SizeTracker\<close>

text \<open>
  Modelled from the spec: the class \<open>McapSizeTracker\<close> is not among the sources.  The spec
  (4.2, SizeTracker contract) gives: \<open>init(max_file_size, safety_margin)\<close> begins the
  accounting from a baseline for the framing overhead; \<open>x_to_write(item)\<close> reserves and
  raises FileFull with \<open>data_size_to_write = item.size\<close> if the file would exceed
  \<open>max_file_size - safety_margin\<close>; \<open>x_written(item)\<close> converts the reservation to committed
  bytes; \<open>get_min_mcap_size()\<close> is base + metadata + the pending attachment if any;
  \<open>get_potential_mcap_size()\<close> is written plus reserved bytes; \<open>reset\<close> prepares for the next
  file.  The two-argument \<open>attachment_to_write(new, old)\<close> reserves the difference between
  the new and the previous payload length.
\<close>

record size_tracker =
  st_overhead :: nat          \<comment> \<open>baseline of an empty file (a constant of the tracker)\<close>
  st_min_base :: nat          \<comment> \<open>base + metadata (a constant of the tracker)\<close>
  st_max_file_size :: nat
  st_safety_margin :: nat
  st_potential :: nat         \<comment> \<open>written plus reserved bytes\<close>
  st_written :: nat
  st_attachment :: nat        \<comment> \<open>the pending attachment counted by \<open>get_min_mcap_size\<close>\<close>

definition st_init :: "nat \<Rightarrow> nat \<Rightarrow> size_tracker \<Rightarrow> size_tracker" where
  "st_init max_fs margin st =
     st\<lparr>st_max_file_size := max_fs, st_safety_margin := margin,
        st_potential := st_overhead st, st_written := st_overhead st\<rparr>"

definition st_reserve :: "nat \<Rightarrow> size_tracker \<Rightarrow> exn + size_tracker" where
  "st_reserve n st =
     (if st_potential st + n > st_max_file_size st - st_safety_margin st
      then Inl (FullFileException n)
      else Inr (st\<lparr>st_potential := st_potential st + n\<rparr>))"

definition st_commit :: "nat \<Rightarrow> size_tracker \<Rightarrow> size_tracker" where
  "st_commit n st = st\<lparr>st_written := st_written st + n\<rparr>"

definition schema_to_write :: "schema \<Rightarrow> size_tracker \<Rightarrow> exn + size_tracker" where
  "schema_to_write s = st_reserve (schema_size s)"

definition schema_written :: "schema \<Rightarrow> size_tracker \<Rightarrow> size_tracker" where
  "schema_written s = st_commit (schema_size s)"

definition channel_to_write :: "channel \<Rightarrow> size_tracker \<Rightarrow> exn + size_tracker" where
  "channel_to_write c = st_reserve (channel_size c)"

definition channel_written :: "channel \<Rightarrow> size_tracker \<Rightarrow> size_tracker" where
  "channel_written c = st_commit (channel_size c)"

definition message_to_write :: "nat \<Rightarrow> size_tracker \<Rightarrow> exn + size_tracker" where
  "message_to_write n = st_reserve n"

definition message_written :: "nat \<Rightarrow> size_tracker \<Rightarrow> size_tracker" where
  "message_written n = st_commit n"

definition metadata_to_write :: "metadata \<Rightarrow> size_tracker \<Rightarrow> exn + size_tracker" where
  "metadata_to_write m = st_reserve (metadata_size m)"

definition metadata_written :: "metadata \<Rightarrow> size_tracker \<Rightarrow> size_tracker" where
  "metadata_written m = st_commit (metadata_size m)"

definition attachment_to_write :: "nat \<Rightarrow> size_tracker \<Rightarrow> exn + size_tracker" where
  "attachment_to_write n st =
     (case st_reserve n st of
        Inl e \<Rightarrow> Inl e
      | Inr st' \<Rightarrow> Inr (st'\<lparr>st_attachment := n\<rparr>))"

definition attachment_to_write2 :: "nat \<Rightarrow> nat \<Rightarrow> size_tracker \<Rightarrow> exn + size_tracker" where
  "attachment_to_write2 n old st =
     (if st_potential st + n - old > st_max_file_size st - st_safety_margin st
      then Inl (FullFileException n)
      else Inr (st\<lparr>st_potential := st_potential st + n - old, st_attachment := n\<rparr>))"

definition attachment_written :: "nat \<Rightarrow> size_tracker \<Rightarrow> size_tracker" where
  "attachment_written n = st_commit n"

definition get_min_mcap_size :: "size_tracker \<Rightarrow> nat" where
  "get_min_mcap_size st = st_min_base st + st_attachment st"

definition get_potential_mcap_size :: "size_tracker \<Rightarrow> nat" where
  "get_potential_mcap_size st = st_potential st"

definition get_written_mcap_size :: "size_tracker \<Rightarrow> nat" where
  "get_written_mcap_size st = st_written st"

definition st_reset :: "size_tracker \<Rightarrow> size_tracker" where
  "st_reset st = st\<lparr>st_potential := 0, st_written := 0\<rparr>"

subsection \<open>FileTracker\<close>

text \<open>
  Modelled from the spec: the class \<open>FileTracker\<close> is not among the sources.  The spec (2 and
  6) gives: it provides filenames and tracks the cumulative written bytes against the disk
  ceiling; \<open>new_file(min_size)\<close> returns a filename or raises when
  \<open>min_size > max_file_size\<close> or the cumulative budget is exhausted;
  \<open>set_current_file_size(n)\<close>, \<open>get_total_size()\<close>, \<open>get_current_filename()\<close> and
  \<open>close_file()\<close>.  Files are named by their number; closing adds the size last set for the
  current file to the total, and closing when no file is open does nothing.
\<close>

record file_tracker =
  ft_configuration :: output_settings
  ft_total_size :: nat
  ft_current_name :: nat
  ft_current_size :: nat
  ft_is_open :: bool
  ft_created :: nat
  ft_closed :: "(nat \<times> nat) list"    \<comment> \<open>name and final size of every closed file\<close>

definition new_file :: "nat \<Rightarrow> file_tracker \<Rightarrow> exn + file_tracker" where
  "new_file min_file_size ft =
     (if min_file_size > max_file_size (ft_configuration ft)
         \<or> ft_total_size ft + min_file_size > max_size (ft_configuration ft)
      then Inl invalid_argument
      else Inr (ft\<lparr>ft_current_name := ft_created ft, ft_current_size := 0,
                   ft_is_open := True, ft_created := ft_created ft + 1\<rparr>))"

definition get_current_filename :: "file_tracker \<Rightarrow> nat" where
  "get_current_filename ft = ft_current_name ft"

definition get_total_size :: "file_tracker \<Rightarrow> nat" where
  "get_total_size ft = ft_total_size ft"

definition set_current_file_size :: "nat \<Rightarrow> file_tracker \<Rightarrow> file_tracker" where
  "set_current_file_size n ft = ft\<lparr>ft_current_size := n\<rparr>"

definition close_file :: "file_tracker \<Rightarrow> file_tracker" where
  "close_file ft =
     (if ft_is_open ft
      then ft\<lparr>ft_total_size := ft_total_size ft + ft_current_size ft,
              ft_is_open := False,
              ft_closed := ft_closed ft @ [(ft_current_name ft, ft_current_size ft)]\<rparr>
      else ft)"

subsection \<open>The MCAP library\<close>

text \<open>
  Modelled from the spec: \<open>mcap::McapWriter\<close> is an external library; the spec (2 and 6) calls
  it an append-only writer with \<open>open\<close>, \<open>close\<close> and one \<open>write\<close> per record kind.  Its state
  is the sequence of calls that took effect.  \<open>open\<close> and the \<open>write\<close> of a message, a
  metadata or an attachment return a status: \<open>cd_faults\<close> lists the statuses still to come
  (\<open>True\<close> is an error, the empty list means no more errors), and a write on a writer that is
  not open is an error.  \<open>addSchema\<close> and \<open>addChannel\<close> return nothing.
\<close>

datatype event =
    Opened nat
  | Closed
  | Wrote mcap_record

record codec =
  cd_is_open :: bool
  cd_trace :: "event list"
  cd_faults :: "bool list"

definition next_fault :: "codec \<Rightarrow> bool" where
  "next_fault cd = (case cd_faults cd of [] \<Rightarrow> False | f # _ \<Rightarrow> f)"

definition codec_open :: "nat \<Rightarrow> codec \<Rightarrow> bool \<times> codec" where
  "codec_open filename cd =
     (if next_fault cd then (False, cd\<lparr>cd_faults := tl (cd_faults cd)\<rparr>)
      else (True, cd\<lparr>cd_is_open := True, cd_trace := cd_trace cd @ [Opened filename],
                     cd_faults := tl (cd_faults cd)\<rparr>))"

definition codec_write :: "mcap_record \<Rightarrow> codec \<Rightarrow> bool \<times> codec" where
  "codec_write r cd =
     (if next_fault cd \<or> \<not> cd_is_open cd then (False, cd\<lparr>cd_faults := tl (cd_faults cd)\<rparr>)
      else (True, cd\<lparr>cd_trace := cd_trace cd @ [Wrote r], cd_faults := tl (cd_faults cd)\<rparr>))"

definition codec_add :: "mcap_record \<Rightarrow> codec \<Rightarrow> codec" where
  "codec_add r cd = cd\<lparr>cd_trace := cd_trace cd @ [Wrote r]\<rparr>"

definition codec_close :: "codec \<Rightarrow> codec" where
  "codec_close cd =
     (if cd_is_open cd then cd\<lparr>cd_is_open := False, cd_trace := cd_trace cd @ [Closed]\<rparr>
      else cd)"

section \<open>McapWriter\<close>

text \<open>
  The members of the class.  \<open>schemas\<close> and \<open>channels\<close> are the \<open>std::map\<close>s keyed by id, kept
  as lists in ascending order of the id, which is the order a range-for visits them in.
  \<open>MIN_MCAP_SIZE\<close>, \<open>VERSION_STRING\<close> and \<open>COMMIT_HASH\<close> are constants declared in headers
  that are not among the sources, and \<open>version_metadata_size\<close> is the size of the metadata
  record built from them; they are parameters.  \<open>on_disk_full_lambda\<close> tells whether a
  callback is installed, \<open>lambda_calls\<close> counts its invocations and \<open>monitor_errors\<close> those of
  \<open>monitor_error("DISK_FULL")\<close>.
\<close>

record mcap_writer =
  MIN_MCAP_SIZE :: nat
  VERSION_STRING :: string
  COMMIT_HASH :: string
  version_metadata_size :: nat
  configuration :: output_settings
  record_types :: bool
  enabled :: bool
  file_tracker :: file_tracker
  size_tracker :: size_tracker
  writer :: codec
  schemas :: "schema list"
  channels :: "channel list"
  dynamic_types_payload :: "serialized_payload option"
  on_disk_full_lambda :: bool
  lambda_calls :: nat
  monitor_errors :: nat

type_synonym 'a outcome = "exn option \<times> 'a"

text \<open>A call returns the exception that left it, if any, and the state it left behind.\<close>

definition and_then ::
  "(mcap_writer \<Rightarrow> mcap_writer outcome) \<Rightarrow> (mcap_writer \<Rightarrow> mcap_writer outcome)
     \<Rightarrow> mcap_writer \<Rightarrow> mcap_writer outcome" where
  "and_then f g w = (case f w of (None, w') \<Rightarrow> g w' | (Some e, w') \<Rightarrow> (Some e, w'))"

definition on_tracker ::
  "(size_tracker \<Rightarrow> exn + size_tracker) \<Rightarrow> mcap_writer \<Rightarrow> mcap_writer outcome" where
  "on_tracker f w =
     (case f (size_tracker w) of
        Inl e \<Rightarrow> (Some e, w)
      | Inr st \<Rightarrow> (None, w\<lparr>size_tracker := st\<rparr>))"

definition note_file_size :: "mcap_writer \<Rightarrow> mcap_writer" where
  "note_file_size w =
     w\<lparr>file_tracker :=
         set_current_file_size (get_potential_mcap_size (size_tracker w)) (file_tracker w)\<rparr>"

fun map_assign_schema :: "schema \<Rightarrow> schema list \<Rightarrow> schema list" where
  "map_assign_schema s [] = [s]"
| "map_assign_schema s (x # xs) =
     (if schema_id s < schema_id x then s # x # xs
      else if schema_id s = schema_id x then s # xs
      else x # map_assign_schema s xs)"

fun map_assign_channel :: "channel \<Rightarrow> channel list \<Rightarrow> channel list" where
  "map_assign_channel c [] = [c]"
| "map_assign_channel c (x # xs) =
     (if channel_id c < channel_id x then c # x # xs
      else if channel_id c = channel_id x then c # xs
      else x # map_assign_channel c xs)"

definition on_disk_full :: "mcap_writer \<Rightarrow> mcap_writer" where
  "on_disk_full w =
     (let w1 = w\<lparr>monitor_errors := monitor_errors w + 1\<rparr>
      in if on_disk_full_lambda w1 then w1\<lparr>lambda_calls := lambda_calls w1 + 1\<rparr> else w1)"

definition write_nts_attachment :: "attachment \<Rightarrow> mcap_writer \<Rightarrow> mcap_writer" where
  "write_nts_attachment a w =
     (let (ok, cd) = codec_write (RAttachment a) (writer w);
          w1 = w\<lparr>writer := cd\<rparr>
      in if \<not> ok then w1
         else note_file_size
                (w1\<lparr>size_tracker := attachment_written (attachment_dataSize a) (size_tracker w1)\<rparr>))"

definition write_nts_channel :: "channel \<Rightarrow> mcap_writer \<Rightarrow> mcap_writer outcome" where
  "write_nts_channel c w =
     (case on_tracker (channel_to_write c) w of
        (Some e, w1) \<Rightarrow> (Some e, w1)
      | (None, w1) \<Rightarrow>
          (let w2 = w1\<lparr>writer := codec_add (RChannel c) (writer w1)\<rparr>;
               w3 = w2\<lparr>size_tracker := channel_written c (size_tracker w2)\<rparr>;
               w4 = note_file_size w3
           in (None, w4\<lparr>channels := map_assign_channel c (channels w4)\<rparr>)))"

definition write_nts_message :: "mcap_message \<Rightarrow> mcap_writer \<Rightarrow> mcap_writer outcome" where
  "write_nts_message msg w =
     (if \<not> enabled w then (None, w)
      else case on_tracker (message_to_write (msg_dataSize msg)) w of
        (Some e, w1) \<Rightarrow> (Some e, w1)
      | (None, w1) \<Rightarrow>
          (let (ok, cd) = codec_write (RMessage msg) (writer w1);
               w2 = w1\<lparr>writer := cd\<rparr>
           in if \<not> ok then (None, w2)
              else (None, note_file_size
                     (w2\<lparr>size_tracker := message_written (msg_dataSize msg) (size_tracker w2)\<rparr>))))"

definition write_nts_metadata :: "metadata \<Rightarrow> mcap_writer \<Rightarrow> mcap_writer outcome" where
  "write_nts_metadata m w =
     (case on_tracker (metadata_to_write m) w of
        (Some e, w1) \<Rightarrow> (Some e, w1)
      | (None, w1) \<Rightarrow>
          (let (ok, cd) = codec_write (RMetadata m) (writer w1);
               w2 = w1\<lparr>writer := cd\<rparr>
           in if \<not> ok then (None, w2)
              else (None, note_file_size
                     (w2\<lparr>size_tracker := metadata_written m (size_tracker w2)\<rparr>))))"

definition write_nts_schema :: "schema \<Rightarrow> mcap_writer \<Rightarrow> mcap_writer outcome" where
  "write_nts_schema s w =
     (case on_tracker (schema_to_write s) w of
        (Some e, w1) \<Rightarrow> (Some e, w1)
      | (None, w1) \<Rightarrow>
          (let w2 = w1\<lparr>writer := codec_add (RSchema s) (writer w1)\<rparr>;
               w3 = w2\<lparr>size_tracker := schema_written s (size_tracker w2)\<rparr>;
               w4 = note_file_size w3
           in (None, w4\<lparr>schemas := map_assign_schema s (schemas w4)\<rparr>)))"

definition DYNAMIC_TYPES_ATTACHMENT_NAME :: string where
  "DYNAMIC_TYPES_ATTACHMENT_NAME = ''dynamic_types''"

definition VERSION_METADATA_NAME :: string where
  "VERSION_METADATA_NAME = ''version''"

definition VERSION_METADATA_RELEASE :: string where
  "VERSION_METADATA_RELEASE = ''release''"

definition VERSION_METADATA_COMMIT :: string where
  "VERSION_METADATA_COMMIT = ''commit''"

definition dynamic_types_attachment :: "serialized_payload \<Rightarrow> attachment" where
  "dynamic_types_attachment p =
     \<lparr>attachment_name = DYNAMIC_TYPES_ATTACHMENT_NAME, attachment_data = payload_data p,
      attachment_dataSize = payload_length p\<rparr>"

definition write_attachment_nts :: "mcap_writer \<Rightarrow> mcap_writer" where
  "write_attachment_nts w =
     (case dynamic_types_payload w of
        None \<Rightarrow> w
      | Some p \<Rightarrow> write_nts_attachment (dynamic_types_attachment p) w)"

fun write_each ::
  "('a \<Rightarrow> mcap_writer \<Rightarrow> mcap_writer outcome) \<Rightarrow> 'a list \<Rightarrow> mcap_writer \<Rightarrow> mcap_writer outcome"
  where
  "write_each f [] w = (None, w)"
| "write_each f (x # xs) w =
     (case f x w of
        (Some e, w') \<Rightarrow> (Some e, w')
      | (None, w') \<Rightarrow> write_each f xs w')"

definition write_channels_nts :: "mcap_writer \<Rightarrow> mcap_writer outcome" where
  "write_channels_nts w =
     (if channels w = [] then (None, w) else write_each write_nts_channel (channels w) w)"

definition version_metadata :: "mcap_writer \<Rightarrow> metadata" where
  "version_metadata w =
     \<lparr>metadata_name = VERSION_METADATA_NAME,
      metadata_map = [(VERSION_METADATA_COMMIT, COMMIT_HASH w),
                      (VERSION_METADATA_RELEASE, VERSION_STRING w)],
      metadata_size = version_metadata_size w\<rparr>"

definition write_metadata_nts :: "mcap_writer \<Rightarrow> mcap_writer outcome" where
  "write_metadata_nts w = write_nts_metadata (version_metadata w) w"

definition write_schemas_nts :: "mcap_writer \<Rightarrow> mcap_writer outcome" where
  "write_schemas_nts w =
     (if schemas w = [] then (None, w) else write_each write_nts_schema (schemas w) w)"

definition reserve_staged_attachment :: "mcap_writer \<Rightarrow> mcap_writer outcome" where
  "reserve_staged_attachment w =
     (case dynamic_types_payload w of
        Some p \<Rightarrow>
          (if record_types w then on_tracker (attachment_to_write (payload_length p)) w
           else (None, w))
      | None \<Rightarrow> (None, w))"

definition open_new_file_nts :: "nat \<Rightarrow> mcap_writer \<Rightarrow> mcap_writer outcome" where
  "open_new_file_nts min_file_size w =
     (case new_file min_file_size (file_tracker w) of
        Inl invalid_argument \<Rightarrow> (Some FullDiskException, w)
      | Inl e \<Rightarrow> (Some e, w)
      | Inr ft \<Rightarrow>
          (let w1 = w\<lparr>file_tracker := ft\<rparr>;
               filename = get_current_filename (file_tracker w1);
               (ok, cd) = codec_open filename (writer w1);
               w2 = w1\<lparr>writer := cd\<rparr>
           in if \<not> ok then (Some InitializationException, w2)
              else
                (let max_fs = min (max_file_size (configuration w2))
                                  (u64_sub (max_size (configuration w2))
                                           (get_total_size (file_tracker w2)));
                     w3 = w2\<lparr>size_tracker :=
                               st_init max_fs (safety_margin (configuration w2)) (size_tracker w2)\<rparr>
                 in and_then write_metadata_nts
                      (and_then write_schemas_nts
                         (and_then write_channels_nts
                            (and_then reserve_staged_attachment
                               (\<lambda>w. (None, note_file_size w))))) w3)))"

definition close_current_file_nts :: "mcap_writer \<Rightarrow> mcap_writer" where
  "close_current_file_nts w =
     (let w1 = (if record_types w \<and> dynamic_types_payload w \<noteq> None
                then write_attachment_nts w else w);
          w2 = w1\<lparr>file_tracker :=
                    set_current_file_size (get_written_mcap_size (size_tracker w1)) (file_tracker w1)\<rparr>;
          w3 = w2\<lparr>size_tracker := st_reset (size_tracker w2)\<rparr>;
          w4 = w3\<lparr>writer := codec_close (writer w3)\<rparr>
      in w4\<lparr>file_tracker := close_file (file_tracker w4)\<rparr>)"

definition on_mcap_full_nts :: "nat \<Rightarrow> mcap_writer \<Rightarrow> mcap_writer outcome" where
  "on_mcap_full_nts data_size_to_write w =
     (let w1 = close_current_file_nts w;
          w2 = w1\<lparr>enabled := False\<rparr>
      in if max_file_size (configuration w2) = max_size (configuration w2)
         then (Some FullDiskException, w2)
         else
           (let min_file_size = u64_add (get_min_mcap_size (size_tracker w2)) data_size_to_write
            in case open_new_file_nts min_file_size w2 of
                 (Some e, w3) \<Rightarrow> (Some e, w3)
               | (None, w3) \<Rightarrow> (None, w3\<lparr>enabled := True\<rparr>)))"

definition enable :: "mcap_writer \<Rightarrow> mcap_writer outcome" where
  "enable w =
     (if enabled w then (None, w)
      else case open_new_file_nts (MIN_MCAP_SIZE w) w of
        (Some FullDiskException, w1) \<Rightarrow> (None, (on_disk_full w1)\<lparr>enabled := True\<rparr>)
      | (Some e, w1) \<Rightarrow> (Some e, w1)
      | (None, w1) \<Rightarrow> (None, w1\<lparr>enabled := True\<rparr>))"

definition disable :: "mcap_writer \<Rightarrow> mcap_writer" where
  "disable w =
     (if \<not> enabled w then w
      else (close_current_file_nts w)\<lparr>channels := [], enabled := False\<rparr>)"

definition update_dynamic_types_payload ::
  "serialized_payload \<Rightarrow> mcap_writer \<Rightarrow> mcap_writer outcome" where
  "update_dynamic_types_payload p w =
     (case dynamic_types_payload w of
        None \<Rightarrow> on_tracker (attachment_to_write (payload_length p)) w
      | Some old \<Rightarrow>
          on_tracker (attachment_to_write2 (payload_length p) (payload_length old)) w)"

definition stage_payload :: "serialized_payload \<Rightarrow> mcap_writer \<Rightarrow> mcap_writer" where
  "stage_payload p w = note_file_size (w\<lparr>dynamic_types_payload := Some p\<rparr>)"

definition update_dynamic_types ::
  "serialized_payload \<Rightarrow> mcap_writer \<Rightarrow> mcap_writer outcome" where
  "update_dynamic_types p w =
     (case update_dynamic_types_payload p w of
        (Some (FullFileException n), w1) \<Rightarrow>
          (case and_then (on_mcap_full_nts n) (update_dynamic_types_payload p) w1 of
             (Some FullDiskException, w2) \<Rightarrow> (None, stage_payload p (on_disk_full w2))
           | (Some e, w2) \<Rightarrow> (Some e, w2)
           | (None, w2) \<Rightarrow> (None, stage_payload p w2))
      | (Some e, w1) \<Rightarrow> (Some e, w1)
      | (None, w1) \<Rightarrow> (None, stage_payload p w1))"

definition set_on_disk_full_callback :: "bool \<Rightarrow> mcap_writer \<Rightarrow> mcap_writer" where
  "set_on_disk_full_callback l w = w\<lparr>on_disk_full_lambda := l\<rparr>"

text \<open>
  The constructor: it stores its four arguments (the options of the MCAP library play no
  part here); the writer starts disabled, with empty maps, no payload and no callback.
  The parameters that stand for absent constants and the state of the collaborators are
  arguments as well.
\<close>

definition McapWriter ::
  "nat \<Rightarrow> nat \<Rightarrow> size_tracker \<Rightarrow> codec \<Rightarrow> output_settings \<Rightarrow> file_tracker \<Rightarrow> bool
     \<Rightarrow> mcap_writer" where
  "McapWriter min_size md_size st cd cfg ft rt =
     \<lparr>MIN_MCAP_SIZE = min_size, VERSION_STRING = [], COMMIT_HASH = [],
      version_metadata_size = md_size, configuration = cfg, record_types = rt,
      enabled = False, file_tracker = ft, size_tracker = st, writer = cd,
      schemas = [], channels = [], dynamic_types_payload = None,
      on_disk_full_lambda = False, lambda_calls = 0, monitor_errors = 0\<rparr>"

subsection \<open>The public \<open>write\<close>\<close>

fun write_nts :: "mcap_record \<Rightarrow> mcap_writer \<Rightarrow> mcap_writer outcome" where
  "write_nts (RSchema s) w = write_nts_schema s w"
| "write_nts (RChannel c) w = write_nts_channel c w"
| "write_nts (RMessage m) w = write_nts_message m w"
| "write_nts (RMetadata m) w = write_nts_metadata m w"
| "write_nts (RAttachment a) w = (None, write_nts_attachment a w)"

text \<open>
  Modelled from the spec: the public template \<open>McapWriter::write\<close> is defined in \<open>McapWriter.hpp\<close>,
  which is not among the sources.  The spec (4.2 and 7) gives: a write on a disabled writer
  is a no-op; if the reservation raises FileFull the file is rolled over and the write is
  retried on the new file; DiskFull invokes the \<open>on_disk_full\<close> callback.
\<close>

definition McapWriter_write :: "mcap_record \<Rightarrow> mcap_writer \<Rightarrow> mcap_writer outcome" where
  "McapWriter_write r w =
     (if \<not> enabled w then (None, w)
      else case write_nts r w of
        (Some (FullFileException n), w1) \<Rightarrow>
          (case and_then (on_mcap_full_nts n) (write_nts r) w1 of
             (Some FullDiskException, w2) \<Rightarrow> (None, on_disk_full w2)
           | (Some e, w2) \<Rightarrow> (Some e, w2)
           | (None, w2) \<Rightarrow> (None, w2))
      | (Some e, w1) \<Rightarrow> (Some e, w1)
      | (None, w1) \<Rightarrow> (None, w1))"

subsection \<open>Runs of the writer\<close>

datatype call =
    Enable
  | Disable
  | Write mcap_record
  | UpdateDynamicTypes serialized_payload
  | SetOnDiskFullCallback bool

fun do_call :: "call \<Rightarrow> mcap_writer \<Rightarrow> mcap_writer outcome" where
  "do_call Enable w = enable w"
| "do_call Disable w = (None, disable w)"
| "do_call (Write r) w = McapWriter_write r w"
| "do_call (UpdateDynamicTypes p) w = update_dynamic_types p w"
| "do_call (SetOnDiskFullCallback l) w = (None, set_on_disk_full_callback l w)"

text \<open>A run is a sequence of calls; an exception that leaves a call ends the run.\<close>

fun run :: "call list \<Rightarrow> mcap_writer \<Rightarrow> mcap_writer outcome" where
  "run [] w = (None, w)"
| "run (c # cs) w =
     (case do_call c w of
        (Some e, w') \<Rightarrow> (Some e, w')
      | (None, w') \<Rightarrow> run cs w')"

section \<open>McapHandler\<close>

text \<open>
  The header \<open>McapHandler.hpp\<close> declares the states, the members and the methods of the
  handler; the bodies are in \<open>McapHandler.cpp\<close>, which is not among the sources.
\<close>

datatype McapHandlerStateCode = STOPPED | RUNNING | PAUSED

record DdsTopic =
  m_topic_name :: string
  type_name :: string

text \<open>
  A sample held by the handler: the topic it came from, its sequence number, the payload it
  refers to, and whether it is bound to the blank schema.
\<close>

record sample =
  sample_topic :: DdsTopic
  sample_sequence :: nat
  sample_payload :: nat
  sample_blank :: bool

record McapHandlerConfiguration =
  buffer_size :: nat
  max_pending_samples :: int
  only_with_schema :: bool

text \<open>
  The members the ingest path uses.  \<open>h_schemas\<close> holds the type names that have a schema,
  the two pending maps are lists of queues by type name, \<open>unique_sequence_number\<close> is an
  \<open>unsigned int\<close>, and \<open>dumped\<close> is the sequence of samples handed to the writer.
\<close>

record mcap_handler =
  h_configuration :: McapHandlerConfiguration
  state :: McapHandlerStateCode
  h_schemas :: "string list"
  samples_buffer :: "sample list"
  pending_samples :: "(string \<times> sample list) list"
  pending_samples_paused :: "(string \<times> sample list) list"
  unique_sequence_number :: nat
  dumped :: "sample list"

definition pending_of :: "string \<Rightarrow> (string \<times> sample list) list \<Rightarrow> sample list" where
  "pending_of k m = (case map_of m k of None \<Rightarrow> [] | Some q \<Rightarrow> q)"

definition pending_put ::
  "string \<Rightarrow> sample list \<Rightarrow> (string \<times> sample list) list \<Rightarrow> (string \<times> sample list) list" where
  "pending_put k q m = (k, q) # filter (\<lambda>e. fst e \<noteq> k) m"

text \<open>
  Modelled from the spec: \<open>dump_data_nts_\<close> (4.1: the buffer is dumped, that is, its samples
  are handed to the writer in order and the buffer is emptied).
\<close>

definition dump_data_nts :: "mcap_handler \<Rightarrow> mcap_handler" where
  "dump_data_nts h = h\<lparr>dumped := dumped h @ samples_buffer h, samples_buffer := []\<rparr>"

text \<open>
  Modelled from the spec: \<open>add_data_nts_\<close> (4.1, RUNNING: append to the buffer; if the
  buffer reaches \<open>buffer_size\<close>, dump it; PAUSED: append to the buffer only).
\<close>

definition add_data_nts :: "sample \<Rightarrow> mcap_handler \<Rightarrow> mcap_handler" where
  "add_data_nts msg h =
     (let h1 = h\<lparr>samples_buffer := samples_buffer h @ [msg]\<rparr>
      in if state h1 \<noteq> PAUSED \<and> length (samples_buffer h1) \<ge> buffer_size (h_configuration h1)
         then dump_data_nts h1 else h1)"

text \<open>
  Modelled from the spec: \<open>add_to_pending_nts_\<close> (4.1: enqueue by type name, evicting the
  oldest when the per-type queue overflows; in RUNNING the evicted sample is written with the
  blank schema unless \<open>only_with_schema\<close> is set, in which case it is discarded; in PAUSED it
  is always discarded; a cap of \<open>-1\<close> is unbounded).
\<close>

definition overflows :: "mcap_handler \<Rightarrow> sample list \<Rightarrow> bool" where
  "overflows h q =
     (max_pending_samples (h_configuration h) \<ge> 0
      \<and> int (length q) > max_pending_samples (h_configuration h))"

definition add_to_pending_nts :: "sample \<Rightarrow> mcap_handler \<Rightarrow> mcap_handler" where
  "add_to_pending_nts msg h =
     (let k = type_name (sample_topic msg);
          q = pending_of k (pending_samples h) @ [msg]
      in if overflows h q
         then (let h1 = h\<lparr>pending_samples := pending_put k (tl q) (pending_samples h)\<rparr>
               in if only_with_schema (h_configuration h1) then h1
                  else add_data_nts ((hd q)\<lparr>sample_blank := True\<rparr>) h1)
         else h\<lparr>pending_samples := pending_put k q (pending_samples h)\<rparr>)"

definition add_to_pending_paused_nts :: "sample \<Rightarrow> mcap_handler \<Rightarrow> mcap_handler" where
  "add_to_pending_paused_nts msg h =
     (let k = type_name (sample_topic msg);
          q = pending_of k (pending_samples_paused h) @ [msg]
      in if overflows h q
         then h\<lparr>pending_samples_paused := pending_put k (tl q) (pending_samples_paused h)\<rparr>
         else h\<lparr>pending_samples_paused := pending_put k q (pending_samples_paused h)\<rparr>)"

text \<open>
  Modelled from the spec: \<open>McapHandler::add_data\<close> (4.1).  STOPPED: discard.  RUNNING: if a
  schema for the type exists, append to the buffer; otherwise, if \<open>max_pending_samples\<close> is
  not 0, enqueue into \<open>pending_samples\<close>; if it is 0, append with the blank schema unless
  \<open>only_with_schema\<close>, else discard.  PAUSED: if the schema exists, append to the buffer,
  otherwise enqueue into \<open>pending_samples_paused\<close>.  Every accepted message receives the next
  sequence number; the counter starts at 0 (header) and the first message has number 1
  (8, scenario 1).
\<close>

definition next_sequence_number :: "mcap_handler \<Rightarrow> nat" where
  "next_sequence_number h = (unique_sequence_number h + 1) mod 2 ^ 32"

definition add_data :: "DdsTopic \<Rightarrow> nat \<Rightarrow> mcap_handler \<Rightarrow> mcap_handler" where
  "add_data topic payload h =
     (if state h = STOPPED then h
      else
        (let h1 = h\<lparr>unique_sequence_number := next_sequence_number h\<rparr>;
             msg = \<lparr>sample_topic = topic, sample_sequence = unique_sequence_number h1,
                    sample_payload = payload, sample_blank = False\<rparr>
         in if state h1 = RUNNING then
              (if type_name topic \<in> set (h_schemas h1) then add_data_nts msg h1
               else if max_pending_samples (h_configuration h1) \<noteq> 0
                 then add_to_pending_nts msg h1
               else if \<not> only_with_schema (h_configuration h1)
                 then add_data_nts (msg\<lparr>sample_blank := True\<rparr>) h1
               else h1)
            else
              (if type_name topic \<in> set (h_schemas h1) then add_data_nts msg h1
               else add_to_pending_paused_nts msg h1)))"

text \<open>Every sample the handler holds or has handed to the writer.\<close>

definition held :: "mcap_handler \<Rightarrow> sample set" where
  "held h =
     set (samples_buffer h) \<union> set (dumped h)
     \<union> (\<Union>e \<in> set (pending_samples h). set (snd e))
     \<union> (\<Union>e \<in> set (pending_samples_paused h). set (snd e))"

section \<open>Auxiliary notions and example states\<close>

text \<open>The MCAP library accepts the next write: it is open and reports no error.\<close>

definition codec_accepts :: "codec \<Rightarrow> bool" where
  "codec_accepts cd = (cd_is_open cd \<and> \<not> next_fault cd)"

text \<open>
  What a write needs in order to go through, once its reservation has been granted: the
  message write needs the writer enabled and, like the metadata and attachment writes, the
  library to accept it; \<open>addSchema\<close> and \<open>addChannel\<close> report nothing.
\<close>

fun write_goes_through :: "mcap_record \<Rightarrow> mcap_writer \<Rightarrow> bool" where
  "write_goes_through (RSchema s) w = True"
| "write_goes_through (RChannel c) w = True"
| "write_goes_through (RMessage m) w = (enabled w \<and> codec_accepts (writer w))"
| "write_goes_through (RMetadata m) w = codec_accepts (writer w)"
| "write_goes_through (RAttachment a) w = codec_accepts (writer w)"

definition staged_length :: "mcap_writer \<Rightarrow> nat" where
  "staged_length w = (case dynamic_types_payload w of None \<Rightarrow> 0 | Some p \<Rightarrow> payload_length p)"

text \<open>
  Example states: a tracker whose empty file takes 4 bytes and whose minimal file takes 10, a
  file tracker with no files, a closed library with a given list of coming statuses, and the
  writer the constructor builds from them.
\<close>

definition example_tracker :: size_tracker where
  "example_tracker =
     \<lparr>st_overhead = 4, st_min_base = 10, st_max_file_size = 0, st_safety_margin = 0,
      st_potential = 0, st_written = 0, st_attachment = 0\<rparr>"

definition example_file_tracker :: "output_settings \<Rightarrow> file_tracker" where
  "example_file_tracker cfg =
     \<lparr>ft_configuration = cfg, ft_total_size = 0, ft_current_name = 0, ft_current_size = 0,
      ft_is_open = False, ft_created = 0, ft_closed = []\<rparr>"

definition example_codec :: "bool list \<Rightarrow> codec" where
  "example_codec faults = \<lparr>cd_is_open = False, cd_trace = [], cd_faults = faults\<rparr>"

definition example_writer :: "nat \<Rightarrow> nat \<Rightarrow> nat \<Rightarrow> bool \<Rightarrow> bool list \<Rightarrow> mcap_writer" where
  "example_writer mfs ms margin rt faults =
     McapWriter 10 6 example_tracker (example_codec faults)
       \<lparr>max_file_size = mfs, max_size = ms, safety_margin = margin\<rparr>
       (example_file_tracker \<lparr>max_file_size = mfs, max_size = ms, safety_margin = margin\<rparr>) rt"

definition example_message :: "nat \<Rightarrow> mcap_message" where
  "example_message n = \<lparr>msg_channel_id = 1, msg_sequence = 0, msg_dataSize = n\<rparr>"

definition example_schema :: "nat \<Rightarrow> nat \<Rightarrow> schema" where
  "example_schema i n = \<lparr>schema_id = i, schema_name = ''T'', schema_size = n\<rparr>"

definition example_channel :: "nat \<Rightarrow> nat \<Rightarrow> channel" where
  "example_channel i n =
     \<lparr>channel_id = i, channel_topic = ''topic'', channel_schema_id = 1, channel_size = n\<rparr>"

definition example_payload :: "nat \<Rightarrow> nat \<Rightarrow> serialized_payload" where
  "example_payload a n = \<lparr>payload_addr = a, payload_data = a + 8, payload_length = n\<rparr>"

definition example_attachment :: "nat \<Rightarrow> attachment" where
  "example_attachment n =
     \<lparr>attachment_name = ''a'', attachment_data = 0, attachment_dataSize = n\<rparr>"

text \<open>
  The bytes committed to the current file once \<open>close_current_file_nts\<close> has handed the
  staged attachment to the library: the committed bytes, and the attachment if it was
  written and accepted.
\<close>

definition final_size :: "mcap_writer \<Rightarrow> nat" where
  "final_size w =
     get_written_mcap_size (size_tracker w)
     + (if record_types w \<and> dynamic_types_payload w \<noteq> None \<and> codec_accepts (writer w)
        then staged_length w else 0)"

text \<open>The writer right after \<open>enable\<close> on a fresh example writer with room for files.\<close>

definition example_open :: "bool \<Rightarrow> bool list \<Rightarrow> mcap_writer" where
  "example_open rt faults = snd (enable (example_writer 100 1000 0 rt faults))"

text \<open>
  The writer with the accounting of the current file blanked out: the potential and written
  bytes, the current file size, what the library has recorded and the statuses it still has
  to report, and the cached maps.  A write changes nothing else.
\<close>

definition accounting_erased :: "mcap_writer \<Rightarrow> mcap_writer" where
  "accounting_erased w =
     w\<lparr>size_tracker := (size_tracker w)\<lparr>st_potential := 0, st_written := 0\<rparr>,
       file_tracker := (file_tracker w)\<lparr>ft_current_size := 0\<rparr>,
       writer := (writer w)\<lparr>cd_trace := [], cd_faults := []\<rparr>,
       schemas := [], channels := []\<rparr>"

text \<open>
  The reservation \<open>update_dynamic_types\<close> asks for fits: the potential size, with the staged
  length replaced by the new one, stays within the file's limit.
\<close>

definition delta_fits :: "serialized_payload \<Rightarrow> mcap_writer \<Rightarrow> bool" where
  "delta_fits p w =
     (st_potential (size_tracker w) + payload_length p - staged_length w
        \<le> st_max_file_size (size_tracker w) - st_safety_margin (size_tracker w))"

definition delta_reserved :: "serialized_payload \<Rightarrow> mcap_writer \<Rightarrow> mcap_writer" where
  "delta_reserved p w =
     w\<lparr>size_tracker := (size_tracker w)
        \<lparr>st_potential := st_potential (size_tracker w) + payload_length p - staged_length w,
          st_attachment := payload_length p\<rparr>\<rparr>"

text \<open>Example states for \<open>update_dynamic_types\<close>.\<close>

definition example_one_file :: mcap_writer where
  "example_one_file = snd (enable (example_writer 100 100 0 False []))"

definition example_margin :: mcap_writer where
  "example_margin = snd (enable (example_writer 100 1000 20 False []))"

definition example_nearly_full :: mcap_writer where
  "example_nearly_full = snd (write_nts_message (example_message 80) (example_open True []))"

text \<open>
  An example for the rollover: the open example file with a schema and a channel cached, a
  20-byte payload staged and a 50-byte message written (90 of 100 bytes taken).
\<close>

definition example_rollover :: mcap_writer where
  "example_rollover =
     snd (write_nts_message (example_message 50)
       (snd (update_dynamic_types (example_payload 64 20)
         (snd (write_nts_channel (example_channel 1 5)
           (snd (write_nts_schema (example_schema 1 5) (example_open True []))))))))"

text \<open>
  The rollover example on a writer that does not record types: the 20-byte payload is
  staged all the same, and 90 of the 100 bytes are taken.
\<close>

definition example_rollover_untyped :: mcap_writer where
  "example_rollover_untyped =
     snd (write_nts_message (example_message 50)
       (snd (update_dynamic_types (example_payload 64 20)
         (snd (write_nts_channel (example_channel 1 5)
           (snd (write_nts_schema (example_schema 1 5) (example_open False []))))))))"

text \<open>
  Calls on the one-file example writer (100 bytes a file, 100 bytes in all): a channel is
  written and a 95-byte message meets DiskFull; then \<open>disable\<close> and \<open>enable\<close>.
\<close>

definition example_disk_full_run :: "call list" where
  "example_disk_full_run =
     [Enable, Write (RChannel (example_channel 1 5)), Write (RMessage (example_message 95))]"

definition example_stale_channel_run :: "call list" where
  "example_stale_channel_run = example_disk_full_run @ [Disable, Enable]"

definition example_disable_run :: "call list" where
  "example_disable_run = [Enable, Write (RChannel (example_channel 1 5)), Disable, Enable]"

text \<open>A writer whose disk budget is below the minimum MCAP size, with a callback installed.\<close>

definition example_no_room :: mcap_writer where
  "example_no_room = set_on_disk_full_callback True (example_writer 5 5 0 False [])"

text \<open>What identifies a sample: its topic, its sequence number and its payload.\<close>

definition sample_identity :: "sample \<Rightarrow> DdsTopic \<times> nat \<times> nat" where
  "sample_identity s = (sample_topic s, sample_sequence s, sample_payload s)"

definition example_topic :: DdsTopic where
  "example_topic = \<lparr>m_topic_name = ''topic'', type_name = ''T''\<rparr>"

definition example_handler :: "McapHandlerStateCode \<Rightarrow> mcap_handler" where
  "example_handler st =
     \<lparr>h_configuration = \<lparr>buffer_size = 2, max_pending_samples = 1, only_with_schema = False\<rparr>,
      state = st, h_schemas = [], samples_buffer = [], pending_samples = [],
      pending_samples_paused = [], unique_sequence_number = 0, dumped = []\<rparr>"

section \<open>The disk budget\<close>

text \<open>
  Modelled from the spec: the constructor of \<open>FileTracker\<close> (2: it tracks the cumulative
  written bytes against the disk ceiling of the settings it is given): no file yet.
\<close>

definition FileTracker :: "output_settings \<Rightarrow> file_tracker" where
  "FileTracker cfg =
     \<lparr>ft_configuration = cfg, ft_total_size = 0, ft_current_name = 0, ft_current_size = 0,
      ft_is_open = False, ft_created = 0, ft_closed = []\<rparr>"

text \<open>Every closed file is within \<open>max_file_size\<close>, and their sum is within \<open>max_size\<close>.\<close>

definition files_within_budget :: "mcap_writer \<Rightarrow> bool" where
  "files_within_budget w =
     (list_all (\<lambda>f. snd f \<le> max_file_size (configuration w)) (ft_closed (file_tracker w))
      \<and> sum_list (map snd (ft_closed (file_tracker w))) \<le> max_size (configuration w))"

text \<open>
  The runs the budget is proved for, given whether the writer records types and the length
  of the staged payload (0 when there is none): no attachment is handed to \<open>write\<close>
  directly, and on a writer that does not record types no payload is replaced by a shorter
  one.
\<close>

fun budgeted :: "bool \<Rightarrow> nat \<Rightarrow> call list \<Rightarrow> bool" where
  "budgeted rt l [] = True"
| "budgeted rt l (Write (RAttachment a) # cs) = False"
| "budgeted rt l (UpdateDynamicTypes p # cs) =
     ((rt \<or> l \<le> payload_length p) \<and> budgeted rt (payload_length p) cs)"
| "budgeted rt l (c # cs) = budgeted rt l cs"

text \<open>The bytes of the staged attachment that closing the file will commit.\<close>

definition pending_attachment :: "mcap_writer \<Rightarrow> nat" where
  "pending_attachment w = (if record_types w then staged_length w else 0)"

text \<open>The part of the state the budget is read from.\<close>

definition ledger :: "mcap_writer \<Rightarrow> output_settings \<times> output_settings \<times> nat \<times> (nat \<times> nat) list" where
  "ledger w =
     (configuration w, ft_configuration (file_tracker w), ft_total_size (file_tracker w),
      ft_closed (file_tracker w))"

text \<open>
  The file tracker has the writer's settings, its total is the sum of the closed files, and
  the closed files are within the budget.
\<close>

definition tracked :: "mcap_writer \<Rightarrow> bool" where
  "tracked w =
     (ft_configuration (file_tracker w) = configuration w
      \<and> max_size (configuration w) < 2 ^ 64
      \<and> ft_total_size (file_tracker w) = sum_list (map snd (ft_closed (file_tracker w)))
      \<and> ft_total_size (file_tracker w) \<le> max_size (configuration w)
      \<and> list_all (\<lambda>f. snd f \<le> max_file_size (configuration w)) (ft_closed (file_tracker w)))"

text \<open>
  While a file is open, the committed bytes and the staged attachment are covered by the
  reservations, the reservations are within the file's limit, and the file's ceiling is
  within both budgets.
\<close>

definition accounted :: "mcap_writer \<Rightarrow> bool" where
  "accounted w =
     (tracked w
      \<and> (ft_is_open (file_tracker w) \<longrightarrow>
           st_written (size_tracker w) + pending_attachment w \<le> st_potential (size_tracker w)
           \<and> st_potential (size_tracker w)
               \<le> st_max_file_size (size_tracker w) - st_safety_margin (size_tracker w)
           \<and> st_max_file_size (size_tracker w) \<le> max_file_size (configuration w)
           \<and> ft_total_size (file_tracker w) + st_max_file_size (size_tracker w)
               \<le> max_size (configuration w)))"

text \<open>
  A freshly constructed writer on a file tracker without files, and three runs: one within
  the budget (a 20-byte payload and two messages, over two files), one that hands an
  attachment to \<open>write\<close>, and one that replaces a 50-byte payload by a 10-byte one on a
  writer that does not record types.
\<close>

definition example_fresh :: "output_settings \<Rightarrow> bool \<Rightarrow> mcap_writer" where
  "example_fresh cfg rt =
     McapWriter 10 6 example_tracker (example_codec []) cfg (FileTracker cfg) rt"

definition example_budget :: "nat \<Rightarrow> nat \<Rightarrow> output_settings" where
  "example_budget mfs ms = \<lparr>max_file_size = mfs, max_size = ms, safety_margin = 0\<rparr>"

definition example_run :: "call list" where
  "example_run =
     [Enable, UpdateDynamicTypes (example_payload 64 20), Write (RMessage (example_message 50)),
      Write (RMessage (example_message 30)), Disable]"

definition example_attachment_run :: "call list" where
  "example_attachment_run = [Enable, Write (RAttachment (example_attachment 95)), Disable]"

definition example_shorter_payload_run :: "call list" where
  "example_shorter_payload_run =
     [Enable, UpdateDynamicTypes (example_payload 64 50), Disable, Enable,
      Write (RMessage (example_message 40)), UpdateDynamicTypes (example_payload 64 10),
      Write (RMessage (example_message 40)), Write (RMessage (example_message 40)), Disable]"

section \<open>Unfolding rules\<close>

lemmas tracker_defs = st_init_def st_reserve_def st_commit_def schema_to_write_def
  schema_written_def channel_to_write_def channel_written_def message_to_write_def
  message_written_def metadata_to_write_def metadata_written_def attachment_to_write_def
  attachment_to_write2_def attachment_written_def get_min_mcap_size_def
  get_potential_mcap_size_def get_written_mcap_size_def st_reset_def

lemmas file_tracker_defs = new_file_def get_current_filename_def get_total_size_def
  set_current_file_size_def close_file_def

lemmas codec_defs = next_fault_def codec_open_def codec_write_def codec_add_def codec_close_def
  codec_accepts_def

lemmas write_nts_defs = write_nts_attachment_def write_nts_channel_def write_nts_message_def
  write_nts_metadata_def write_nts_schema_def on_tracker_def note_file_size_def

lemmas writer_defs = enable_def disable_def open_new_file_nts_def close_current_file_nts_def
  on_mcap_full_nts_def update_dynamic_types_def update_dynamic_types_payload_def
  stage_payload_def on_disk_full_def set_on_disk_full_callback_def and_then_def
  write_metadata_nts_def write_schemas_nts_def write_channels_nts_def
  reserve_staged_attachment_def version_metadata_def write_attachment_nts_def
  dynamic_types_attachment_def u64_sub_def u64_add_def McapWriter_write_def final_size_def
  staged_length_def

lemmas example_defs = example_tracker_def example_file_tracker_def example_codec_def
  example_writer_def example_message_def example_schema_def example_channel_def
  example_payload_def example_attachment_def example_open_def McapWriter_def

lemmas eval_defs = writer_defs write_nts_defs tracker_defs file_tracker_defs codec_defs
  example_defs Let_def

section \<open>Reservation and commit in a single write\<close>

lemma write_nts_current_size:
  "write_nts r w = (None, w') \<Longrightarrow> write_goes_through r w \<Longrightarrow>
   ft_current_size (file_tracker w') = get_potential_mcap_size (size_tracker w')"
  by (cases r)
     (auto simp: write_nts_defs tracker_defs file_tracker_defs codec_defs Let_def
           split: if_splits sum.splits prod.splits option.splits)

lemma close_file_tracker:
  "ft_is_open (file_tracker w) \<Longrightarrow>
   file_tracker (close_current_file_nts w) =
     (file_tracker w)\<lparr>ft_current_size := final_size w,
        ft_total_size := ft_total_size (file_tracker w) + final_size w,
        ft_is_open := False,
        ft_closed := ft_closed (file_tracker w) @ [(ft_current_name (file_tracker w), final_size w)]\<rparr>"
  by (auto simp: close_current_file_nts_def write_attachment_nts_def final_size_def
        staged_length_def dynamic_types_attachment_def write_nts_defs tracker_defs
        file_tracker_defs codec_defs Let_def
      split: option.splits)

lemma write_nts_message_reserves_first:
  "enabled w \<Longrightarrow>
   (message_to_write (msg_dataSize m) (size_tracker w) = Inl e \<longrightarrow>
      write_nts_message m w = (Some e, w))
   \<and> (\<not> codec_accepts (writer w) \<longrightarrow>
        message_to_write (msg_dataSize m) (size_tracker w) = Inr st \<longrightarrow>
        write_nts_message m w =
          (None, w\<lparr>size_tracker := st,
                    writer := (writer w)\<lparr>cd_faults := tl (cd_faults (writer w))\<rparr>\<rparr>)
        \<and> get_written_mcap_size st = get_written_mcap_size (size_tracker w)
        \<and> get_potential_mcap_size st =
            get_potential_mcap_size (size_tracker w) + msg_dataSize m)"
  by (auto simp: write_nts_defs tracker_defs codec_defs Let_def split: if_splits)

lemma write_nts_metadata_reserves_first:
  "(metadata_to_write md (size_tracker w) = Inl e \<longrightarrow>
      write_nts_metadata md w = (Some e, w))
   \<and> (\<not> codec_accepts (writer w) \<longrightarrow>
        metadata_to_write md (size_tracker w) = Inr st \<longrightarrow>
        write_nts_metadata md w =
          (None, w\<lparr>size_tracker := st,
                    writer := (writer w)\<lparr>cd_faults := tl (cd_faults (writer w))\<rparr>\<rparr>)
        \<and> get_written_mcap_size st = get_written_mcap_size (size_tracker w)
        \<and> get_potential_mcap_size st =
            get_potential_mcap_size (size_tracker w) + metadata_size md)"
  by (auto simp: write_nts_defs tracker_defs codec_defs Let_def split: if_splits)

lemma write_nts_attachment_never_reserves:
  "get_potential_mcap_size (size_tracker (write_nts_attachment a w)) =
     get_potential_mcap_size (size_tracker w)
   \<and> (\<not> codec_accepts (writer w) \<longrightarrow>
        write_nts_attachment a w =
          w\<lparr>writer := (writer w)\<lparr>cd_faults := tl (cd_faults (writer w))\<rparr>\<rparr>)"
  by (auto simp: write_nts_defs tracker_defs codec_defs file_tracker_defs Let_def
      split: if_splits)

text \<open>
  Claim C3, as the code has it.  A message or metadata write reserves before it calls the
  library: when the reservation raises FileFull the call leaves with that exception and the
  state, the library included, untouched; when the reservation is granted and the library
  reports an error, the call returns with the reservation in place, the committed size
  unchanged, and the writer otherwise as it was (still enabled, file tracker untouched).
  An attachment write makes no reservation of its own (the bytes were reserved when the
  payload was staged): it never changes the potential size, and on an error of the library
  it changes nothing but the library's state.
\<close>

theorem codec_error_keeps_written_size:
  "(enabled w \<longrightarrow>
      (message_to_write (msg_dataSize m) (size_tracker w) = Inl e \<longrightarrow>
         write_nts_message m w = (Some e, w))
      \<and> (\<not> codec_accepts (writer w) \<longrightarrow>
           message_to_write (msg_dataSize m) (size_tracker w) = Inr st \<longrightarrow>
           write_nts_message m w =
             (None, w\<lparr>size_tracker := st,
                       writer := (writer w)\<lparr>cd_faults := tl (cd_faults (writer w))\<rparr>\<rparr>)
           \<and> get_written_mcap_size st = get_written_mcap_size (size_tracker w)
           \<and> get_potential_mcap_size st =
               get_potential_mcap_size (size_tracker w) + msg_dataSize m))
   \<and> (metadata_to_write md (size_tracker w) = Inl e' \<longrightarrow>
         write_nts_metadata md w = (Some e', w))
   \<and> (\<not> codec_accepts (writer w) \<longrightarrow>
         metadata_to_write md (size_tracker w) = Inr st' \<longrightarrow>
         write_nts_metadata md w =
           (None, w\<lparr>size_tracker := st',
                     writer := (writer w)\<lparr>cd_faults := tl (cd_faults (writer w))\<rparr>\<rparr>)
         \<and> get_written_mcap_size st' = get_written_mcap_size (size_tracker w)
         \<and> get_potential_mcap_size st' =
             get_potential_mcap_size (size_tracker w) + metadata_size md)
   \<and> get_potential_mcap_size (size_tracker (write_nts_attachment a w)) =
         get_potential_mcap_size (size_tracker w)
   \<and> (\<not> codec_accepts (writer w) \<longrightarrow>
         write_nts_attachment a w =
           w\<lparr>writer := (writer w)\<lparr>cd_faults := tl (cd_faults (writer w))\<rparr>\<rparr>)"
  using write_nts_message_reserves_first [of w m e st]
    write_nts_metadata_reserves_first [of md w e' st']
    write_nts_attachment_never_reserves [of a w]
  by blast

text \<open>
  A witness: an open file of 100 bytes holding 10, and a library whose next write fails.
  A message of 30 bytes is reserved and not committed; one of 95 bytes is refused before
  the library is called.
\<close>

theorem codec_error_keeps_written_size_witness:
  "enabled (example_open False [False, False, True])
   \<and> \<not> codec_accepts (writer (example_open False [False, False, True]))
   \<and> write_nts_message (example_message 95) (example_open False [False, False, True]) =
       (Some (FullFileException 95), example_open False [False, False, True])
   \<and> fst (write_nts_message (example_message 30) (example_open False [False, False, True])) = None
   \<and> get_written_mcap_size (size_tracker (snd (write_nts_message (example_message 30)
         (example_open False [False, False, True])))) = 10
   \<and> get_potential_mcap_size (size_tracker (snd (write_nts_message (example_message 30)
         (example_open False [False, False, True])))) = 40
   \<and> enabled (snd (write_nts_message (example_message 30)
         (example_open False [False, False, True])))
   \<and> size_tracker (write_nts_attachment (example_attachment 5)
         (example_open False [False, False, True])) =
       size_tracker (example_open False [False, False, True])"
proof -
  let ?w = "example_open False [False, False, True]"
  let ?st = "(size_tracker ?w)\<lparr>st_potential := 40\<rparr>"
  have en: "enabled ?w" by (simp add: eval_defs)
  have na: "\<not> codec_accepts (writer ?w)" by (simp add: eval_defs)
  have full: "message_to_write (msg_dataSize (example_message 95)) (size_tracker ?w)
      = Inl (FullFileException 95)"
    by (simp add: eval_defs)
  have ok: "message_to_write (msg_dataSize (example_message 30)) (size_tracker ?w) = Inr ?st"
    by (simp add: eval_defs)
  have md: "metadata_to_write (version_metadata ?w) (size_tracker ?w)
      = Inr ((size_tracker ?w)\<lparr>st_potential := 16\<rparr>)"
    by (simp add: eval_defs)
  note a = codec_error_keeps_written_size [of ?w "example_message 95" "FullFileException 95"
      ?st "version_metadata ?w" invalid_argument "(size_tracker ?w)\<lparr>st_potential := 16\<rparr>"
      "example_attachment 5"]
  note b = codec_error_keeps_written_size [of ?w "example_message 30" invalid_argument
      ?st "version_metadata ?w" invalid_argument "(size_tracker ?w)\<lparr>st_potential := 16\<rparr>"
      "example_attachment 5"]
  from a en full have 1: "write_nts_message (example_message 95) ?w
      = (Some (FullFileException 95), ?w)" by blast
  from b en na ok have 2: "write_nts_message (example_message 30) ?w =
      (None, ?w\<lparr>size_tracker := ?st,
                 writer := (writer ?w)\<lparr>cd_faults := tl (cd_faults (writer ?w))\<rparr>\<rparr>)"
    by blast
  from b na have 3: "write_nts_attachment (example_attachment 5) ?w =
      ?w\<lparr>writer := (writer ?w)\<lparr>cd_faults := tl (cd_faults (writer ?w))\<rparr>\<rparr>"
    by blast
  have 4: "get_written_mcap_size ?st = 10" "get_potential_mcap_size ?st = 40"
    by (simp_all add: eval_defs)
  show ?thesis using en na 1 2 3 4 by simp
qed

text \<open>
  The claim as stated fails for attachments: on the open example file (10 bytes reserved and
  written) a 5-byte attachment is accepted by the library and committed, and the potential
  size is still 10: nothing was reserved for it.
\<close>

theorem attachment_write_reserves_nothing:
  "cd_trace (writer (write_nts_attachment (example_attachment 5) (example_open False []))) =
     cd_trace (writer (example_open False [])) @ [Wrote (RAttachment (example_attachment 5))]
   \<and> get_potential_mcap_size (size_tracker (example_open False [])) = 10
   \<and> get_potential_mcap_size
       (size_tracker (write_nts_attachment (example_attachment 5) (example_open False []))) = 10
   \<and> get_written_mcap_size
       (size_tracker (write_nts_attachment (example_attachment 5) (example_open False []))) = 15"
  by (simp add: eval_defs)

text \<open>
  Claim C10.  After a write that goes through, the file tracker's current file size is the
  potential size (written plus reserved bytes).  When an open file is closed, the size
  recorded for it, and added to the cumulative total, is \<open>final_size\<close>: the committed bytes
  (with the attachment, if one was staged, recorded and accepted), whatever was reserved.
\<close>

theorem closed_size_is_written_size:
  "(write_nts r w = (None, w') \<longrightarrow> write_goes_through r w \<longrightarrow>
      ft_current_size (file_tracker w') = get_potential_mcap_size (size_tracker w'))
   \<and> (ft_is_open (file_tracker w) \<longrightarrow>
      ft_closed (file_tracker (close_current_file_nts w)) =
        ft_closed (file_tracker w) @ [(ft_current_name (file_tracker w), final_size w)]
      \<and> ft_total_size (file_tracker (close_current_file_nts w)) =
        ft_total_size (file_tracker w) + final_size w)"
  using write_nts_current_size [of r w w'] close_file_tracker [of w] by simp

text \<open>
  A witness: a 30-byte message that goes through leaves the current size at 40; when the
  library refuses it, 40 bytes are potential, 10 committed, and the closed file counts 10.
\<close>

theorem closed_size_is_written_size_witness:
  "write_goes_through (RMessage (example_message 30)) (example_open False [])
   \<and> fst (write_nts (RMessage (example_message 30)) (example_open False [])) = None
   \<and> ft_current_size (file_tracker (snd (write_nts (RMessage (example_message 30))
         (example_open False [])))) = 40
   \<and> ft_is_open (file_tracker (snd (write_nts_message (example_message 30)
         (example_open False [False, False, True]))))
   \<and> get_potential_mcap_size (size_tracker (snd (write_nts_message (example_message 30)
         (example_open False [False, False, True])))) = 40
   \<and> ft_closed (file_tracker (close_current_file_nts (snd (write_nts_message
         (example_message 30) (example_open False [False, False, True]))))) = [(0, 10)]
   \<and> ft_total_size (file_tracker (close_current_file_nts (snd (write_nts_message
         (example_message 30) (example_open False [False, False, True]))))) = 10"
proof -
  let ?a = "example_open False []"
  let ?b = "snd (write_nts_message (example_message 30) (example_open False [False, False, True]))"
  have a: "write_nts (RMessage (example_message 30)) ?a
      = (None, snd (write_nts (RMessage (example_message 30)) ?a))"
    by (simp add: eval_defs)
  have g: "write_goes_through (RMessage (example_message 30)) ?a"
    by (simp add: eval_defs)
  have o: "ft_is_open (file_tracker ?b)"
    by (simp add: eval_defs)
  show ?thesis
    using closed_size_is_written_size [of "RMessage (example_message 30)" ?a
        "snd (write_nts (RMessage (example_message 30)) ?a)"] a g
      closed_size_is_written_size [of "RMessage (example_message 30)" ?b ?b] o
    by (simp add: eval_defs)
qed

section \<open>Closing a file\<close>

lemma close_trace:
  "cd_trace (writer (close_current_file_nts w)) =
     cd_trace (writer w)
     @ (if record_types w \<and> codec_accepts (writer w)
        then (case dynamic_types_payload w of
                None \<Rightarrow> [] | Some p \<Rightarrow> [Wrote (RAttachment (dynamic_types_attachment p))])
        else [])
     @ (if cd_is_open (writer w) then [Closed] else [])"
  by (auto simp: close_current_file_nts_def write_attachment_nts_def
        write_nts_defs tracker_defs file_tracker_defs codec_defs Let_def
      split: option.splits)

text \<open>
  Claim C5, as the code has it.  When \<open>record_types\<close> is set, a payload is staged and the
  library accepts the write, closing a file hands the library an attachment named
  \<open>dynamic_types\<close> with the data and the length of the staged payload, immediately before
  the library is closed.  When no payload is staged the file is closed without attachment.
\<close>

theorem close_writes_staged_attachment:
  "(record_types w \<longrightarrow> dynamic_types_payload w = Some p \<longrightarrow> codec_accepts (writer w) \<longrightarrow>
      cd_trace (writer (close_current_file_nts w)) =
        cd_trace (writer w) @ [Wrote (RAttachment (dynamic_types_attachment p)), Closed]
      \<and> attachment_dataSize (dynamic_types_attachment p) = payload_length p
      \<and> attachment_data (dynamic_types_attachment p) = payload_data p
      \<and> attachment_name (dynamic_types_attachment p) = DYNAMIC_TYPES_ATTACHMENT_NAME)
   \<and> (dynamic_types_payload w = None \<longrightarrow> cd_is_open (writer w) \<longrightarrow>
      cd_trace (writer (close_current_file_nts w)) = cd_trace (writer w) @ [Closed])"
  using close_trace [of w]
  by (auto simp: codec_accepts_def dynamic_types_attachment_def)

text \<open>
  A witness: a 20-byte payload staged on the open example file and the trace of its close;
  and the open example file before any payload is staged.
\<close>

theorem close_writes_staged_attachment_witness:
  "record_types (snd (update_dynamic_types (example_payload 64 20) (example_open True [])))
   \<and> dynamic_types_payload (snd (update_dynamic_types (example_payload 64 20) (example_open True [])))
       = Some (example_payload 64 20)
   \<and> codec_accepts (writer (snd (update_dynamic_types (example_payload 64 20) (example_open True []))))
   \<and> cd_trace (writer (close_current_file_nts
         (snd (update_dynamic_types (example_payload 64 20) (example_open True []))))) =
       [Opened 0, Wrote (RMetadata (version_metadata (example_open True []))),
        Wrote (RAttachment \<lparr>attachment_name = ''dynamic_types'', attachment_data = 72,
                             attachment_dataSize = 20\<rparr>), Closed]
   \<and> dynamic_types_payload (example_open True []) = None
   \<and> cd_is_open (writer (example_open True []))"
proof -
  let ?w = "snd (update_dynamic_types (example_payload 64 20) (example_open True []))"
  have 1: "record_types ?w" by (simp add: eval_defs)
  have 2: "dynamic_types_payload ?w = Some (example_payload 64 20)" by (simp add: eval_defs)
  have 3: "codec_accepts (writer ?w)" by (simp add: eval_defs)
  have 4: "dynamic_types_payload (example_open True []) = None" by (simp add: eval_defs)
  have 5: "cd_is_open (writer (example_open True []))" by (simp add: eval_defs)
  have 6: "cd_trace (writer ?w) =
      [Opened 0, Wrote (RMetadata (version_metadata (example_open True [])))]"
    by (simp add: eval_defs)
  show ?thesis
    using close_writes_staged_attachment [of ?w "example_payload 64 20"] 1 2 3 4 5 6
      close_writes_staged_attachment [of "example_open True []" "example_payload 64 20"]
    by (simp add: dynamic_types_attachment_def example_payload_def DYNAMIC_TYPES_ATTACHMENT_NAME_def)
qed

text \<open>
  The claim as stated fails: with \<open>record_types\<close> set, a file opened and closed before any
  payload has been staged holds the version metadata and no attachment.
\<close>

theorem closed_file_without_attachment:
  "record_types (example_open True [])
   \<and> cd_trace (writer (disable (example_open True []))) =
       [Opened 0, Wrote (RMetadata (version_metadata (example_open True []))), Closed]
   \<and> ft_closed (file_tracker (disable (example_open True []))) = [(0, 10)]"
  by (simp add: eval_defs)

section \<open>What a write leaves alone\<close>

lemma accounting_erasedD:
  assumes "accounting_erased w' = accounting_erased w"
  shows "configuration w' = configuration w" "record_types w' = record_types w"
    "enabled w' = enabled w" "dynamic_types_payload w' = dynamic_types_payload w"
    "on_disk_full_lambda w' = on_disk_full_lambda w" "lambda_calls w' = lambda_calls w"
    "monitor_errors w' = monitor_errors w" "MIN_MCAP_SIZE w' = MIN_MCAP_SIZE w"
    "version_metadata_size w' = version_metadata_size w"
    "VERSION_STRING w' = VERSION_STRING w" "COMMIT_HASH w' = COMMIT_HASH w"
    "cd_is_open (writer w') = cd_is_open (writer w)"
    "ft_configuration (file_tracker w') = ft_configuration (file_tracker w)"
    "ft_total_size (file_tracker w') = ft_total_size (file_tracker w)"
    "ft_current_name (file_tracker w') = ft_current_name (file_tracker w)"
    "ft_is_open (file_tracker w') = ft_is_open (file_tracker w)"
    "ft_created (file_tracker w') = ft_created (file_tracker w)"
    "ft_closed (file_tracker w') = ft_closed (file_tracker w)"
    "st_overhead (size_tracker w') = st_overhead (size_tracker w)"
    "st_min_base (size_tracker w') = st_min_base (size_tracker w)"
    "st_max_file_size (size_tracker w') = st_max_file_size (size_tracker w)"
    "st_safety_margin (size_tracker w') = st_safety_margin (size_tracker w)"
    "st_attachment (size_tracker w') = st_attachment (size_tracker w)"
proof -
  have c: "f (accounting_erased w') = f (accounting_erased w)" for f :: "mcap_writer \<Rightarrow> 'b"
    using assms by simp
  show "configuration w' = configuration w" using c [of configuration]
    by (simp add: accounting_erased_def)
  show "record_types w' = record_types w" using c [of record_types]
    by (simp add: accounting_erased_def)
  show "enabled w' = enabled w" using c [of enabled]
    by (simp add: accounting_erased_def)
  show "dynamic_types_payload w' = dynamic_types_payload w" using c [of dynamic_types_payload]
    by (simp add: accounting_erased_def)
  show "on_disk_full_lambda w' = on_disk_full_lambda w" using c [of on_disk_full_lambda]
    by (simp add: accounting_erased_def)
  show "lambda_calls w' = lambda_calls w" using c [of lambda_calls]
    by (simp add: accounting_erased_def)
  show "monitor_errors w' = monitor_errors w" using c [of monitor_errors]
    by (simp add: accounting_erased_def)
  show "MIN_MCAP_SIZE w' = MIN_MCAP_SIZE w" using c [of MIN_MCAP_SIZE]
    by (simp add: accounting_erased_def)
  show "version_metadata_size w' = version_metadata_size w" using c [of version_metadata_size]
    by (simp add: accounting_erased_def)
  show "VERSION_STRING w' = VERSION_STRING w" using c [of VERSION_STRING]
    by (simp add: accounting_erased_def)
  show "COMMIT_HASH w' = COMMIT_HASH w" using c [of COMMIT_HASH]
    by (simp add: accounting_erased_def)
  show "cd_is_open (writer w') = cd_is_open (writer w)"
    using c [of "\<lambda>w. cd_is_open (writer w)"] by (simp add: accounting_erased_def)
  show "ft_configuration (file_tracker w') = ft_configuration (file_tracker w)"
    using c [of "\<lambda>w. ft_configuration (file_tracker w)"] by (simp add: accounting_erased_def)
  show "ft_total_size (file_tracker w') = ft_total_size (file_tracker w)"
    using c [of "\<lambda>w. ft_total_size (file_tracker w)"] by (simp add: accounting_erased_def)
  show "ft_current_name (file_tracker w') = ft_current_name (file_tracker w)"
    using c [of "\<lambda>w. ft_current_name (file_tracker w)"] by (simp add: accounting_erased_def)
  show "ft_is_open (file_tracker w') = ft_is_open (file_tracker w)"
    using c [of "\<lambda>w. ft_is_open (file_tracker w)"] by (simp add: accounting_erased_def)
  show "ft_created (file_tracker w') = ft_created (file_tracker w)"
    using c [of "\<lambda>w. ft_created (file_tracker w)"] by (simp add: accounting_erased_def)
  show "ft_closed (file_tracker w') = ft_closed (file_tracker w)"
    using c [of "\<lambda>w. ft_closed (file_tracker w)"] by (simp add: accounting_erased_def)
  show "st_overhead (size_tracker w') = st_overhead (size_tracker w)"
    using c [of "\<lambda>w. st_overhead (size_tracker w)"] by (simp add: accounting_erased_def)
  show "st_min_base (size_tracker w') = st_min_base (size_tracker w)"
    using c [of "\<lambda>w. st_min_base (size_tracker w)"] by (simp add: accounting_erased_def)
  show "st_max_file_size (size_tracker w') = st_max_file_size (size_tracker w)"
    using c [of "\<lambda>w. st_max_file_size (size_tracker w)"] by (simp add: accounting_erased_def)
  show "st_safety_margin (size_tracker w') = st_safety_margin (size_tracker w)"
    using c [of "\<lambda>w. st_safety_margin (size_tracker w)"] by (simp add: accounting_erased_def)
  show "st_attachment (size_tracker w') = st_attachment (size_tracker w)"
    using c [of "\<lambda>w. st_attachment (size_tracker w)"] by (simp add: accounting_erased_def)
qed

lemma write_nts_erased:
  "write_nts r w = (e, w') \<Longrightarrow> accounting_erased w' = accounting_erased w"
  by (cases r)
     (auto simp: accounting_erased_def write_nts_defs tracker_defs file_tracker_defs codec_defs
           Let_def split: if_splits)

lemma write_each_erased:
  "(\<And>x w e w'. f x w = (e, w') \<Longrightarrow> accounting_erased w' = accounting_erased w) \<Longrightarrow>
   write_each f xs w = (e, w') \<Longrightarrow> accounting_erased w' = accounting_erased w"
proof (induction xs arbitrary: w)
  case Nil
  then show ?case by simp
next
  case (Cons x xs)
  obtain e1 w1 where f: "f x w = (e1, w1)" by (cases "f x w")
  then have 1: "accounting_erased w1 = accounting_erased w" using Cons.prems(1) by blast
  show ?case
  proof (cases e1)
    case None
    with f Cons.prems(2) have "write_each f xs w1 = (e, w')" by simp
    then show ?thesis using Cons.IH Cons.prems(1) 1 by metis
  next
    case (Some a)
    with f Cons.prems(2) show ?thesis using 1 by simp
  qed
qed

lemma and_then_None:
  "and_then f g w = (None, w') \<Longrightarrow> \<exists>w1. f w = (None, w1) \<and> g w1 = (None, w')"
  by (auto simp: and_then_def split: prod.splits option.splits)

lemma write_each_schema_ok:
  "write_each write_nts_schema xs w = (None, w') \<Longrightarrow>
   cd_trace (writer w') = cd_trace (writer w) @ map (\<lambda>s. Wrote (RSchema s)) xs
   \<and> cd_faults (writer w') = cd_faults (writer w)
   \<and> st_potential (size_tracker w') = st_potential (size_tracker w) + sum_list (map schema_size xs)
   \<and> st_written (size_tracker w') = st_written (size_tracker w) + sum_list (map schema_size xs)
   \<and> channels w' = channels w"
proof (induction xs arbitrary: w)
  case Nil
  then show ?case by simp
next
  case (Cons x xs)
  from Cons.prems obtain w1 where 1: "write_nts_schema x w = (None, w1)"
    and 2: "write_each write_nts_schema xs w1 = (None, w')"
    by (auto split: prod.splits option.splits)
  from 1 have "cd_trace (writer w1) = cd_trace (writer w) @ [Wrote (RSchema x)]
      \<and> cd_faults (writer w1) = cd_faults (writer w)
      \<and> st_potential (size_tracker w1) = st_potential (size_tracker w) + schema_size x
      \<and> st_written (size_tracker w1) = st_written (size_tracker w) + schema_size x
      \<and> channels w1 = channels w"
    by (auto simp: write_nts_defs tracker_defs codec_defs Let_def split: if_splits)
  with Cons.IH [OF 2] show ?case by simp
qed

lemma write_each_channel_ok:
  "write_each write_nts_channel xs w = (None, w') \<Longrightarrow>
   cd_trace (writer w') = cd_trace (writer w) @ map (\<lambda>c. Wrote (RChannel c)) xs
   \<and> cd_faults (writer w') = cd_faults (writer w)
   \<and> st_potential (size_tracker w') = st_potential (size_tracker w) + sum_list (map channel_size xs)
   \<and> st_written (size_tracker w') = st_written (size_tracker w) + sum_list (map channel_size xs)
   \<and> schemas w' = schemas w"
proof (induction xs arbitrary: w)
  case Nil
  then show ?case by simp
next
  case (Cons x xs)
  from Cons.prems obtain w1 where 1: "write_nts_channel x w = (None, w1)"
    and 2: "write_each write_nts_channel xs w1 = (None, w')"
    by (auto split: prod.splits option.splits)
  from 1 have "cd_trace (writer w1) = cd_trace (writer w) @ [Wrote (RChannel x)]
      \<and> cd_faults (writer w1) = cd_faults (writer w)
      \<and> st_potential (size_tracker w1) = st_potential (size_tracker w) + channel_size x
      \<and> st_written (size_tracker w1) = st_written (size_tracker w) + channel_size x
      \<and> schemas w1 = schemas w"
    by (auto simp: write_nts_defs tracker_defs codec_defs Let_def split: if_splits)
  with Cons.IH [OF 2] show ?case by simp
qed

lemma write_schemas_nts_ok:
  "write_schemas_nts w = (None, w') \<Longrightarrow>
   cd_trace (writer w') = cd_trace (writer w) @ map (\<lambda>s. Wrote (RSchema s)) (schemas w)
   \<and> cd_faults (writer w') = cd_faults (writer w)
   \<and> st_potential (size_tracker w') =
       st_potential (size_tracker w) + sum_list (map schema_size (schemas w))
   \<and> st_written (size_tracker w') =
       st_written (size_tracker w) + sum_list (map schema_size (schemas w))
   \<and> channels w' = channels w
   \<and> accounting_erased w' = accounting_erased w"
  using write_each_schema_ok [of "schemas w" w w']
    write_each_erased [of write_nts_schema "schemas w" w None w']
    write_nts_erased [of "RSchema s" for s]
  by (auto simp: write_schemas_nts_def split: if_splits)

lemma write_channels_nts_ok:
  "write_channels_nts w = (None, w') \<Longrightarrow>
   cd_trace (writer w') = cd_trace (writer w) @ map (\<lambda>c. Wrote (RChannel c)) (channels w)
   \<and> cd_faults (writer w') = cd_faults (writer w)
   \<and> st_potential (size_tracker w') =
       st_potential (size_tracker w) + sum_list (map channel_size (channels w))
   \<and> st_written (size_tracker w') =
       st_written (size_tracker w) + sum_list (map channel_size (channels w))
   \<and> schemas w' = schemas w
   \<and> accounting_erased w' = accounting_erased w"
  using write_each_channel_ok [of "channels w" w w']
    write_each_erased [of write_nts_channel "channels w" w None w']
    write_nts_erased [of "RChannel c" for c]
  by (auto simp: write_channels_nts_def split: if_splits)

lemma write_metadata_nts_ok:
  "write_metadata_nts w = (None, w') \<Longrightarrow>
   (\<exists>md. (md = [] \<or> md = [Wrote (RMetadata (version_metadata w))])
      \<and> cd_trace (writer w') = cd_trace (writer w) @ md)
   \<and> st_potential (size_tracker w') = st_potential (size_tracker w) + version_metadata_size w
   \<and> st_written (size_tracker w') \<le> st_written (size_tracker w) + version_metadata_size w
   \<and> st_written (size_tracker w) \<le> st_written (size_tracker w')
   \<and> schemas w' = schemas w \<and> channels w' = channels w
   \<and> accounting_erased w' = accounting_erased w"
  by (auto simp: write_metadata_nts_def version_metadata_def accounting_erased_def
        write_nts_defs tracker_defs codec_defs file_tracker_defs Let_def
      split: if_splits)

lemma reserve_staged_attachment_ok:
  "reserve_staged_attachment w = (None, w') \<Longrightarrow>
   w' = w\<lparr>size_tracker := (size_tracker w)
          \<lparr>st_potential := st_potential (size_tracker w)
              + (if record_types w then staged_length w else 0),
            st_attachment := (if record_types w \<and> dynamic_types_payload w \<noteq> None
                              then staged_length w else st_attachment (size_tracker w))\<rparr>\<rparr>"
  by (auto simp: reserve_staged_attachment_def staged_length_def on_tracker_def tracker_defs
      split: option.splits if_splits sum.splits)

lemma open_new_file_nts_ok:
  assumes "open_new_file_nts m w = (None, w')"
  shows "m \<le> max_file_size (ft_configuration (file_tracker w))"
    and "ft_total_size (file_tracker w) + m \<le> max_size (ft_configuration (file_tracker w))"
    and "file_tracker w' = (file_tracker w)
           \<lparr>ft_current_name := ft_created (file_tracker w),
            ft_current_size := st_potential (size_tracker w'),
            ft_is_open := True, ft_created := ft_created (file_tracker w) + 1\<rparr>"
    and "size_tracker w' = (size_tracker w)
           \<lparr>st_max_file_size := min (max_file_size (configuration w))
               (u64_sub (max_size (configuration w)) (ft_total_size (file_tracker w))),
            st_safety_margin := safety_margin (configuration w),
            st_potential := st_potential (size_tracker w'),
            st_written := st_written (size_tracker w'),
            st_attachment := (if record_types w \<and> dynamic_types_payload w \<noteq> None
                              then staged_length w else st_attachment (size_tracker w))\<rparr>"
    and "st_potential (size_tracker w') =
           st_overhead (size_tracker w) + version_metadata_size w
           + sum_list (map schema_size (schemas w)) + sum_list (map channel_size (channels w))
           + (if record_types w then staged_length w else 0)"
    and "st_written (size_tracker w') + (if record_types w then staged_length w else 0)
           \<le> st_potential (size_tracker w')"
    and "st_overhead (size_tracker w) \<le> st_written (size_tracker w')"
    and "\<exists>md. (md = [] \<or> md = [Wrote (RMetadata (version_metadata w))])
           \<and> cd_trace (writer w') =
               cd_trace (writer w) @ Opened (ft_created (file_tracker w)) # md
               @ map (\<lambda>s. Wrote (RSchema s)) (schemas w)
               @ map (\<lambda>c. Wrote (RChannel c)) (channels w)"
    and "cd_is_open (writer w')"
    and "configuration w' = configuration w" and "record_types w' = record_types w"
    and "enabled w' = enabled w" and "dynamic_types_payload w' = dynamic_types_payload w"
    and "on_disk_full_lambda w' = on_disk_full_lambda w" and "lambda_calls w' = lambda_calls w"
    and "monitor_errors w' = monitor_errors w" and "MIN_MCAP_SIZE w' = MIN_MCAP_SIZE w"
    and "version_metadata_size w' = version_metadata_size w"
proof -
  from assms obtain ft where nf: "new_file m (file_tracker w) = Inr ft"
    by (auto simp: open_new_file_nts_def split: sum.splits exn.splits)
  then have ft: "ft = (file_tracker w)\<lparr>ft_current_name := ft_created (file_tracker w),
      ft_current_size := 0, ft_is_open := True, ft_created := ft_created (file_tracker w) + 1\<rparr>"
    and m1: "m \<le> max_file_size (ft_configuration (file_tracker w))"
    and m2: "ft_total_size (file_tracker w) + m \<le> max_size (ft_configuration (file_tracker w))"
    by (auto simp: new_file_def split: if_splits)
  define w3 where "w3 = w\<lparr>file_tracker := ft,
      writer := (writer w)\<lparr>cd_is_open := True,
         cd_trace := cd_trace (writer w) @ [Opened (ft_created (file_tracker w))],
         cd_faults := tl (cd_faults (writer w))\<rparr>,
      size_tracker := st_init (min (max_file_size (configuration w))
              (u64_sub (max_size (configuration w)) (ft_total_size (file_tracker w))))
            (safety_margin (configuration w)) (size_tracker w)\<rparr>"
  from assms nf have run: "and_then write_metadata_nts
      (and_then write_schemas_nts
         (and_then write_channels_nts
            (and_then reserve_staged_attachment (\<lambda>w. (None, note_file_size w))))) w3
      = (None, w')"
    by (auto simp: open_new_file_nts_def w3_def ft codec_open_def file_tracker_defs Let_def
        split: if_splits)
  from and_then_None [OF run] obtain w4 where 4: "write_metadata_nts w3 = (None, w4)"
    and r4: "and_then write_schemas_nts
         (and_then write_channels_nts
            (and_then reserve_staged_attachment (\<lambda>w. (None, note_file_size w)))) w4 = (None, w')"
    by blast
  from and_then_None [OF r4] obtain w5 where 5: "write_schemas_nts w4 = (None, w5)"
    and r5: "and_then write_channels_nts
            (and_then reserve_staged_attachment (\<lambda>w. (None, note_file_size w))) w5 = (None, w')"
    by blast
  from and_then_None [OF r5] obtain w6 where 6: "write_channels_nts w5 = (None, w6)"
    and r6: "and_then reserve_staged_attachment (\<lambda>w. (None, note_file_size w)) w6 = (None, w')"
    by blast
  from and_then_None [OF r6] obtain w7 where 7: "reserve_staged_attachment w6 = (None, w7)"
    and 8: "w' = note_file_size w7"
    by auto
  note k4 = write_metadata_nts_ok [OF 4]
  note k5 = write_schemas_nts_ok [OF 5]
  note k6 = write_channels_nts_ok [OF 6]
  note k7 = reserve_staged_attachment_ok [OF 7]
  have e6: "accounting_erased w6 = accounting_erased w3" using k4 k5 k6 by simp
  note d6 = accounting_erasedD [OF e6]
  have s3: "schemas w3 = schemas w" "channels w3 = channels w"
    "st_potential (size_tracker w3) = st_overhead (size_tracker w)"
    "st_written (size_tracker w3) = st_overhead (size_tracker w)"
    "version_metadata_size w3 = version_metadata_size w"
    "version_metadata w3 = version_metadata w"
    by (simp_all add: w3_def st_init_def version_metadata_def)
  have sc: "schemas w4 = schemas w" "channels w5 = channels w"
    using k4 k5 s3 by simp_all
  have p6: "st_potential (size_tracker w6) =
      st_overhead (size_tracker w) + version_metadata_size w
      + sum_list (map schema_size (schemas w)) + sum_list (map channel_size (channels w))"
    using k4 k5 k6 s3 sc by simp
  have wr6: "st_written (size_tracker w6) \<le> st_potential (size_tracker w6)"
    "st_overhead (size_tracker w) \<le> st_written (size_tracker w6)"
    using k4 k5 k6 s3 sc by simp_all
  have rt6: "record_types w6 = record_types w" "staged_length w6 = staged_length w"
    "dynamic_types_payload w6 = dynamic_types_payload w"
    using d6 by (simp_all add: w3_def staged_length_def)
  show "m \<le> max_file_size (ft_configuration (file_tracker w))" by (rule m1)
  show "ft_total_size (file_tracker w) + m \<le> max_size (ft_configuration (file_tracker w))"
    by (rule m2)
  show "st_potential (size_tracker w') =
           st_overhead (size_tracker w) + version_metadata_size w
           + sum_list (map schema_size (schemas w)) + sum_list (map channel_size (channels w))
           + (if record_types w then staged_length w else 0)"
    using 8 k7 p6 rt6 by (simp add: note_file_size_def)
  show "st_written (size_tracker w') + (if record_types w then staged_length w else 0)
           \<le> st_potential (size_tracker w')"
    using 8 k7 wr6 rt6 by (simp add: note_file_size_def)
  show "st_overhead (size_tracker w) \<le> st_written (size_tracker w')"
    using 8 k7 wr6 by (simp add: note_file_size_def)
  have ft6: "(file_tracker w6)\<lparr>ft_current_size := 0\<rparr> = ft"
    using d6(13-18) by (simp add: w3_def ft)
  show "file_tracker w' = (file_tracker w)
           \<lparr>ft_current_name := ft_created (file_tracker w),
            ft_current_size := st_potential (size_tracker w'),
            ft_is_open := True, ft_created := ft_created (file_tracker w) + 1\<rparr>"
  proof -
    have "file_tracker w' = (file_tracker w6)\<lparr>ft_current_size := st_potential (size_tracker w')\<rparr>"
      using 8 k7 by (simp add: note_file_size_def file_tracker_defs tracker_defs)
    also have "\<dots> = ((file_tracker w6)\<lparr>ft_current_size := 0\<rparr>)
        \<lparr>ft_current_size := st_potential (size_tracker w')\<rparr>" by simp
    finally show ?thesis unfolding ft6 by (simp add: ft)
  qed
  show "size_tracker w' = (size_tracker w)
           \<lparr>st_max_file_size := min (max_file_size (configuration w))
               (u64_sub (max_size (configuration w)) (ft_total_size (file_tracker w))),
            st_safety_margin := safety_margin (configuration w),
            st_potential := st_potential (size_tracker w'),
            st_written := st_written (size_tracker w'),
            st_attachment := (if record_types w \<and> dynamic_types_payload w \<noteq> None
                              then staged_length w else st_attachment (size_tracker w))\<rparr>"
  proof -
    have a: "size_tracker w6 = (size_tracker w6)\<lparr>st_overhead := st_overhead (size_tracker w3),
        st_min_base := st_min_base (size_tracker w3),
        st_max_file_size := st_max_file_size (size_tracker w3),
        st_safety_margin := st_safety_margin (size_tracker w3),
        st_attachment := st_attachment (size_tracker w3)\<rparr>"
      using d6(19-23) by simp
    have b: "size_tracker w' = (size_tracker w6)\<lparr>st_potential := st_potential (size_tracker w'),
        st_attachment := (if record_types w \<and> dynamic_types_payload w \<noteq> None
                              then staged_length w else st_attachment (size_tracker w6))\<rparr>"
      using 8 k7 rt6 by (auto simp: note_file_size_def)
    have c: "st_written (size_tracker w') = st_written (size_tracker w6)"
      using 8 k7 by (simp add: note_file_size_def)
    show ?thesis
      apply (subst b) apply (subst a)
      apply (cases "size_tracker w6"; cases "size_tracker w")
      using c d6(19-23) by (auto simp: w3_def st_init_def)
  qed
  show "\<exists>md. (md = [] \<or> md = [Wrote (RMetadata (version_metadata w))])
           \<and> cd_trace (writer w') =
               cd_trace (writer w) @ Opened (ft_created (file_tracker w)) # md
               @ map (\<lambda>s. Wrote (RSchema s)) (schemas w)
               @ map (\<lambda>c. Wrote (RChannel c)) (channels w)"
  proof -
    from k4 obtain md where md: "md = [] \<or> md = [Wrote (RMetadata (version_metadata w3))]"
      "cd_trace (writer w4) = cd_trace (writer w3) @ md" by blast
    have "cd_trace (writer w') = cd_trace (writer w6)"
      using 8 k7 by (simp add: note_file_size_def)
    then have "cd_trace (writer w') = cd_trace (writer w) @ Opened (ft_created (file_tracker w)) # md
               @ map (\<lambda>s. Wrote (RSchema s)) (schemas w)
               @ map (\<lambda>c. Wrote (RChannel c)) (channels w)"
      using k5 k6 md(2) sc by (simp add: w3_def)
    with md(1) s3 show ?thesis by metis
  qed
  show "cd_is_open (writer w')" using 8 k7 d6(12) by (simp add: note_file_size_def w3_def)
  show "configuration w' = configuration w" using 8 k7 d6 by (simp add: note_file_size_def w3_def)
  show "record_types w' = record_types w" using 8 k7 d6 by (simp add: note_file_size_def w3_def)
  show "enabled w' = enabled w" using 8 k7 d6 by (simp add: note_file_size_def w3_def)
  show "dynamic_types_payload w' = dynamic_types_payload w"
    using 8 k7 d6 by (simp add: note_file_size_def w3_def)
  show "on_disk_full_lambda w' = on_disk_full_lambda w"
    using 8 k7 d6 by (simp add: note_file_size_def w3_def)
  show "lambda_calls w' = lambda_calls w" using 8 k7 d6 by (simp add: note_file_size_def w3_def)
  show "monitor_errors w' = monitor_errors w" using 8 k7 d6 by (simp add: note_file_size_def w3_def)
  show "MIN_MCAP_SIZE w' = MIN_MCAP_SIZE w" using 8 k7 d6 by (simp add: note_file_size_def w3_def)
  show "version_metadata_size w' = version_metadata_size w"
    using 8 k7 d6 by (simp add: note_file_size_def w3_def)
qed

lemma close_current_file_nts_eq:
  "close_current_file_nts w =
     w\<lparr>size_tracker := (size_tracker w)\<lparr>st_potential := 0, st_written := 0\<rparr>,
       file_tracker := close_file ((file_tracker w)\<lparr>ft_current_size := final_size w\<rparr>),
       writer := codec_close ((writer w)
         \<lparr>cd_trace := cd_trace (writer w)
            @ (if record_types w \<and> codec_accepts (writer w)
               then (case dynamic_types_payload w of None \<Rightarrow> []
                     | Some p \<Rightarrow> [Wrote (RAttachment (dynamic_types_attachment p))])
               else []),
          cd_faults := (if record_types w \<and> dynamic_types_payload w \<noteq> None
                        then tl (cd_faults (writer w)) else cd_faults (writer w))\<rparr>)\<rparr>"
  by (cases w; cases "writer w"; cases "size_tracker w"; cases "file_tracker w")
     (auto simp: close_current_file_nts_def write_attachment_nts_def final_size_def
        staged_length_def dynamic_types_attachment_def write_nts_defs tracker_defs
        file_tracker_defs codec_defs Let_def
      split: option.splits)

lemma write_nts_raises:
  "write_nts r w = (Some e, w') \<Longrightarrow> (\<exists>n. e = FullFileException n) \<and> w' = w"
  by (cases r)
     (auto simp: write_nts_defs tracker_defs Let_def split: if_splits prod.splits)

lemma write_each_raises:
  "(\<And>x w e w'. f x w = (Some e, w') \<Longrightarrow> \<exists>n. e = FullFileException n) \<Longrightarrow>
   write_each f xs w = (Some e, w') \<Longrightarrow> \<exists>n. e = FullFileException n"
proof (induction xs arbitrary: w)
  case Nil
  then show ?case by simp
next
  case (Cons x xs)
  obtain e1 w1 where f: "f x w = (e1, w1)" by (cases "f x w")
  show ?case
  proof (cases e1)
    case None
    with f Cons.prems(2) have "write_each f xs w1 = (Some e, w')" by simp
    then show ?thesis using Cons.IH Cons.prems(1) by blast
  next
    case (Some a)
    with f Cons.prems show ?thesis by auto
  qed
qed

lemma and_then_raises:
  assumes "and_then f g w = (Some e, w')"
    and "\<And>v v'. f v = (Some e, v') \<Longrightarrow> P"
    and "\<And>v v'. g v = (Some e, v') \<Longrightarrow> P"
  shows P
proof (cases "f w")
  case (Pair e1 w1)
  show ?thesis
  proof (cases e1)
    case None
    with Pair assms(1) have "g w1 = (Some e, w')" by (simp add: and_then_def)
    then show ?thesis by (rule assms(3))
  next
    case (Some a)
    with Pair assms(1) have "f w = (Some e, w')" by (simp add: and_then_def)
    then show ?thesis by (rule assms(2))
  qed
qed

lemma open_new_file_nts_raises:
  assumes "open_new_file_nts m w = (Some e, w')"
  shows "e = FullDiskException \<and> w' = w \<and> new_file m (file_tracker w) = Inl invalid_argument
    \<or> e = InitializationException \<or> (\<exists>n. e = FullFileException n)"
proof (cases "new_file m (file_tracker w)")
  case (Inl a)
  then have "a = invalid_argument" by (auto simp: new_file_def split: if_splits)
  with Inl assms show ?thesis by (simp add: open_new_file_nts_def)
next
  case (Inr ft)
  show ?thesis
  proof (cases "fst (codec_open (get_current_filename ft) (writer w))")
    case False
    with Inr assms show ?thesis
      by (auto simp: open_new_file_nts_def Let_def split: prod.splits)
  next
    case True
    define w3 where "w3 = w\<lparr>file_tracker := ft,
      writer := snd (codec_open (get_current_filename ft) (writer w)),
      size_tracker := st_init (min (max_file_size (configuration w))
              (u64_sub (max_size (configuration w)) (get_total_size ft)))
            (safety_margin (configuration w)) (size_tracker w)\<rparr>"
    from assms Inr True have run: "and_then write_metadata_nts
      (and_then write_schemas_nts
         (and_then write_channels_nts
            (and_then reserve_staged_attachment (\<lambda>w. (None, note_file_size w))))) w3
      = (Some e, w')"
      by (auto simp: open_new_file_nts_def w3_def Let_def split: prod.splits)
    have a: "write_metadata_nts v = (Some e, v') \<Longrightarrow> \<exists>n. e = FullFileException n" for v v'
      using write_nts_raises [of "RMetadata (version_metadata v)" v e v']
      by (simp add: write_metadata_nts_def)
    have b: "write_schemas_nts v = (Some e, v') \<Longrightarrow> \<exists>n. e = FullFileException n" for v v'
      using write_each_raises [of write_nts_schema "schemas v" v e v']
        write_nts_raises [of "RSchema s" for s]
      by (auto simp: write_schemas_nts_def split: if_splits)
    have c: "write_channels_nts v = (Some e, v') \<Longrightarrow> \<exists>n. e = FullFileException n" for v v'
      using write_each_raises [of write_nts_channel "channels v" v e v']
        write_nts_raises [of "RChannel s" for s]
      by (auto simp: write_channels_nts_def split: if_splits)
    have d: "reserve_staged_attachment v = (Some e, v') \<Longrightarrow> \<exists>n. e = FullFileException n"
      for v v'
      by (auto simp: reserve_staged_attachment_def on_tracker_def tracker_defs
          split: option.splits if_splits sum.splits)
    have "\<exists>n. e = FullFileException n"
    proof (rule and_then_raises [OF run])
      fix v v' assume "write_metadata_nts v = (Some e, v')"
      then show "\<exists>n. e = FullFileException n" by (rule a)
    next
      fix v v'
      assume r: "and_then write_schemas_nts (and_then write_channels_nts
          (and_then reserve_staged_attachment (\<lambda>w. (None, note_file_size w)))) v = (Some e, v')"
      show "\<exists>n. e = FullFileException n"
      proof (rule and_then_raises [OF r])
        fix v v' assume "write_schemas_nts v = (Some e, v')"
        then show "\<exists>n. e = FullFileException n" by (rule b)
      next
        fix v v'
        assume r: "and_then write_channels_nts
          (and_then reserve_staged_attachment (\<lambda>w. (None, note_file_size w))) v = (Some e, v')"
        show "\<exists>n. e = FullFileException n"
        proof (rule and_then_raises [OF r])
          fix v v' assume "write_channels_nts v = (Some e, v')"
          then show "\<exists>n. e = FullFileException n" by (rule c)
        next
          fix v v'
          assume r: "and_then reserve_staged_attachment (\<lambda>w. (None, note_file_size w)) v
              = (Some e, v')"
          show "\<exists>n. e = FullFileException n"
          proof (rule and_then_raises [OF r])
            fix v v' assume "reserve_staged_attachment v = (Some e, v')"
            then show "\<exists>n. e = FullFileException n" by (rule d)
          next
            fix v v' :: mcap_writer assume "(None, note_file_size v) = (Some e, v')"
            then show "\<exists>n. e = FullFileException n" by simp
          qed
        qed
      qed
    qed
    then show ?thesis by simp
  qed
qed

lemma on_mcap_full_nts_disk_full:
  assumes "on_mcap_full_nts n w = (Some FullDiskException, w2)"
  shows "w2 = (close_current_file_nts w)\<lparr>enabled := False\<rparr>"
proof (cases "max_file_size (configuration (close_current_file_nts w))
    = max_size (configuration (close_current_file_nts w))")
  case True
  with assms show ?thesis by (simp add: on_mcap_full_nts_def Let_def)
next
  case False
  let ?c = "(close_current_file_nts w)\<lparr>enabled := False\<rparr>"
  let ?m = "u64_add (get_min_mcap_size (size_tracker ?c)) n"
  obtain e3 w3 where o: "open_new_file_nts ?m ?c = (e3, w3)"
    by (cases "open_new_file_nts ?m ?c")
  with assms False have "e3 = Some FullDiskException" "w3 = w2"
    by (auto simp: on_mcap_full_nts_def Let_def split: option.splits)
  with o open_new_file_nts_raises [of ?m ?c FullDiskException w2] show ?thesis by simp
qed

section \<open>Rolling over and staging a payload\<close>

lemma and_then_keeps:
  assumes "and_then f g w = (e, w')"
    and "\<And>v e v'. f v = (e, v') \<Longrightarrow> P v' = P v"
    and "\<And>v e v'. g v = (e, v') \<Longrightarrow> P v' = P v"
  shows "P w' = P w"
proof (cases "f w")
  case (Pair e1 w1)
  then have 1: "P w1 = P w" by (rule assms(2))
  show ?thesis
  proof (cases e1)
    case None
    with Pair assms(1) have "g w1 = (e, w')" by (simp add: and_then_def)
    then have "P w' = P w1" by (rule assms(3))
    with 1 show ?thesis by simp
  next
    case (Some a)
    with Pair assms(1) have "w' = w1" by (simp add: and_then_def)
    with 1 show ?thesis by simp
  qed
qed

lemma write_metadata_nts_erased:
  "write_metadata_nts w = (e, w') \<Longrightarrow> accounting_erased w' = accounting_erased w"
  using write_nts_erased [of "RMetadata (version_metadata w)" w e w']
  by (simp add: write_metadata_nts_def)

lemma write_schemas_nts_erased:
  "write_schemas_nts w = (e, w') \<Longrightarrow> accounting_erased w' = accounting_erased w"
  using write_each_erased [of write_nts_schema "schemas w" w e w']
    write_nts_erased [of "RSchema s" for s]
  by (auto simp: write_schemas_nts_def split: if_splits)

lemma write_channels_nts_erased:
  "write_channels_nts w = (e, w') \<Longrightarrow> accounting_erased w' = accounting_erased w"
  using write_each_erased [of write_nts_channel "channels w" w e w']
    write_nts_erased [of "RChannel s" for s]
  by (auto simp: write_channels_nts_def split: if_splits)

text \<open>
  A property of the writer that does not depend on the accounting of the current file, on
  the size tracker or on the library is kept by \<open>open_new_file_nts\<close>, whatever its outcome,
  as soon as the new file of the file tracker keeps it.
\<close>

lemma open_new_file_nts_keeps:
  assumes "open_new_file_nts m w = (e, w')"
    and er: "\<And>v v'. accounting_erased v' = accounting_erased v \<Longrightarrow> P v' = P v"
    and st: "\<And>v st. P (v\<lparr>size_tracker := st\<rparr>) = P v"
    and cd: "\<And>v c. P (v\<lparr>writer := c\<rparr>) = P v"
    and ft: "\<And>ft. new_file m (file_tracker w) = Inr ft \<Longrightarrow> P (w\<lparr>file_tracker := ft\<rparr>) = P w"
  shows "P w' = P w"
proof (cases "new_file m (file_tracker w)")
  case (Inl a)
  with assms(1) have "w' = w" by (auto simp: open_new_file_nts_def split: exn.splits)
  then show ?thesis by simp
next
  case (Inr f)
  show ?thesis
  proof (cases "fst (codec_open (get_current_filename f) (writer w))")
    case False
    with Inr assms(1) have "w' = w\<lparr>file_tracker := f,
        writer := snd (codec_open (get_current_filename f) (writer w))\<rparr>"
      by (auto simp: open_new_file_nts_def Let_def split: prod.splits)
    then show ?thesis using cd ft [OF Inr] by simp
  next
    case True
    define w3 where "w3 = w\<lparr>file_tracker := f,
      writer := snd (codec_open (get_current_filename f) (writer w)),
      size_tracker := st_init (min (max_file_size (configuration w))
              (u64_sub (max_size (configuration w)) (get_total_size f)))
            (safety_margin (configuration w)) (size_tracker w)\<rparr>"
    from assms(1) Inr True have run: "and_then write_metadata_nts
      (and_then write_schemas_nts
         (and_then write_channels_nts
            (and_then reserve_staged_attachment (\<lambda>w. (None, note_file_size w))))) w3
      = (e, w')"
      by (auto simp: open_new_file_nts_def w3_def Let_def split: prod.splits)
    have 3: "P w3 = P w" unfolding w3_def using st cd ft [OF Inr] by simp
    have a: "write_metadata_nts v = (e, v') \<Longrightarrow> P v' = P v" for v e v'
      using write_metadata_nts_erased er by blast
    have b: "write_schemas_nts v = (e, v') \<Longrightarrow> P v' = P v" for v e v'
      using write_schemas_nts_erased er by blast
    have c: "write_channels_nts v = (e, v') \<Longrightarrow> P v' = P v" for v e v'
      using write_channels_nts_erased er by blast
    have d: "reserve_staged_attachment v = (e, v') \<Longrightarrow> P v' = P v" for v e v'
      using st
      by (auto simp: reserve_staged_attachment_def on_tracker_def
          split: option.splits if_splits sum.splits)
    have n: "(None, note_file_size v) = (e, v') \<Longrightarrow> P v' = P v"
      for v v' and e :: "exn option"
    proof -
      assume "(None, note_file_size v) = (e, v')"
      then have v': "v' = note_file_size v" by simp
      have "accounting_erased (note_file_size v) = accounting_erased v"
        by (simp add: accounting_erased_def note_file_size_def file_tracker_defs)
      then show ?thesis using er v' by blast
    qed
    have k4: "and_then reserve_staged_attachment (\<lambda>w. (None, note_file_size w)) v = (e, v')
        \<Longrightarrow> P v' = P v" for v e v'
      using and_then_keeps [where P = P and f = reserve_staged_attachment
          and g = "\<lambda>w. (None, note_file_size w)"] d n by blast
    have k3: "and_then write_channels_nts
        (and_then reserve_staged_attachment (\<lambda>w. (None, note_file_size w))) v = (e, v')
        \<Longrightarrow> P v' = P v" for v e v'
      using and_then_keeps [where P = P and f = write_channels_nts
          and g = "and_then reserve_staged_attachment (\<lambda>w. (None, note_file_size w))"] c k4
      by blast
    have k2: "and_then write_schemas_nts (and_then write_channels_nts
        (and_then reserve_staged_attachment (\<lambda>w. (None, note_file_size w)))) v = (e, v')
        \<Longrightarrow> P v' = P v" for v e v'
      using and_then_keeps [where P = P and f = write_schemas_nts
          and g = "and_then write_channels_nts
            (and_then reserve_staged_attachment (\<lambda>w. (None, note_file_size w)))"] b k3
      by blast
    have "P w' = P w3"
      using and_then_keeps [where P = P, OF run] a k2 by blast
    with 3 show ?thesis by simp
  qed
qed

lemma open_new_file_nts_payload:
  "open_new_file_nts m w = (e, w') \<Longrightarrow> dynamic_types_payload w' = dynamic_types_payload w"
  by (rule open_new_file_nts_keeps [where P = dynamic_types_payload])
     (auto dest: accounting_erasedD)

lemma on_mcap_full_nts_payload:
  "on_mcap_full_nts n w = (e, w') \<Longrightarrow> dynamic_types_payload w' = dynamic_types_payload w"
proof -
  assume a: "on_mcap_full_nts n w = (e, w')"
  let ?c = "(close_current_file_nts w)\<lparr>enabled := False\<rparr>"
  have c: "dynamic_types_payload ?c = dynamic_types_payload w"
    by (subst close_current_file_nts_eq) simp
  show ?thesis
  proof (cases "max_file_size (configuration ?c) = max_size (configuration ?c)")
    case True
    with a have "w' = ?c" by (simp add: on_mcap_full_nts_def Let_def)
    with c show ?thesis by simp
  next
    case False
    obtain e3 w3 where o: "open_new_file_nts (u64_add (get_min_mcap_size (size_tracker ?c)) n) ?c
        = (e3, w3)" by (cases "open_new_file_nts (u64_add (get_min_mcap_size (size_tracker ?c)) n) ?c")
    from open_new_file_nts_payload [OF o] c have "dynamic_types_payload w3 = dynamic_types_payload w"
      by simp
    moreover from a False o have "w' = w3 \<or> w' = w3\<lparr>enabled := True\<rparr>"
      by (auto simp: on_mcap_full_nts_def Let_def split: option.splits)
    ultimately show ?thesis by auto
  qed
qed

lemma on_mcap_full_nts_ok:
  assumes "on_mcap_full_nts n w = (None, w')"
  shows "max_file_size (configuration w) \<noteq> max_size (configuration w)"
    and "\<exists>w3. open_new_file_nts (u64_add (get_min_mcap_size (size_tracker w)) n)
            ((close_current_file_nts w)\<lparr>enabled := False\<rparr>) = (None, w3)
          \<and> w' = w3\<lparr>enabled := True\<rparr>"
proof -
  let ?c = "(close_current_file_nts w)\<lparr>enabled := False\<rparr>"
  have c: "configuration ?c = configuration w"
    "get_min_mcap_size (size_tracker ?c) = get_min_mcap_size (size_tracker w)"
    by (subst close_current_file_nts_eq, simp add: get_min_mcap_size_def)+
  from assms show "max_file_size (configuration w) \<noteq> max_size (configuration w)"
    using c(1) by (auto simp: on_mcap_full_nts_def Let_def split: if_splits)
  with assms c show "\<exists>w3. open_new_file_nts (u64_add (get_min_mcap_size (size_tracker w)) n) ?c
      = (None, w3) \<and> w' = w3\<lparr>enabled := True\<rparr>"
    by (auto simp: on_mcap_full_nts_def Let_def split: if_splits option.splits prod.splits)
qed

lemma on_mcap_full_nts_created:
  assumes "on_mcap_full_nts n w = (None, w')"
  shows "ft_created (file_tracker w') = ft_created (file_tracker w) + 1"
proof -
  let ?c = "(close_current_file_nts w)\<lparr>enabled := False\<rparr>"
  from on_mcap_full_nts_ok(2) [OF assms] obtain w3
    where o: "open_new_file_nts (u64_add (get_min_mcap_size (size_tracker w)) n) ?c = (None, w3)"
      and w': "w' = w3\<lparr>enabled := True\<rparr>" by blast
  have "ft_created (file_tracker ?c) = ft_created (file_tracker w)"
    by (subst close_current_file_nts_eq) (simp add: close_file_def)
  with open_new_file_nts_ok(3) [OF o] w' show ?thesis by simp
qed

lemma on_mcap_full_nts_closes:
  shows "on_mcap_full_nts n w = (Some FullDiskException, w2) \<Longrightarrow>
      \<not> enabled w2
      \<and> cd_trace (writer w2) =
          cd_trace (writer w)
          @ (if record_types w \<and> codec_accepts (writer w)
             then (case dynamic_types_payload w of
                     None \<Rightarrow> [] | Some p \<Rightarrow> [Wrote (RAttachment (dynamic_types_attachment p))])
             else [])
          @ (if cd_is_open (writer w) then [Closed] else [])
      \<and> (ft_is_open (file_tracker w) \<longrightarrow>
           \<not> ft_is_open (file_tracker w2)
           \<and> ft_closed (file_tracker w2) =
               ft_closed (file_tracker w) @ [(ft_current_name (file_tracker w), final_size w)])"
    and "on_mcap_full_nts n w = (None, w3) \<Longrightarrow>
      (\<exists>md. (md = [] \<or> md = [Wrote (RMetadata (version_metadata w))])
         \<and> cd_trace (writer w3) =
             cd_trace (writer w)
             @ (if record_types w \<and> codec_accepts (writer w)
                then (case dynamic_types_payload w of
                        None \<Rightarrow> [] | Some p \<Rightarrow> [Wrote (RAttachment (dynamic_types_attachment p))])
                else [])
             @ (if cd_is_open (writer w) then [Closed] else [])
             @ Opened (ft_created (file_tracker w)) # md
             @ map (\<lambda>s. Wrote (RSchema s)) (schemas w)
             @ map (\<lambda>c. Wrote (RChannel c)) (channels w))
      \<and> ft_is_open (file_tracker w3)
      \<and> ft_current_name (file_tracker w3) = ft_created (file_tracker w)
      \<and> (ft_is_open (file_tracker w) \<longrightarrow>
           ft_closed (file_tracker w3) =
             ft_closed (file_tracker w) @ [(ft_current_name (file_tracker w), final_size w)])"
proof -
  let ?c = "(close_current_file_nts w)\<lparr>enabled := False\<rparr>"
  let ?m = "u64_add (get_min_mcap_size (size_tracker w)) n"
  have ct: "cd_trace (writer ?c) =
          cd_trace (writer w)
          @ (if record_types w \<and> codec_accepts (writer w)
             then (case dynamic_types_payload w of
                     None \<Rightarrow> [] | Some p \<Rightarrow> [Wrote (RAttachment (dynamic_types_attachment p))])
             else [])
          @ (if cd_is_open (writer w) then [Closed] else [])"
    using close_trace [of w] by simp
  have cf: "ft_is_open (file_tracker w) \<longrightarrow>
           \<not> ft_is_open (file_tracker ?c)
           \<and> ft_closed (file_tracker ?c) =
               ft_closed (file_tracker w) @ [(ft_current_name (file_tracker w), final_size w)]"
    using close_file_tracker [of w] by simp
  {
    assume "on_mcap_full_nts n w = (Some FullDiskException, w2)"
    from on_mcap_full_nts_disk_full [OF this] have w2: "w2 = ?c" .
    show "\<not> enabled w2
      \<and> cd_trace (writer w2) =
          cd_trace (writer w)
          @ (if record_types w \<and> codec_accepts (writer w)
             then (case dynamic_types_payload w of
                     None \<Rightarrow> [] | Some p \<Rightarrow> [Wrote (RAttachment (dynamic_types_attachment p))])
             else [])
          @ (if cd_is_open (writer w) then [Closed] else [])
      \<and> (ft_is_open (file_tracker w) \<longrightarrow>
           \<not> ft_is_open (file_tracker w2)
           \<and> ft_closed (file_tracker w2) =
               ft_closed (file_tracker w) @ [(ft_current_name (file_tracker w), final_size w)])"
      unfolding w2 using ct cf by simp
  }
  {
    assume a: "on_mcap_full_nts n w = (None, w3)"
    from on_mcap_full_nts_ok(2) [OF a] obtain v
      where o: "open_new_file_nts ?m ?c = (None, v)" and w3: "w3 = v\<lparr>enabled := True\<rparr>"
      by blast
    have c: "schemas ?c = schemas w" "channels ?c = channels w"
      "ft_created (file_tracker ?c) = ft_created (file_tracker w)"
      "version_metadata ?c = version_metadata w"
      by (subst close_current_file_nts_eq, simp add: close_file_def version_metadata_def)+
    note k = open_new_file_nts_ok [OF o]
    from k(8) obtain md where md: "md = [] \<or> md = [Wrote (RMetadata (version_metadata w))]"
      and tr: "cd_trace (writer v) =
           cd_trace (writer ?c) @ Opened (ft_created (file_tracker w)) # md
           @ map (\<lambda>s. Wrote (RSchema s)) (schemas w)
           @ map (\<lambda>c. Wrote (RChannel c)) (channels w)"
      unfolding c by blast
    have wr: "writer w3 = writer v" unfolding w3 by simp
    have 1: "\<exists>md. (md = [] \<or> md = [Wrote (RMetadata (version_metadata w))])
         \<and> cd_trace (writer w3) =
             cd_trace (writer w)
             @ (if record_types w \<and> codec_accepts (writer w)
                then (case dynamic_types_payload w of
                        None \<Rightarrow> [] | Some p \<Rightarrow> [Wrote (RAttachment (dynamic_types_attachment p))])
                else [])
             @ (if cd_is_open (writer w) then [Closed] else [])
             @ Opened (ft_created (file_tracker w)) # md
             @ map (\<lambda>s. Wrote (RSchema s)) (schemas w)
             @ map (\<lambda>c. Wrote (RChannel c)) (channels w)"
      apply (rule exI [of _ md])
      apply (rule conjI [OF md])
      apply (subst wr)
      apply (subst tr)
      apply (subst ct)
      apply (simp only: append_assoc)
      done
    have ft: "file_tracker w3 = file_tracker v" unfolding w3 by simp
    have 2: "ft_is_open (file_tracker w3)"
      "ft_current_name (file_tracker w3) = ft_created (file_tracker w)"
      "ft_closed (file_tracker w3) = ft_closed (file_tracker ?c)"
      unfolding ft k(3) using c(3) by simp_all
    from 1 2 cf
    show "(\<exists>md. (md = [] \<or> md = [Wrote (RMetadata (version_metadata w))])
         \<and> cd_trace (writer w3) =
             cd_trace (writer w)
             @ (if record_types w \<and> codec_accepts (writer w)
                then (case dynamic_types_payload w of
                        None \<Rightarrow> [] | Some p \<Rightarrow> [Wrote (RAttachment (dynamic_types_attachment p))])
                else [])
             @ (if cd_is_open (writer w) then [Closed] else [])
             @ Opened (ft_created (file_tracker w)) # md
             @ map (\<lambda>s. Wrote (RSchema s)) (schemas w)
             @ map (\<lambda>c. Wrote (RChannel c)) (channels w))
      \<and> ft_is_open (file_tracker w3)
      \<and> ft_current_name (file_tracker w3) = ft_created (file_tracker w)
      \<and> (ft_is_open (file_tracker w) \<longrightarrow>
           ft_closed (file_tracker w3) =
             ft_closed (file_tracker w) @ [(ft_current_name (file_tracker w), final_size w)])"
      by simp
  }
qed

lemma update_dynamic_types_payload_cases:
  "update_dynamic_types_payload p w =
     (if delta_fits p w then (None, delta_reserved p w)
      else (Some (FullFileException (payload_length p)), w))"
  by (auto simp: update_dynamic_types_payload_def delta_fits_def delta_reserved_def
        staged_length_def on_tracker_def tracker_defs
      split: option.splits)

lemmas example_state_defs = example_one_file_def example_margin_def example_nearly_full_def
  delta_fits_def delta_reserved_def

lemma update_dynamic_types_cases:
  "(delta_fits p w \<longrightarrow>
      update_dynamic_types p w = (None, stage_payload p (delta_reserved p w)))
   \<and> (\<not> delta_fits p w \<longrightarrow>
        on_mcap_full_nts (payload_length p) w = (Some FullDiskException, w2) \<longrightarrow>
        update_dynamic_types p w = (None, stage_payload p (on_disk_full w2)))
   \<and> (\<not> delta_fits p w \<longrightarrow> on_mcap_full_nts (payload_length p) w = (None, w3) \<longrightarrow>
        ft_created (file_tracker w3) = ft_created (file_tracker w) + 1
        \<and> (delta_fits p w3 \<longrightarrow>
             update_dynamic_types p w = (None, stage_payload p (delta_reserved p w3)))
        \<and> (\<not> delta_fits p w3 \<longrightarrow>
             update_dynamic_types p w = (Some (FullFileException (payload_length p)), w3)))"
  using on_mcap_full_nts_created [of "payload_length p" w w3]
  by (auto simp: update_dynamic_types_def update_dynamic_types_payload_cases and_then_def)

text \<open>
  Claim C6.  \<open>update_dynamic_types\<close> asks the size tracker for the new length in place of
  the staged one (the whole length when nothing is staged).  When that fits, the payload is
  staged with the potential size changed by the difference.  When it raises FileFull, the
  file is rolled over once.  The rollover closes the current file: the library is handed the
  staged attachment (if types are recorded and it accepts it) and the close, and the file
  tracker records the file as closed with its final size.  If the rollover ends in DiskFull
  the writer is left disabled, the callback is invoked (once) and the call returns.  If it
  opens a new file (the library is handed the opening, the version metadata and the cached
  schemas and channels; exactly one more file exists, and it is the current one) the
  reservation is tried once more, and a second FileFull leaves the call as an exception,
  with the writer as the single rollover left it.  Staging the payload and the callback
  leave the library and the closed files as they are.
\<close>

theorem update_dynamic_types_reserves_delta:
  "(delta_fits p w \<longrightarrow>
      update_dynamic_types p w = (None, stage_payload p (delta_reserved p w)))
   \<and> (\<not> delta_fits p w \<longrightarrow>
        on_mcap_full_nts (payload_length p) w = (Some FullDiskException, w2) \<longrightarrow>
        update_dynamic_types p w = (None, stage_payload p (on_disk_full w2))
        \<and> \<not> enabled w2
        \<and> cd_trace (writer w2) =
            cd_trace (writer w)
            @ (if record_types w \<and> codec_accepts (writer w)
               then (case dynamic_types_payload w of
                       None \<Rightarrow> []
                     | Some q \<Rightarrow> [Wrote (RAttachment (dynamic_types_attachment q))])
               else [])
            @ (if cd_is_open (writer w) then [Closed] else [])
        \<and> (ft_is_open (file_tracker w) \<longrightarrow>
             \<not> ft_is_open (file_tracker w2)
             \<and> ft_closed (file_tracker w2) =
                 ft_closed (file_tracker w)
                 @ [(ft_current_name (file_tracker w), final_size w)]))
   \<and> (\<not> delta_fits p w \<longrightarrow> on_mcap_full_nts (payload_length p) w = (None, w3) \<longrightarrow>
        ft_created (file_tracker w3) = ft_created (file_tracker w) + 1
        \<and> (\<exists>md. (md = [] \<or> md = [Wrote (RMetadata (version_metadata w))])
             \<and> cd_trace (writer w3) =
                 cd_trace (writer w)
                 @ (if record_types w \<and> codec_accepts (writer w)
                    then (case dynamic_types_payload w of
                            None \<Rightarrow> []
                          | Some q \<Rightarrow> [Wrote (RAttachment (dynamic_types_attachment q))])
                    else [])
                 @ (if cd_is_open (writer w) then [Closed] else [])
                 @ Opened (ft_created (file_tracker w)) # md
                 @ map (\<lambda>s. Wrote (RSchema s)) (schemas w)
                 @ map (\<lambda>c. Wrote (RChannel c)) (channels w))
        \<and> ft_is_open (file_tracker w3)
        \<and> ft_current_name (file_tracker w3) = ft_created (file_tracker w)
        \<and> (ft_is_open (file_tracker w) \<longrightarrow>
             ft_closed (file_tracker w3) =
               ft_closed (file_tracker w)
               @ [(ft_current_name (file_tracker w), final_size w)])
        \<and> (delta_fits p w3 \<longrightarrow>
             update_dynamic_types p w = (None, stage_payload p (delta_reserved p w3)))
        \<and> (\<not> delta_fits p w3 \<longrightarrow>
             update_dynamic_types p w = (Some (FullFileException (payload_length p)), w3)))
   \<and> dynamic_types_payload (stage_payload p v) = Some p
   \<and> get_potential_mcap_size (size_tracker (stage_payload p (delta_reserved p v))) =
       get_potential_mcap_size (size_tracker v) + payload_length p - staged_length v
   \<and> lambda_calls (on_disk_full v) =
       lambda_calls v + (if on_disk_full_lambda v then 1 else 0)
   \<and> monitor_errors (on_disk_full v) = monitor_errors v + 1
   \<and> writer (stage_payload p (delta_reserved p v)) = writer v
   \<and> ft_closed (file_tracker (stage_payload p (delta_reserved p v))) = ft_closed (file_tracker v)
   \<and> writer (stage_payload p (on_disk_full v)) = writer v
   \<and> ft_closed (file_tracker (stage_payload p (on_disk_full v))) = ft_closed (file_tracker v)
   \<and> enabled (stage_payload p (on_disk_full v)) = enabled v"
proof -
  note c = update_dynamic_types_cases [of p w w2 w3]
  note d = on_mcap_full_nts_closes(1) [of "payload_length p" w w2]
  note o = on_mcap_full_nts_closes(2) [of "payload_length p" w w3]
  have 1: "delta_fits p w \<longrightarrow>
      update_dynamic_types p w = (None, stage_payload p (delta_reserved p w))"
    by (rule c [THEN conjunct1])
  have 2: "\<not> delta_fits p w \<longrightarrow>
        on_mcap_full_nts (payload_length p) w = (Some FullDiskException, w2) \<longrightarrow>
        update_dynamic_types p w = (None, stage_payload p (on_disk_full w2))
        \<and> \<not> enabled w2
        \<and> cd_trace (writer w2) =
            cd_trace (writer w)
            @ (if record_types w \<and> codec_accepts (writer w)
               then (case dynamic_types_payload w of
                       None \<Rightarrow> []
                     | Some q \<Rightarrow> [Wrote (RAttachment (dynamic_types_attachment q))])
               else [])
            @ (if cd_is_open (writer w) then [Closed] else [])
        \<and> (ft_is_open (file_tracker w) \<longrightarrow>
             \<not> ft_is_open (file_tracker w2)
             \<and> ft_closed (file_tracker w2) =
                 ft_closed (file_tracker w)
                 @ [(ft_current_name (file_tracker w), final_size w)])"
    using c [THEN conjunct2, THEN conjunct1] d by blast
  have 3: "\<not> delta_fits p w \<longrightarrow> on_mcap_full_nts (payload_length p) w = (None, w3) \<longrightarrow>
        ft_created (file_tracker w3) = ft_created (file_tracker w) + 1
        \<and> (\<exists>md. (md = [] \<or> md = [Wrote (RMetadata (version_metadata w))])
             \<and> cd_trace (writer w3) =
                 cd_trace (writer w)
                 @ (if record_types w \<and> codec_accepts (writer w)
                    then (case dynamic_types_payload w of
                            None \<Rightarrow> []
                          | Some q \<Rightarrow> [Wrote (RAttachment (dynamic_types_attachment q))])
                    else [])
                 @ (if cd_is_open (writer w) then [Closed] else [])
                 @ Opened (ft_created (file_tracker w)) # md
                 @ map (\<lambda>s. Wrote (RSchema s)) (schemas w)
                 @ map (\<lambda>c. Wrote (RChannel c)) (channels w))
        \<and> ft_is_open (file_tracker w3)
        \<and> ft_current_name (file_tracker w3) = ft_created (file_tracker w)
        \<and> (ft_is_open (file_tracker w) \<longrightarrow>
             ft_closed (file_tracker w3) =
               ft_closed (file_tracker w)
               @ [(ft_current_name (file_tracker w), final_size w)])
        \<and> (delta_fits p w3 \<longrightarrow>
             update_dynamic_types p w = (None, stage_payload p (delta_reserved p w3)))
        \<and> (\<not> delta_fits p w3 \<longrightarrow>
             update_dynamic_types p w = (Some (FullFileException (payload_length p)), w3))"
  proof (intro impI)
    assume a: "\<not> delta_fits p w" "on_mcap_full_nts (payload_length p) w = (None, w3)"
    note c3 = c [THEN conjunct2, THEN conjunct2, THEN mp, THEN mp, OF a]
    note o3 = o [OF a(2)]
    show "ft_created (file_tracker w3) = ft_created (file_tracker w) + 1
        \<and> (\<exists>md. (md = [] \<or> md = [Wrote (RMetadata (version_metadata w))])
             \<and> cd_trace (writer w3) =
                 cd_trace (writer w)
                 @ (if record_types w \<and> codec_accepts (writer w)
                    then (case dynamic_types_payload w of
                            None \<Rightarrow> []
                          | Some q \<Rightarrow> [Wrote (RAttachment (dynamic_types_attachment q))])
                    else [])
                 @ (if cd_is_open (writer w) then [Closed] else [])
                 @ Opened (ft_created (file_tracker w)) # md
                 @ map (\<lambda>s. Wrote (RSchema s)) (schemas w)
                 @ map (\<lambda>c. Wrote (RChannel c)) (channels w))
        \<and> ft_is_open (file_tracker w3)
        \<and> ft_current_name (file_tracker w3) = ft_created (file_tracker w)
        \<and> (ft_is_open (file_tracker w) \<longrightarrow>
             ft_closed (file_tracker w3) =
               ft_closed (file_tracker w)
               @ [(ft_current_name (file_tracker w), final_size w)])
        \<and> (delta_fits p w3 \<longrightarrow>
             update_dynamic_types p w = (None, stage_payload p (delta_reserved p w3)))
        \<and> (\<not> delta_fits p w3 \<longrightarrow>
             update_dynamic_types p w = (Some (FullFileException (payload_length p)), w3))"
      by (intro conjI c3 [THEN conjunct1] c3 [THEN conjunct2, THEN conjunct1]
          c3 [THEN conjunct2, THEN conjunct2] o3 [THEN conjunct1]
          o3 [THEN conjunct2, THEN conjunct1] o3 [THEN conjunct2, THEN conjunct2, THEN conjunct1]
          o3 [THEN conjunct2, THEN conjunct2, THEN conjunct2])
  qed
  have 4: "dynamic_types_payload (stage_payload p v) = Some p"
    "get_potential_mcap_size (size_tracker (stage_payload p (delta_reserved p v))) =
       get_potential_mcap_size (size_tracker v) + payload_length p - staged_length v"
    "lambda_calls (on_disk_full v) = lambda_calls v + (if on_disk_full_lambda v then 1 else 0)"
    "monitor_errors (on_disk_full v) = monitor_errors v + 1"
    "writer (stage_payload p (delta_reserved p v)) = writer v"
    "ft_closed (file_tracker (stage_payload p (delta_reserved p v))) = ft_closed (file_tracker v)"
    "writer (stage_payload p (on_disk_full v)) = writer v"
    "ft_closed (file_tracker (stage_payload p (on_disk_full v))) = ft_closed (file_tracker v)"
    "enabled (stage_payload p (on_disk_full v)) = enabled v"
    by (simp_all add: stage_payload_def delta_reserved_def note_file_size_def on_disk_full_def
        get_potential_mcap_size_def set_current_file_size_def Let_def)
  show ?thesis by (intro conjI 1 2 3 4)
qed

text \<open>
  A witness for each case: a 20-byte payload that fits; a 95-byte payload on a writer whose
  only file is the whole disk budget (the file is closed at its 10 bytes and the writer is
  left disabled); a 20-byte payload on a nearly full file, which fits after the rollover
  (the file is closed at 90 bytes and a second one is opened); and a 75-byte payload that,
  with a safety margin of 20, does not fit the next file either.
\<close>

theorem update_dynamic_types_reserves_delta_witness:
  "delta_fits (example_payload 64 20) (example_open True [])
   \<and> update_dynamic_types (example_payload 64 20) (example_open True []) =
       (None, stage_payload (example_payload 64 20)
                (delta_reserved (example_payload 64 20) (example_open True [])))
   \<and> get_potential_mcap_size (size_tracker (snd (update_dynamic_types (example_payload 64 20)
         (example_open True [])))) = 30
   \<and> \<not> delta_fits (example_payload 64 95) example_one_file
   \<and> fst (on_mcap_full_nts 95 example_one_file) = Some FullDiskException
   \<and> fst (update_dynamic_types (example_payload 64 95) example_one_file) = None
   \<and> monitor_errors (snd (update_dynamic_types (example_payload 64 95) example_one_file)) = 1
   \<and> ft_is_open (file_tracker example_one_file)
   \<and> \<not> enabled (snd (update_dynamic_types (example_payload 64 95) example_one_file))
   \<and> \<not> ft_is_open (file_tracker (snd (on_mcap_full_nts 95 example_one_file)))
   \<and> ft_closed (file_tracker (snd (update_dynamic_types (example_payload 64 95)
         example_one_file))) = [(0, 10)]
   \<and> cd_trace (writer (snd (update_dynamic_types (example_payload 64 95) example_one_file))) =
       cd_trace (writer example_one_file) @ [Closed]
   \<and> \<not> delta_fits (example_payload 64 20) example_nearly_full
   \<and> fst (on_mcap_full_nts 20 example_nearly_full) = None
   \<and> delta_fits (example_payload 64 20) (snd (on_mcap_full_nts 20 example_nearly_full))
   \<and> fst (update_dynamic_types (example_payload 64 20) example_nearly_full) = None
   \<and> ft_created (file_tracker (snd (update_dynamic_types (example_payload 64 20)
         example_nearly_full))) = 2
   \<and> ft_is_open (file_tracker example_nearly_full)
   \<and> ft_closed (file_tracker (snd (update_dynamic_types (example_payload 64 20)
         example_nearly_full))) = [(0, 90)]
   \<and> ft_current_name (file_tracker (snd (on_mcap_full_nts 20 example_nearly_full))) = 1
   \<and> cd_trace (writer (snd (update_dynamic_types (example_payload 64 20) example_nearly_full))) =
       cd_trace (writer example_nearly_full)
       @ [Closed, Opened 1, Wrote (RMetadata (version_metadata example_nearly_full))]
   \<and> \<not> delta_fits (example_payload 64 75) example_margin
   \<and> fst (on_mcap_full_nts 75 example_margin) = None
   \<and> \<not> delta_fits (example_payload 64 75) (snd (on_mcap_full_nts 75 example_margin))
   \<and> update_dynamic_types (example_payload 64 75) example_margin =
       (Some (FullFileException 75), snd (on_mcap_full_nts 75 example_margin))
   \<and> ft_is_open (file_tracker example_margin)
   \<and> ft_closed (file_tracker (snd (on_mcap_full_nts 75 example_margin))) = [(0, 10)]"
proof -
  let ?p = "example_payload 64 20"
  let ?q = "example_payload 64 95"
  let ?r = "example_payload 64 75"
  let ?w2 = "snd (on_mcap_full_nts 95 example_one_file)"
  let ?w3 = "snd (on_mcap_full_nts 20 example_nearly_full)"
  let ?w4 = "snd (on_mcap_full_nts 75 example_margin)"
  have l: "payload_length (example_payload a n) = n" for a n
    by (simp add: example_payload_def)
  have a1: "delta_fits ?p (example_open True [])"
    by (simp add: eval_defs example_state_defs)
  have b1: "\<not> delta_fits ?q example_one_file"
    by (simp add: eval_defs example_state_defs)
  have b2f: "fst (on_mcap_full_nts 95 example_one_file) = Some FullDiskException"
    by (simp add: eval_defs example_state_defs)
  then have b2: "on_mcap_full_nts (payload_length ?q) example_one_file
      = (Some FullDiskException, ?w2)"
    unfolding l by (cases "on_mcap_full_nts 95 example_one_file") simp
  have b3: "ft_is_open (file_tracker example_one_file)"
    by (simp add: eval_defs example_state_defs)
  have b4: "ft_closed (file_tracker example_one_file) = []"
    "ft_current_name (file_tracker example_one_file) = 0"
    "final_size example_one_file = 10"
    "cd_is_open (writer example_one_file)" "\<not> record_types example_one_file"
    by (simp_all add: eval_defs example_state_defs)
  have c1: "\<not> delta_fits ?p example_nearly_full"
    by (simp add: eval_defs example_state_defs)
  have c2f: "fst (on_mcap_full_nts 20 example_nearly_full) = None"
    by (simp add: eval_defs example_state_defs)
  then have c2: "on_mcap_full_nts (payload_length ?p) example_nearly_full = (None, ?w3)"
    unfolding l by (cases "on_mcap_full_nts 20 example_nearly_full") simp
  have c3: "delta_fits ?p ?w3"
    by (simp add: eval_defs example_state_defs)
  have c4: "ft_created (file_tracker example_nearly_full) = 1"
    by (simp add: eval_defs example_state_defs)
  have c5: "ft_is_open (file_tracker example_nearly_full)"
    by (simp add: eval_defs example_state_defs)
  have c6: "ft_closed (file_tracker example_nearly_full) = []"
    "ft_current_name (file_tracker example_nearly_full) = 0"
    "final_size example_nearly_full = 90"
    by (simp_all add: eval_defs example_state_defs)
  have c7: "cd_trace (writer ?w3) = cd_trace (writer example_nearly_full)
       @ [Closed, Opened 1, Wrote (RMetadata (version_metadata example_nearly_full))]"
    by (simp add: eval_defs example_state_defs)
  have d1: "\<not> delta_fits ?r example_margin"
    by (simp add: eval_defs example_state_defs)
  have d2f: "fst (on_mcap_full_nts 75 example_margin) = None"
    by (simp add: eval_defs example_state_defs)
  then have d2: "on_mcap_full_nts (payload_length ?r) example_margin = (None, ?w4)"
    unfolding l by (cases "on_mcap_full_nts 75 example_margin") simp
  have d3: "\<not> delta_fits ?r ?w4"
    by (simp add: eval_defs example_state_defs)
  have d4: "ft_is_open (file_tracker example_margin)"
    by (simp add: eval_defs example_state_defs)
  have d5: "ft_closed (file_tracker example_margin) = []"
    "ft_current_name (file_tracker example_margin) = 0"
    "final_size example_margin = 10"
    by (simp_all add: eval_defs example_state_defs)
  have e1: "get_potential_mcap_size (size_tracker (example_open True [])) = 10"
    "staged_length (example_open True []) = 0"
    "monitor_errors ?w2 = 0"
    by (simp_all add: eval_defs example_state_defs)
  note A = update_dynamic_types_reserves_delta [of ?p "example_open True []" undefined undefined
      "example_open True []"]
  note B = update_dynamic_types_reserves_delta [of ?q example_one_file ?w2 undefined ?w2]
  note C = update_dynamic_types_reserves_delta [of ?p example_nearly_full undefined ?w3 ?w3]
  note D = update_dynamic_types_reserves_delta [of ?r example_margin undefined ?w4 undefined]
  note A1 = A [THEN conjunct1, THEN mp, OF a1]
  note Af = A [THEN conjunct2, THEN conjunct2, THEN conjunct2]
  have A': "update_dynamic_types ?p (example_open True []) =
       (None, stage_payload ?p (delta_reserved ?p (example_open True [])))"
    "get_potential_mcap_size (size_tracker (snd (update_dynamic_types ?p
        (example_open True [])))) = 30"
    using A1 Af e1 l by simp_all
  note B2 = B [THEN conjunct2, THEN conjunct1, THEN mp, THEN mp, OF b1 b2]
  note Bf = B [THEN conjunct2, THEN conjunct2, THEN conjunct2]
  note B2c = B2 [THEN conjunct2, THEN conjunct2, THEN conjunct2, THEN mp, OF b3]
  have B': "update_dynamic_types ?q example_one_file =
      (None, stage_payload ?q (on_disk_full ?w2))"
    using B2 by blast
  have B3: "fst (update_dynamic_types ?q example_one_file) = None"
    "monitor_errors (snd (update_dynamic_types ?q example_one_file)) = 1"
    using Bf e1 unfolding B' by (simp_all add: stage_payload_def note_file_size_def)
  have B4: "\<not> enabled (snd (update_dynamic_types ?q example_one_file))"
    using Bf B2 [THEN conjunct2, THEN conjunct1] unfolding B' by simp
  have B5: "\<not> ft_is_open (file_tracker ?w2)" using B2c by blast
  have B6: "ft_closed (file_tracker (snd (update_dynamic_types ?q example_one_file)))
      = [(0, 10)]"
    using Bf B2c b4 unfolding B' by simp
  have B7: "cd_trace (writer (snd (update_dynamic_types ?q example_one_file))) =
       cd_trace (writer example_one_file) @ [Closed]"
    using Bf B2 [THEN conjunct2, THEN conjunct2, THEN conjunct1] b4 unfolding B' by simp
  note C2 = C [THEN conjunct2, THEN conjunct2, THEN conjunct1, THEN mp, THEN mp, OF c1 c2]
  note Cf = C [THEN conjunct2, THEN conjunct2, THEN conjunct2]
  have C': "update_dynamic_types ?p example_nearly_full =
      (None, stage_payload ?p (delta_reserved ?p ?w3))"
    using C2 c3 by blast
  have C3: "fst (update_dynamic_types ?p example_nearly_full) = None"
    unfolding C' by simp
  have C4: "ft_created (file_tracker (snd (update_dynamic_types ?p example_nearly_full))) = 2"
    using C2 [THEN conjunct1] c4 unfolding C'
    by (simp add: stage_payload_def note_file_size_def delta_reserved_def
        set_current_file_size_def)
  have C5: "ft_closed (file_tracker (snd (update_dynamic_types ?p example_nearly_full)))
      = [(0, 90)]"
    using Cf C2 [THEN conjunct2, THEN conjunct2, THEN conjunct2, THEN conjunct2,
        THEN conjunct1, THEN mp, OF c5] c6 unfolding C' by simp
  have C6: "ft_current_name (file_tracker ?w3) = 1"
    using C2 [THEN conjunct2, THEN conjunct2, THEN conjunct2, THEN conjunct1] c4 by simp
  have C7: "cd_trace (writer (snd (update_dynamic_types ?p example_nearly_full))) =
       cd_trace (writer example_nearly_full)
       @ [Closed, Opened 1, Wrote (RMetadata (version_metadata example_nearly_full))]"
    using Cf c7 unfolding C' by simp
  note D2 = D [THEN conjunct2, THEN conjunct2, THEN conjunct1, THEN mp, THEN mp, OF d1 d2]
  have D': "update_dynamic_types ?r example_margin = (Some (FullFileException 75), ?w4)"
    using D2 d3 l by simp
  have D3: "ft_closed (file_tracker ?w4) = [(0, 10)]"
    using D2 [THEN conjunct2, THEN conjunct2, THEN conjunct2, THEN conjunct2,
        THEN conjunct1, THEN mp, OF d4] d5 by simp
  show ?thesis
    by (intro conjI a1 A' b1 b2f B3 b3 B4 B5 B6 B7 c1 c2f c3 C3 C4 c5 C5 C6 C7 d1 d2f d3 D' d4 D3)
qed

lemma update_dynamic_types_returns:
  "update_dynamic_types p w = (None, w') \<Longrightarrow>
   dynamic_types_payload w' = Some p
   \<and> ft_current_size (file_tracker w') = get_potential_mcap_size (size_tracker w')"
  by (auto simp: update_dynamic_types_def stage_payload_def note_file_size_def
        set_current_file_size_def
      split: prod.splits option.splits exn.splits)

lemma update_dynamic_types_disk_full:
  assumes "\<not> delta_fits p w"
    and "on_mcap_full_nts (payload_length p) w = (Some FullDiskException, w2)"
  shows "fst (update_dynamic_types p w) = None"
    and "size_tracker (snd (update_dynamic_types p w)) =
           (size_tracker w)\<lparr>st_potential := 0, st_written := 0\<rparr>"
    and "\<not> enabled (snd (update_dynamic_types p w))"
proof -
  have u: "update_dynamic_types p w = (None, stage_payload p (on_disk_full w2))"
    using update_dynamic_types_cases [of p w w2] assms by simp
  have w2: "w2 = (close_current_file_nts w)\<lparr>enabled := False\<rparr>"
    using on_mcap_full_nts_disk_full [OF assms(2)] .
  show "fst (update_dynamic_types p w) = None" using u by simp
  show "size_tracker (snd (update_dynamic_types p w)) =
           (size_tracker w)\<lparr>st_potential := 0, st_written := 0\<rparr>"
    unfolding u w2
    by (subst close_current_file_nts_eq)
       (simp add: stage_payload_def note_file_size_def on_disk_full_def Let_def)
  show "\<not> enabled (snd (update_dynamic_types p w))"
    unfolding u w2
    by (simp add: stage_payload_def note_file_size_def on_disk_full_def Let_def)
qed

lemma update_dynamic_types_raises:
  assumes "update_dynamic_types p w = (Some e, w')"
  shows "dynamic_types_payload w' = dynamic_types_payload w"
proof -
  have nf: "\<not> delta_fits p w"
    using assms update_dynamic_types_cases [of p w] by auto
  obtain e2 v where o: "on_mcap_full_nts (payload_length p) w = (e2, v)"
    by (cases "on_mcap_full_nts (payload_length p) w")
  note k = on_mcap_full_nts_payload [OF o]
  show ?thesis
  proof (cases e2)
    case None
    with o nf assms update_dynamic_types_cases [of p w undefined v] have "w' = v"
      by (cases "delta_fits p v") auto
    with k show ?thesis by simp
  next
    case (Some a)
    with o nf assms have "w' = v"
      by (auto simp: update_dynamic_types_def update_dynamic_types_payload_cases and_then_def
          split: exn.splits)
    with k show ?thesis by simp
  qed
qed

text \<open>
  Claim C9, as the code has it.  After every call of \<open>update_dynamic_types\<close> that returns,
  the staged payload is the caller's argument and the file tracker's current file size is
  the potential size.  This includes the call whose reservation raises FileFull and whose
  rollover ends in DiskFull: it returns, with the size tracker merely reset (nothing was
  reserved for the payload) and the writer disabled.  A call that is left by an exception
  keeps the payload that was staged before.
\<close>

theorem update_dynamic_types_stages_on_return:
  "(update_dynamic_types p w = (None, w') \<longrightarrow>
      dynamic_types_payload w' = Some p
      \<and> ft_current_size (file_tracker w') = get_potential_mcap_size (size_tracker w'))
   \<and> (\<not> delta_fits p w \<longrightarrow>
        on_mcap_full_nts (payload_length p) w = (Some FullDiskException, w2) \<longrightarrow>
        fst (update_dynamic_types p w) = None
        \<and> size_tracker (snd (update_dynamic_types p w)) =
            (size_tracker w)\<lparr>st_potential := 0, st_written := 0\<rparr>
        \<and> \<not> enabled (snd (update_dynamic_types p w)))
   \<and> (update_dynamic_types p w = (Some e, w') \<longrightarrow>
        dynamic_types_payload w' = dynamic_types_payload w)"
  using update_dynamic_types_returns [of p w w'] update_dynamic_types_disk_full [of p w w2]
    update_dynamic_types_raises [of p w e w']
  by blast

text \<open>
  A witness: the DiskFull call on the one-file writer, and the call that is left by FileFull
  on the writer with a safety margin.
\<close>

theorem update_dynamic_types_stages_on_return_witness:
  "\<not> delta_fits (example_payload 64 95) example_one_file
   \<and> fst (on_mcap_full_nts 95 example_one_file) = Some FullDiskException
   \<and> fst (update_dynamic_types (example_payload 64 95) example_one_file) = None
   \<and> dynamic_types_payload (snd (update_dynamic_types (example_payload 64 95) example_one_file))
       = Some (example_payload 64 95)
   \<and> ft_current_size (file_tracker (snd (update_dynamic_types (example_payload 64 95)
         example_one_file))) = 0
   \<and> get_potential_mcap_size (size_tracker (snd (update_dynamic_types (example_payload 64 95)
         example_one_file))) = 0
   \<and> ft_closed (file_tracker (snd (update_dynamic_types (example_payload 64 95)
         example_one_file))) = [(0, 10)]
   \<and> fst (update_dynamic_types (example_payload 64 75) example_margin)
       = Some (FullFileException 75)
   \<and> dynamic_types_payload (snd (update_dynamic_types (example_payload 64 75) example_margin))
       = dynamic_types_payload example_margin"
proof -
  let ?p = "example_payload 64 95"
  let ?u = "update_dynamic_types ?p example_one_file"
  let ?v = "update_dynamic_types (example_payload 64 75) example_margin"
  have l: "payload_length (example_payload a n) = n" for a n
    by (simp add: example_payload_def)
  have b1: "\<not> delta_fits ?p example_one_file"
    by (simp add: eval_defs example_state_defs)
  have b2f: "fst (on_mcap_full_nts 95 example_one_file) = Some FullDiskException"
    by (simp add: eval_defs example_state_defs)
  then have b2: "on_mcap_full_nts (payload_length ?p) example_one_file
      = (Some FullDiskException, snd (on_mcap_full_nts 95 example_one_file))"
    unfolding l by (cases "on_mcap_full_nts 95 example_one_file") simp
  have s: "size_tracker example_one_file\<lparr>st_potential := 0, st_written := 0\<rparr>
      = \<lparr>st_overhead = 4, st_min_base = 10, st_max_file_size = 100, st_safety_margin = 0,
         st_potential = 0, st_written = 0, st_attachment = 0\<rparr>"
    by (simp add: eval_defs example_state_defs)
  have c: "ft_closed (file_tracker (snd ?u)) = [(0, 10)]"
    by (simp add: eval_defs example_state_defs)
  have vf: "fst ?v = Some (FullFileException 75)"
    by (simp add: eval_defs example_state_defs)
  note A = update_dynamic_types_stages_on_return [of ?p example_one_file "snd ?u"
      "snd (on_mcap_full_nts 95 example_one_file)" undefined]
  from A b1 b2 have 1: "fst ?u = None"
    "size_tracker (snd ?u) = (size_tracker example_one_file)\<lparr>st_potential := 0, st_written := 0\<rparr>"
    by blast+
  then have "?u = (None, snd ?u)" by (cases ?u) simp
  with A have 2: "dynamic_types_payload (snd ?u) = Some ?p"
    "ft_current_size (file_tracker (snd ?u)) = get_potential_mcap_size (size_tracker (snd ?u))"
    by blast+
  have 3: "get_potential_mcap_size (size_tracker (snd ?u)) = 0"
    unfolding 1(2) s by (simp add: get_potential_mcap_size_def)
  from vf have "?v = (Some (FullFileException 75), snd ?v)" by (cases ?v) simp
  with update_dynamic_types_stages_on_return [of "example_payload 64 75" example_margin "snd ?v"
      undefined "FullFileException 75"]
  have 4: "dynamic_types_payload (snd ?v) = dynamic_types_payload example_margin" by blast
  show ?thesis using b1 b2f 1(1) 2 3 c vf 4 by simp
qed

text \<open>
  The claim as stated fails: with a safety margin of 20 and files of 100 bytes, a 75-byte
  payload rolls the file over (the minimum of 85 bytes is granted), does not fit the 80
  usable bytes of the new file either, and the second FileFull leaves the call: no payload
  is staged although the first file was closed and a second one opened.
\<close>

theorem update_dynamic_types_leaves_payload_on_exception:
  "fst (update_dynamic_types (example_payload 64 75) example_margin)
     = Some (FullFileException 75)
   \<and> dynamic_types_payload (snd (update_dynamic_types (example_payload 64 75) example_margin))
       = None
   \<and> ft_closed (file_tracker (snd (update_dynamic_types (example_payload 64 75) example_margin)))
       = [(0, 10)]
   \<and> ft_created (file_tracker (snd (update_dynamic_types (example_payload 64 75) example_margin)))
       = 2"
  by (simp add: eval_defs example_state_defs)

section \<open>The order of a rollover\<close>

lemma u64_sub_eq: "b \<le> a \<Longrightarrow> a < 2 ^ 64 \<Longrightarrow> u64_sub a b = a - b"
proof -
  assume a: "b \<le> a" "a < 2 ^ 64"
  show ?thesis
  proof (cases "b = 0")
    case True
    with a show ?thesis by (simp add: u64_sub_def)
  next
    case False
    with a have "a mod 2 ^ 64 + (2 ^ 64 - b mod 2 ^ 64) = 2 ^ 64 + (a - b)" by simp
    moreover from a have "a - b < 2 ^ 64" by simp
    ultimately show ?thesis by (simp add: u64_sub_def)
  qed
qed

lemma u64_add_eq: "a + b < 2 ^ 64 \<Longrightarrow> u64_add a b = a + b"
  by (simp add: u64_add_def)

lemma McapWriter_write_retry:
  assumes "enabled w" and "write_nts r w = (Some (FullFileException n), w)"
    and "on_mcap_full_nts n w = (None, w')"
  shows "McapWriter_write r w = write_nts r w'"
proof (cases "write_nts r w'")
  case (Pair e v)
  show ?thesis
  proof (cases e)
    case None
    with Pair assms show ?thesis by (simp add: McapWriter_write_def and_then_def)
  next
    case (Some a)
    with Pair write_nts_raises [of r w' a v] obtain k where "a = FullFileException k" by auto
    with Some Pair assms show ?thesis by (simp add: McapWriter_write_def and_then_def)
  qed
qed

lemma on_mcap_full_nts_trace:
  assumes "on_mcap_full_nts n w = (None, w')"
  shows "\<exists>md. (md = [] \<or> md = [Wrote (RMetadata (version_metadata w))])
     \<and> cd_trace (writer w') =
         cd_trace (writer (close_current_file_nts w))
         @ Opened (ft_created (file_tracker w)) # md
         @ map (\<lambda>s. Wrote (RSchema s)) (schemas w)
         @ map (\<lambda>c. Wrote (RChannel c)) (channels w)"
    and "get_potential_mcap_size (size_tracker w') =
       st_overhead (size_tracker w) + version_metadata_size w
       + sum_list (map schema_size (schemas w)) + sum_list (map channel_size (channels w))
       + (if record_types w then staged_length w else 0)"
    and "enabled w'"
    and "u64_add (get_min_mcap_size (size_tracker w)) n
           \<le> max_file_size (ft_configuration (file_tracker w))"
    and "ft_configuration (file_tracker w) = configuration w \<Longrightarrow>
         max_size (configuration w) < 2 ^ 64 \<Longrightarrow>
         u64_add (get_min_mcap_size (size_tracker w)) n \<le> st_max_file_size (size_tracker w')"
proof -
  let ?c = "(close_current_file_nts w)\<lparr>enabled := False\<rparr>"
  let ?m = "u64_add (get_min_mcap_size (size_tracker w)) n"
  from on_mcap_full_nts_ok(2) [OF assms] obtain w3
    where o: "open_new_file_nts ?m ?c = (None, w3)" and w': "w' = w3\<lparr>enabled := True\<rparr>"
    by blast
  have c: "schemas ?c = schemas w" "channels ?c = channels w"
    "ft_created (file_tracker ?c) = ft_created (file_tracker w)"
    "version_metadata ?c = version_metadata w" "record_types ?c = record_types w"
    "staged_length ?c = staged_length w" "st_overhead (size_tracker ?c) = st_overhead (size_tracker w)"
    "version_metadata_size ?c = version_metadata_size w"
    "ft_configuration (file_tracker ?c) = ft_configuration (file_tracker w)"
    "configuration ?c = configuration w"
    by (subst close_current_file_nts_eq,
        simp add: close_file_def version_metadata_def staged_length_def)+
  have ct: "cd_trace (writer ?c) = cd_trace (writer (close_current_file_nts w))"
    by simp
  note k = open_new_file_nts_ok [OF o]
  from k(8) show "\<exists>md. (md = [] \<or> md = [Wrote (RMetadata (version_metadata w))])
     \<and> cd_trace (writer w') =
         cd_trace (writer (close_current_file_nts w))
         @ Opened (ft_created (file_tracker w)) # md
         @ map (\<lambda>s. Wrote (RSchema s)) (schemas w)
         @ map (\<lambda>c. Wrote (RChannel c)) (channels w)"
    unfolding c ct w' by simp
  from k(5) show "get_potential_mcap_size (size_tracker w') =
       st_overhead (size_tracker w) + version_metadata_size w
       + sum_list (map schema_size (schemas w)) + sum_list (map channel_size (channels w))
       + (if record_types w then staged_length w else 0)"
    unfolding c w' by (simp add: get_potential_mcap_size_def)
  show "enabled w'" using w' by simp
  from k(1) show "?m \<le> max_file_size (ft_configuration (file_tracker w))"
    unfolding c .
  assume cf: "ft_configuration (file_tracker w) = configuration w"
    and ms: "max_size (configuration w) < 2 ^ 64"
  from k(1,2) cf have 1: "?m \<le> max_file_size (configuration w)"
    and 2: "ft_total_size (file_tracker ?c) + ?m \<le> max_size (configuration w)"
    unfolding c by simp_all
  from 2 ms have "u64_sub (max_size (configuration w)) (ft_total_size (file_tracker ?c))
      = max_size (configuration w) - ft_total_size (file_tracker ?c)"
    by (intro u64_sub_eq) simp_all
  with 1 2 have "?m \<le> min (max_file_size (configuration ?c))
      (u64_sub (max_size (configuration ?c)) (ft_total_size (file_tracker ?c)))"
    unfolding c by simp
  moreover have "st_max_file_size (size_tracker w') = min (max_file_size (configuration ?c))
      (u64_sub (max_size (configuration ?c)) (ft_total_size (file_tracker ?c)))"
  proof -
    have "st_max_file_size (size_tracker w3) = min (max_file_size (configuration ?c))
      (u64_sub (max_size (configuration ?c)) (ft_total_size (file_tracker ?c)))"
      using arg_cong [OF k(4), of st_max_file_size] by simp
    then show ?thesis unfolding w' by simp
  qed
  ultimately show "?m \<le> st_max_file_size (size_tracker w')" by simp
qed

text \<open>
  Claim C2, as the code has it.  When \<open>on_mcap_full_nts\<close> rolls the file over (it
  returns), the library has
  been handed, in this order: the staged attachment (if \<open>record_types\<close> is set, a payload
  is staged and the library accepts it), the close of the current file, the opening of the
  next file, the version metadata (if accepted), every cached schema and then every cached
  channel.  The size tracker of the new file holds the reservations of all of these and,
  when \<open>record_types\<close> is set, of the staged attachment.  The file tracker was asked for, and granted, a file of at least
  the minimum MCAP size plus the size of the triggering item (computed in 64 bits), and the
  ceiling of the new file is at least that.  The writer is enabled again, and only then is
  the triggering item written, on the state the rollover left.
\<close>

theorem rollover_order:
  "on_mcap_full_nts n w = (None, w') \<Longrightarrow>
   (\<exists>md. (md = [] \<or> md = [Wrote (RMetadata (version_metadata w))])
      \<and> cd_trace (writer w') =
          cd_trace (writer w)
          @ (if record_types w \<and> codec_accepts (writer w)
             then (case dynamic_types_payload w of
                     None \<Rightarrow> [] | Some p \<Rightarrow> [Wrote (RAttachment (dynamic_types_attachment p))])
             else [])
          @ (if cd_is_open (writer w) then [Closed] else [])
          @ Opened (ft_created (file_tracker w)) # md
          @ map (\<lambda>s. Wrote (RSchema s)) (schemas w)
          @ map (\<lambda>c. Wrote (RChannel c)) (channels w))
   \<and> get_potential_mcap_size (size_tracker w') =
       st_overhead (size_tracker w) + version_metadata_size w
       + sum_list (map schema_size (schemas w)) + sum_list (map channel_size (channels w))
       + (if record_types w then staged_length w else 0)
   \<and> enabled w'
   \<and> u64_add (get_min_mcap_size (size_tracker w)) n
       \<le> max_file_size (ft_configuration (file_tracker w))
   \<and> (ft_configuration (file_tracker w) = configuration w \<longrightarrow>
        max_size (configuration w) < 2 ^ 64 \<longrightarrow>
        u64_add (get_min_mcap_size (size_tracker w)) n \<le> st_max_file_size (size_tracker w'))
   \<and> (get_min_mcap_size (size_tracker w) + n < 2 ^ 64 \<longrightarrow>
        u64_add (get_min_mcap_size (size_tracker w)) n = get_min_mcap_size (size_tracker w) + n)
   \<and> (enabled w \<longrightarrow> write_nts r w = (Some (FullFileException n), w) \<longrightarrow>
        McapWriter_write r w = write_nts r w')"
proof -
  assume a: "on_mcap_full_nts n w = (None, w')"
  note t = on_mcap_full_nts_trace [OF a]
  from t(1) obtain md where md: "md = [] \<or> md = [Wrote (RMetadata (version_metadata w))]"
    and tr: "cd_trace (writer w') =
         cd_trace (writer (close_current_file_nts w))
         @ Opened (ft_created (file_tracker w)) # md
         @ map (\<lambda>s. Wrote (RSchema s)) (schemas w)
         @ map (\<lambda>c. Wrote (RChannel c)) (channels w)"
    by blast
  have 1: "\<exists>md. (md = [] \<or> md = [Wrote (RMetadata (version_metadata w))])
      \<and> cd_trace (writer w') =
          cd_trace (writer w)
          @ (if record_types w \<and> codec_accepts (writer w)
             then (case dynamic_types_payload w of
                     None \<Rightarrow> [] | Some p \<Rightarrow> [Wrote (RAttachment (dynamic_types_attachment p))])
             else [])
          @ (if cd_is_open (writer w) then [Closed] else [])
          @ Opened (ft_created (file_tracker w)) # md
          @ map (\<lambda>s. Wrote (RSchema s)) (schemas w)
          @ map (\<lambda>c. Wrote (RChannel c)) (channels w)"
    apply (rule exI [of _ md])
    apply (rule conjI [OF md])
    apply (subst tr)
    apply (subst close_trace)
    apply (simp only: append_assoc)
    done
  have 6: "get_min_mcap_size (size_tracker w) + n < 2 ^ 64 \<longrightarrow>
        u64_add (get_min_mcap_size (size_tracker w)) n = get_min_mcap_size (size_tracker w) + n"
    using u64_add_eq by blast
  have 7: "enabled w \<longrightarrow> write_nts r w = (Some (FullFileException n), w) \<longrightarrow>
        McapWriter_write r w = write_nts r w'"
    using McapWriter_write_retry [of w r n w'] a by blast
  from 1 t(2) t(3) t(4) t(5) 6 7 show ?thesis by blast
qed

text \<open>
  A witness: the example file holding a schema, a channel, a message and a staged 20-byte
  payload (90 of 100 bytes) is rolled over by a 30-byte message.
\<close>

theorem rollover_order_witness:
  "fst (on_mcap_full_nts 30 example_rollover) = None
   \<and> enabled example_rollover
   \<and> write_nts (RMessage (example_message 30)) example_rollover
       = (Some (FullFileException 30), example_rollover)
   \<and> ft_configuration (file_tracker example_rollover) = configuration example_rollover
   \<and> max_size (configuration example_rollover) < 2 ^ 64
   \<and> cd_trace (writer (snd (on_mcap_full_nts 30 example_rollover))) =
       cd_trace (writer example_rollover)
       @ [Wrote (RAttachment (dynamic_types_attachment (example_payload 64 20))), Closed,
          Opened 1, Wrote (RMetadata (version_metadata example_rollover)),
          Wrote (RSchema (example_schema 1 5)), Wrote (RChannel (example_channel 1 5))]
   \<and> get_potential_mcap_size (size_tracker (snd (on_mcap_full_nts 30 example_rollover))) = 40
   \<and> enabled (snd (on_mcap_full_nts 30 example_rollover))
   \<and> u64_add (get_min_mcap_size (size_tracker example_rollover)) 30 = 60
   \<and> 60 \<le> st_max_file_size (size_tracker (snd (on_mcap_full_nts 30 example_rollover)))
   \<and> McapWriter_write (RMessage (example_message 30)) example_rollover
       = write_nts (RMessage (example_message 30)) (snd (on_mcap_full_nts 30 example_rollover))"
proof -
  let ?w = example_rollover
  let ?w' = "snd (on_mcap_full_nts 30 ?w)"
  let ?r = "RMessage (example_message 30)"
  have f: "fst (on_mcap_full_nts 30 ?w) = None"
    by (simp add: eval_defs example_rollover_def)
  then have a: "on_mcap_full_nts 30 ?w = (None, ?w')"
    by (cases "on_mcap_full_nts 30 ?w") simp
  have en: "enabled ?w" by (simp add: eval_defs example_rollover_def)
  have full: "write_nts ?r ?w = (Some (FullFileException 30), ?w)"
    by (simp add: eval_defs example_rollover_def)
  have cf: "ft_configuration (file_tracker ?w) = configuration ?w"
    by (simp add: eval_defs example_rollover_def)
  have ms: "max_size (configuration ?w) < 2 ^ 64"
    by (simp add: eval_defs example_rollover_def)
  have m: "u64_add (get_min_mcap_size (size_tracker ?w)) 30 = 60"
    by (simp add: eval_defs example_rollover_def)
  have tr: "cd_trace (writer ?w') = cd_trace (writer ?w)
       @ [Wrote (RAttachment (dynamic_types_attachment (example_payload 64 20))), Closed,
          Opened 1, Wrote (RMetadata (version_metadata ?w)),
          Wrote (RSchema (example_schema 1 5)), Wrote (RChannel (example_channel 1 5))]"
    by (simp add: eval_defs example_rollover_def)
  have v: "st_overhead (size_tracker ?w) + version_metadata_size ?w
       + sum_list (map schema_size (schemas ?w)) + sum_list (map channel_size (channels ?w))
       + (if record_types ?w then staged_length ?w else 0) = 40"
    by (simp add: eval_defs example_rollover_def)
  note R = rollover_order [OF a, of ?r]
  from R v have 1: "get_potential_mcap_size (size_tracker ?w') = 40" by simp
  from R have 2: "enabled ?w'" by blast
  from R cf ms m have 3: "60 \<le> st_max_file_size (size_tracker ?w')" by simp
  from R en full have 4: "McapWriter_write ?r ?w = write_nts ?r ?w'" by blast
  show ?thesis using f en full cf ms tr 1 2 m 3 4 by blast
qed

text \<open>
  Claim C2 as the specification words it has every rollover re-emit the reservation of the
  pending attachment.  On a writer that does not record types a staged payload is never
  written as an attachment, and \<open>open_new_file_nts\<close> reserves nothing for it: the 20-byte
  payload stays staged over the rollover, and the new file's potential size is the 20 bytes
  of the framing, the version metadata, the schema and the channel.
\<close>

theorem rollover_without_record_types_reserves_no_attachment:
  "\<not> record_types example_rollover_untyped
   \<and> enabled example_rollover_untyped
   \<and> dynamic_types_payload example_rollover_untyped = Some (example_payload 64 20)
   \<and> staged_length example_rollover_untyped = 20
   \<and> write_nts (RMessage (example_message 30)) example_rollover_untyped
       = (Some (FullFileException 30), example_rollover_untyped)
   \<and> fst (on_mcap_full_nts 30 example_rollover_untyped) = None
   \<and> dynamic_types_payload (snd (on_mcap_full_nts 30 example_rollover_untyped))
       = Some (example_payload 64 20)
   \<and> st_overhead (size_tracker example_rollover_untyped)
       + version_metadata_size example_rollover_untyped
       + sum_list (map schema_size (schemas example_rollover_untyped))
       + sum_list (map channel_size (channels example_rollover_untyped)) = 20
   \<and> get_potential_mcap_size (size_tracker (snd (on_mcap_full_nts 30 example_rollover_untyped)))
       = 20"
  by (simp add: eval_defs example_rollover_untyped_def)

section \<open>Enabling and disabling\<close>

lemma disable_enabled:
  "enabled w \<Longrightarrow>
   channels (disable w) = [] \<and> schemas (disable w) = schemas w \<and> \<not> enabled (disable w)
   \<and> cd_trace (writer (disable w)) = cd_trace (writer (close_current_file_nts w))
   \<and> ft_created (file_tracker (disable w)) = ft_created (file_tracker w)
   \<and> version_metadata (disable w) = version_metadata w"
  unfolding disable_def
  by (subst close_current_file_nts_eq)+ (simp add: close_file_def version_metadata_def)

lemma disable_idem: "disable (disable w) = disable w"
  by (simp add: disable_def)

lemma enable_idem: "enable w = (None, w') \<Longrightarrow> enable w' = (None, w')"
  by (auto simp: enable_def split: if_splits prod.splits option.splits exn.splits)

lemma enable_trace:
  assumes "\<not> enabled w" and "enable w = (None, w')"
  shows "\<exists>md. (md = [] \<or> md = [Wrote (RMetadata (version_metadata w))])
     \<and> (cd_trace (writer w') =
           cd_trace (writer w) @ Opened (ft_created (file_tracker w)) # md
           @ map (\<lambda>s. Wrote (RSchema s)) (schemas w)
           @ map (\<lambda>c. Wrote (RChannel c)) (channels w)
         \<or> cd_trace (writer w') = cd_trace (writer w))"
proof (cases "open_new_file_nts (MIN_MCAP_SIZE w) w")
  case (Pair e1 w1)
  show ?thesis
  proof (cases e1)
    case None
    with Pair assms have w': "w' = w1\<lparr>enabled := True\<rparr>" by (simp add: enable_def)
    from Pair None have "open_new_file_nts (MIN_MCAP_SIZE w) w = (None, w1)" by simp
    from open_new_file_nts_ok(8) [OF this] w' show ?thesis by auto
  next
    case (Some a)
    with Pair assms have a: "a = FullDiskException"
      by (auto simp: enable_def split: exn.splits)
    with Pair Some open_new_file_nts_raises [of "MIN_MCAP_SIZE w" w a w1]
    have "w1 = w" by simp
    with Pair Some a assms have "w' = (on_disk_full w)\<lparr>enabled := True\<rparr>"
      by (simp add: enable_def)
    then show ?thesis by (auto simp: on_disk_full_def Let_def)
  qed
qed

text \<open>
  On an enabled writer \<open>disable\<close> does what it is meant to: it clears the cached channels
  and keeps the cached schemas; on a writer that is not enabled it does nothing, so it is
  idempotent.  \<open>enable\<close> on an enabled writer does nothing, and after an \<open>enable\<close> that
  returned a second one does nothing.  After \<open>disable\<close> on an enabled writer, an \<open>enable\<close>
  that returns has either opened a file and handed the library the version metadata and
  the cached schemas, and no channel, or (DiskFull) handed it nothing.
\<close>

lemma disable_clears_channels_of_enabled_writer:
  "(enabled w \<longrightarrow>
      channels (disable w) = [] \<and> schemas (disable w) = schemas w \<and> \<not> enabled (disable w))
   \<and> (\<not> enabled w \<longrightarrow> disable w = w)
   \<and> disable (disable w) = disable w
   \<and> (enabled w \<longrightarrow> enable w = (None, w))
   \<and> (enable w = (None, w') \<longrightarrow> enable w' = (None, w'))
   \<and> (enabled w \<longrightarrow> enable (disable w) = (None, w'') \<longrightarrow>
        (\<exists>md. (md = [] \<or> md = [Wrote (RMetadata (version_metadata w))])
           \<and> (cd_trace (writer w'') =
                 cd_trace (writer (disable w)) @ Opened (ft_created (file_tracker w)) # md
                 @ map (\<lambda>s. Wrote (RSchema s)) (schemas w)
               \<or> cd_trace (writer w'') = cd_trace (writer (disable w)))))"
proof -
  have f: "enabled w \<longrightarrow> enable (disable w) = (None, w'') \<longrightarrow>
        (\<exists>md. (md = [] \<or> md = [Wrote (RMetadata (version_metadata w))])
           \<and> (cd_trace (writer w'') =
                 cd_trace (writer (disable w)) @ Opened (ft_created (file_tracker w)) # md
                 @ map (\<lambda>s. Wrote (RSchema s)) (schemas w)
               \<or> cd_trace (writer w'') = cd_trace (writer (disable w))))"
  proof (intro impI)
    assume en: "enabled w" and e: "enable (disable w) = (None, w'')"
    note d = disable_enabled [OF en]
    from d have "\<not> enabled (disable w)" by simp
    from enable_trace [OF this e] obtain md
      where "md = [] \<or> md = [Wrote (RMetadata (version_metadata (disable w)))]"
        and "cd_trace (writer w'') =
           cd_trace (writer (disable w)) @ Opened (ft_created (file_tracker (disable w))) # md
           @ map (\<lambda>s. Wrote (RSchema s)) (schemas (disable w))
           @ map (\<lambda>c. Wrote (RChannel c)) (channels (disable w))
         \<or> cd_trace (writer w'') = cd_trace (writer (disable w))"
      by blast
    with d show "\<exists>md. (md = [] \<or> md = [Wrote (RMetadata (version_metadata w))])
           \<and> (cd_trace (writer w'') =
                 cd_trace (writer (disable w)) @ Opened (ft_created (file_tracker w)) # md
                 @ map (\<lambda>s. Wrote (RSchema s)) (schemas w)
               \<or> cd_trace (writer w'') = cd_trace (writer (disable w)))"
      by (intro exI [of _ md]) auto
  qed
  show ?thesis
    using disable_enabled [of w] disable_idem [of w] enable_idem [of w w'] f
    by (simp add: disable_def enable_def)
qed

text \<open>
  An example: the example writer with one schema and one channel cached.
\<close>

lemma disable_clears_channels_of_enabled_writer_example:
  "enabled example_rollover
   \<and> channels example_rollover = [example_channel 1 5]
   \<and> channels (disable example_rollover) = []
   \<and> schemas (disable example_rollover) = [example_schema 1 5]
   \<and> \<not> enabled (disable example_rollover)
   \<and> disable (disable example_rollover) = disable example_rollover
   \<and> enable example_rollover = (None, example_rollover)
   \<and> fst (enable (disable example_rollover)) = None
   \<and> enable (snd (enable (disable example_rollover))) = (None, snd (enable (disable example_rollover)))
   \<and> cd_trace (writer (snd (enable (disable example_rollover)))) =
       cd_trace (writer (disable example_rollover))
       @ [Opened 1, Wrote (RMetadata (version_metadata example_rollover)),
          Wrote (RSchema (example_schema 1 5))]"
proof -
  let ?w = example_rollover
  let ?e = "enable (disable ?w)"
  have en: "enabled ?w" by (simp add: eval_defs example_rollover_def)
  have ch: "channels ?w = [example_channel 1 5]" by (simp add: eval_defs example_rollover_def)
  have sc: "schemas ?w = [example_schema 1 5]" by (simp add: eval_defs example_rollover_def)
  have f: "fst ?e = None" by (simp add: eval_defs example_rollover_def)
  then have e: "?e = (None, snd ?e)" by (cases ?e) simp
  have tr: "cd_trace (writer (snd ?e)) = cd_trace (writer (disable ?w))
       @ [Opened 1, Wrote (RMetadata (version_metadata ?w)), Wrote (RSchema (example_schema 1 5))]"
    by (simp add: eval_defs example_rollover_def)
  note A = disable_clears_channels_of_enabled_writer [of ?w "snd ?e" "snd ?e"]
  from A en sc have 1: "channels (disable ?w) = []" "schemas (disable ?w) = [example_schema 1 5]"
    "\<not> enabled (disable ?w)" "disable (disable ?w) = disable ?w" "enable ?w = (None, ?w)"
    by simp_all
  from disable_clears_channels_of_enabled_writer [of "disable ?w" "snd ?e" "snd ?e"] e
  have 2: "enable (snd ?e) = (None, snd ?e)" by blast
  show ?thesis using en ch 1 f 2 tr by blast
qed

text \<open>
  Claim C7 fails on a writer that DiskFull has disabled.  On the one-file example writer a
  channel is written and a 95-byte message meets DiskFull: \<open>on_mcap_full_nts\<close> closes the
  file, clears the enabled flag and keeps the cached channel.  \<open>disable\<close> then returns at
  once, without clearing the channels, and the next \<open>enable\<close> (the first file took 15 of the
  100 bytes, so a new file is granted) hands the stale channel to the library again.  When
  \<open>disable\<close> is called on the enabled writer instead, the new file holds no channel.
\<close>

theorem disable_after_disk_full_keeps_channels:
  "fst (run example_disk_full_run (example_writer 100 100 0 False [])) = None
   \<and> \<not> enabled (snd (run example_disk_full_run (example_writer 100 100 0 False [])))
   \<and> channels (snd (run example_disk_full_run (example_writer 100 100 0 False [])))
       = [example_channel 1 5]
   \<and> monitor_errors (snd (run example_disk_full_run (example_writer 100 100 0 False []))) = 1
   \<and> disable (snd (run example_disk_full_run (example_writer 100 100 0 False [])))
       = snd (run example_disk_full_run (example_writer 100 100 0 False []))
   \<and> fst (run example_stale_channel_run (example_writer 100 100 0 False [])) = None
   \<and> cd_trace (writer (snd (run example_stale_channel_run (example_writer 100 100 0 False []))))
       = [Opened 0, Wrote (RMetadata (version_metadata (example_writer 100 100 0 False []))),
          Wrote (RChannel (example_channel 1 5)), Closed,
          Opened 1, Wrote (RMetadata (version_metadata (example_writer 100 100 0 False []))),
          Wrote (RChannel (example_channel 1 5))]
   \<and> fst (run example_disable_run (example_writer 100 100 0 False [])) = None
   \<and> cd_trace (writer (snd (run example_disable_run (example_writer 100 100 0 False []))))
       = [Opened 0, Wrote (RMetadata (version_metadata (example_writer 100 100 0 False []))),
          Wrote (RChannel (example_channel 1 5)), Closed,
          Opened 1, Wrote (RMetadata (version_metadata (example_writer 100 100 0 False [])))]"
  by (simp add: eval_defs example_disk_full_run_def example_stale_channel_run_def
      example_disable_run_def)

section \<open>DiskFull\<close>

text \<open>
  DiskFull met while rolling a file over leaves the writer disabled, and a disabled writer
  ignores writes.
\<close>

lemma disk_full_in_rollover_disables_writer:
  assumes "on_mcap_full_nts n w = (Some FullDiskException, w2)"
  shows "\<not> enabled w2" and "McapWriter_write r w2 = (None, w2)"
    and "write_nts_message m w2 = (None, w2)"
proof -
  show 1: "\<not> enabled w2" using on_mcap_full_nts_disk_full [OF assms] by simp
  then show "McapWriter_write r w2 = (None, w2)" by (simp add: McapWriter_write_def)
  from 1 show "write_nts_message m w2 = (None, w2)" by (simp add: write_nts_message_def)
qed

text \<open>
  Claim C1 fails in \<open>enable\<close>.  When the file tracker refuses the first file (DiskFull),
  \<open>enable\<close> invokes the callback once and then sets the enabled flag all the same: the
  writer is enabled with no file open.  The next message write is not a no-op: it passes
  the enabled check and raises FileFull, and through the public \<open>write\<close> it meets DiskFull
  a second time and fires the callback again.
\<close>

theorem enable_on_full_disk_enables_writer:
  "\<not> enabled example_no_room
   \<and> enable example_no_room =
       (None, example_no_room\<lparr>enabled := True, lambda_calls := 1, monitor_errors := 1\<rparr>)
   \<and> \<not> ft_is_open (file_tracker (snd (enable example_no_room)))
   \<and> write_nts_message (example_message 1) (snd (enable example_no_room)) =
       (Some (FullFileException 1), snd (enable example_no_room))
   \<and> lambda_calls
       (snd (McapWriter_write (RMessage (example_message 1)) (snd (enable example_no_room)))) = 2"
  by (simp add: eval_defs example_no_room_def)

section \<open>The handler's ingest\<close>

lemmas handler_defs = add_data_def add_data_nts_def add_to_pending_nts_def
  add_to_pending_paused_nts_def dump_data_nts_def overflows_def pending_of_def pending_put_def
  next_sequence_number_def held_def sample_identity_def example_topic_def example_handler_def

lemma pending_of_subset: "x \<in> set (pending_of k m) \<Longrightarrow> \<exists>e \<in> set m. x \<in> set (snd e)"
proof (cases "map_of m k")
  case None
  assume "x \<in> set (pending_of k m)"
  with None show ?thesis by (simp add: pending_of_def)
next
  case (Some q)
  assume "x \<in> set (pending_of k m)"
  with Some have "x \<in> set q" by (simp add: pending_of_def)
  with map_of_SomeD [OF Some] show ?thesis by force
qed

lemma subset_insert_chain: "S \<subseteq> insert a T \<Longrightarrow> T \<subseteq> U \<Longrightarrow> a \<in> U \<Longrightarrow> S \<subseteq> U"
  by blast

lemma held_add_data_nts:
  "sample_identity ` held (add_data_nts msg h) \<subseteq> insert (sample_identity msg) (sample_identity ` held h)"
  by (auto simp: add_data_nts_def dump_data_nts_def held_def Let_def)

lemma add_data_nts_counter:
  "unique_sequence_number (add_data_nts msg h) = unique_sequence_number h"
  by (simp add: add_data_nts_def dump_data_nts_def Let_def)

lemma held_add_to_pending_nts:
  "sample_identity ` held (add_to_pending_nts msg h)
     \<subseteq> insert (sample_identity msg) (sample_identity ` held h)"
proof -
  let ?k = "type_name (sample_topic msg)"
  let ?q = "pending_of ?k (pending_samples h) @ [msg]"
  have q: "sample_identity ` set ?q \<subseteq> insert (sample_identity msg) (sample_identity ` held h)"
    by (auto simp: held_def dest!: pending_of_subset)
  have put: "sample_identity ` held (h\<lparr>pending_samples := pending_put ?k r (pending_samples h)\<rparr>)
      \<subseteq> insert (sample_identity msg) (sample_identity ` held h)"
    if "set r \<subseteq> set ?q" for r
    using that q by (auto simp: held_def pending_put_def)
  show ?thesis
  proof (cases "overflows h ?q")
    case False
    then show ?thesis using put [of ?q] by (simp add: add_to_pending_nts_def Let_def)
  next
    case True
    then have ne: "?q \<noteq> []" by simp
    have tl: "set (tl ?q) \<subseteq> set ?q" by (metis list.set_sel(2) ne subsetI)
    have hd: "sample_identity ((hd ?q)\<lparr>sample_blank := True\<rparr>)
        \<in> insert (sample_identity msg) (sample_identity ` held h)"
    proof -
      have "hd ?q \<in> set ?q" using ne by (metis list.set_sel(1))
      then have "sample_identity (hd ?q) \<in> insert (sample_identity msg) (sample_identity ` held h)"
        using q by blast
      then show ?thesis by (simp add: sample_identity_def)
    qed
    let ?h1 = "h\<lparr>pending_samples := pending_put ?k (tl ?q) (pending_samples h)\<rparr>"
    show ?thesis
    proof (cases "only_with_schema (h_configuration h)")
      case True
      with \<open>overflows h ?q\<close> show ?thesis using put [OF tl]
        by (simp add: add_to_pending_nts_def Let_def)
    next
      case False
      with \<open>overflows h ?q\<close> have eq: "add_to_pending_nts msg h
          = add_data_nts ((hd ?q)\<lparr>sample_blank := True\<rparr>) ?h1"
        by (simp add: add_to_pending_nts_def Let_def)
      have A: "sample_identity ` held (add_data_nts ((hd ?q)\<lparr>sample_blank := True\<rparr>) ?h1)
          \<subseteq> insert (sample_identity ((hd ?q)\<lparr>sample_blank := True\<rparr>))
              (sample_identity ` held ?h1)"
        by (rule held_add_data_nts)
      have B: "sample_identity ` held ?h1
          \<subseteq> insert (sample_identity msg) (sample_identity ` held h)"
        by (rule put [OF tl])
      show ?thesis unfolding eq by (rule subset_insert_chain [OF A B hd])
    qed
  qed
qed

lemma add_to_pending_nts_counter:
  "unique_sequence_number (add_to_pending_nts msg h) = unique_sequence_number h"
  by (simp add: add_to_pending_nts_def add_data_nts_counter Let_def)

lemma held_add_to_pending_paused_nts:
  "sample_identity ` held (add_to_pending_paused_nts msg h)
     \<subseteq> insert (sample_identity msg) (sample_identity ` held h)"
proof -
  let ?k = "type_name (sample_topic msg)"
  let ?q = "pending_of ?k (pending_samples_paused h) @ [msg]"
  have q: "sample_identity ` set ?q \<subseteq> insert (sample_identity msg) (sample_identity ` held h)"
    by (auto simp: held_def dest!: pending_of_subset)
  have put: "sample_identity ` held (h\<lparr>pending_samples_paused :=
        pending_put ?k r (pending_samples_paused h)\<rparr>)
      \<subseteq> insert (sample_identity msg) (sample_identity ` held h)"
    if "set r \<subseteq> set ?q" for r
    using that q by (auto simp: held_def pending_put_def)
  have tl: "set (tl ?q) \<subseteq> set ?q" by (metis list.set_sel(2) snoc_eq_iff_butlast subsetI)
  show ?thesis using put [of ?q] put [OF tl]
    by (simp add: add_to_pending_paused_nts_def Let_def)
qed

lemma add_to_pending_paused_nts_counter:
  "unique_sequence_number (add_to_pending_paused_nts msg h) = unique_sequence_number h"
  by (simp add: add_to_pending_paused_nts_def Let_def)

lemma held_counter_update:
  "held (h\<lparr>unique_sequence_number := n\<rparr>) = held h"
  by (simp add: held_def)

text \<open>
  Claim C8.  In state STOPPED \<open>add_data\<close> leaves the handler as it is: the sample is not
  stored, nothing is handed to the writer and the sequence number does not advance.  In
  RUNNING and PAUSED the sequence number advances to the next number, and the only sample
  the handler may hold afterwards that it did not hold before is the delivered one, carrying
  that number.
\<close>

theorem stopped_handler_discards:
  "(state h = STOPPED \<longrightarrow> add_data topic payload h = h)
   \<and> (state h \<noteq> STOPPED \<longrightarrow>
        unique_sequence_number (add_data topic payload h) = next_sequence_number h
        \<and> sample_identity ` held (add_data topic payload h)
            \<subseteq> insert (topic, next_sequence_number h, payload) (sample_identity ` held h))"
proof -
  let ?h1 = "h\<lparr>unique_sequence_number := next_sequence_number h\<rparr>"
  let ?msg = "\<lparr>sample_topic = topic, sample_sequence = next_sequence_number h,
      sample_payload = payload, sample_blank = False\<rparr>"
  have id: "sample_identity ?msg = (topic, next_sequence_number h, payload)"
    "sample_identity (?msg\<lparr>sample_blank := True\<rparr>) = (topic, next_sequence_number h, payload)"
    by (simp_all add: sample_identity_def)
  have a: "state h \<noteq> STOPPED \<Longrightarrow>
      add_data topic payload h \<in> {add_data_nts ?msg ?h1, add_to_pending_nts ?msg ?h1,
        add_data_nts (?msg\<lparr>sample_blank := True\<rparr>) ?h1, ?h1, add_to_pending_paused_nts ?msg ?h1}"
    by (simp add: add_data_def Let_def)
  let ?P = "\<lambda>v. unique_sequence_number v = next_sequence_number h
      \<and> sample_identity ` held v
            \<subseteq> insert (topic, next_sequence_number h, payload) (sample_identity ` held h)"
  have h1: "held ?h1 = held h" "unique_sequence_number ?h1 = next_sequence_number h"
    by (simp_all add: held_counter_update)
  have c1: "?P (add_data_nts ?msg ?h1)"
    using held_add_data_nts [of ?msg ?h1] unfolding id h1
    by (simp add: add_data_nts_counter)
  have c2: "?P (add_to_pending_nts ?msg ?h1)"
    using held_add_to_pending_nts [of ?msg ?h1] unfolding id h1
    by (simp add: add_to_pending_nts_counter)
  have c3: "?P (add_data_nts (?msg\<lparr>sample_blank := True\<rparr>) ?h1)"
    using held_add_data_nts [of "?msg\<lparr>sample_blank := True\<rparr>" ?h1] unfolding id h1
    by (simp add: add_data_nts_counter)
  have c4: "?P ?h1" unfolding h1 by auto
  have c5: "?P (add_to_pending_paused_nts ?msg ?h1)"
    using held_add_to_pending_paused_nts [of ?msg ?h1] unfolding id h1
    by (simp add: add_to_pending_paused_nts_counter)
  show ?thesis
  proof (cases "state h = STOPPED")
    case True
    then show ?thesis by (simp add: add_data_def)
  next
    case False
    from a [OF False] c1 c2 c3 c4 c5 have "?P (add_data topic payload h)"
      by (elim insertE emptyE) simp_all
    with False show ?thesis by simp
  qed
qed

text \<open>
  A witness: a fresh handler in each of the three states.
\<close>

theorem stopped_handler_discards_witness:
  "state (example_handler STOPPED) = STOPPED
   \<and> add_data example_topic 7 (example_handler STOPPED) = example_handler STOPPED
   \<and> state (example_handler RUNNING) \<noteq> STOPPED
   \<and> unique_sequence_number (add_data example_topic 7 (example_handler RUNNING)) = 1
   \<and> sample_identity ` held (add_data example_topic 7 (example_handler RUNNING))
       \<subseteq> {(example_topic, 1, 7)}
   \<and> state (example_handler PAUSED) \<noteq> STOPPED
   \<and> unique_sequence_number (add_data example_topic 7 (example_handler PAUSED)) = 1"
proof -
  have s: "state (example_handler st) = st" for st by (simp add: example_handler_def)
  have n: "next_sequence_number (example_handler st) = 1" for st
    by (simp add: example_handler_def next_sequence_number_def)
  have e: "held (example_handler st) = {}" for st by (simp add: example_handler_def held_def)
  note A = stopped_handler_discards [of "example_handler STOPPED" example_topic 7]
  note B = stopped_handler_discards [of "example_handler RUNNING" example_topic 7]
  note C = stopped_handler_discards [of "example_handler PAUSED" example_topic 7]
  from A s have 1: "add_data example_topic 7 (example_handler STOPPED) = example_handler STOPPED"
    by simp
  from B s n e have 2: "unique_sequence_number (add_data example_topic 7 (example_handler RUNNING)) = 1"
    "sample_identity ` held (add_data example_topic 7 (example_handler RUNNING))
       \<subseteq> {(example_topic, 1, 7)}"
    by simp_all
  from C s n have 3: "unique_sequence_number (add_data example_topic 7 (example_handler PAUSED)) = 1"
    by simp
  show ?thesis using s 1 2 3 by simp
qed

section \<open>The budget over a run\<close>

lemma tracked_ledger: "ledger w' = ledger w \<Longrightarrow> tracked w' = tracked w"
  by (simp add: ledger_def tracked_def)

lemma tracked_budget: "tracked w \<Longrightarrow> files_within_budget w"
  by (simp add: tracked_def files_within_budget_def)

lemma ledger_erased: "accounting_erased w' = accounting_erased w \<Longrightarrow> ledger w' = ledger w"
  using accounting_erasedD(1,13,14,18) [of w' w] by (simp add: ledger_def)

lemma staged_length_erased:
  "accounting_erased w' = accounting_erased w \<Longrightarrow> staged_length w' = staged_length w"
  using accounting_erasedD(4) [of w' w] by (simp add: staged_length_def)

text \<open>A write other than of an attachment keeps the accounting sound.\<close>

lemma write_nts_amounts:
  assumes "write_nts r w = (None, w')" and "\<forall>a. r \<noteq> RAttachment a"
  shows "w' = w \<or>
    (\<exists>n. st_potential (size_tracker w') = st_potential (size_tracker w) + n
       \<and> st_written (size_tracker w') \<le> st_written (size_tracker w) + n
       \<and> st_potential (size_tracker w')
           \<le> st_max_file_size (size_tracker w) - st_safety_margin (size_tracker w))"
  using assms
  by (cases r)
     (auto simp: write_nts_defs tracker_defs codec_defs Let_def split: if_splits)

lemma write_nts_accounted:
  assumes "accounted w" and "write_nts r w = (e, w')" and "\<forall>a. r \<noteq> RAttachment a"
  shows "accounted w'"
proof (cases e)
  case (Some a)
  with assms(2) write_nts_raises [of r w a w'] have "w' = w" by simp
  with assms(1) show ?thesis by simp
next
  case None
  with assms(2) have ok: "write_nts r w = (None, w')" by simp
  note er = write_nts_erased [OF ok]
  note d = accounting_erasedD [OF er]
  have t: "tracked w'" using tracked_ledger [OF ledger_erased [OF er]] assms(1)
    by (simp add: accounted_def)
  from write_nts_amounts [OF ok assms(3)] show ?thesis
  proof
    assume "w' = w"
    with assms(1) show ?thesis by simp
  next
    assume "\<exists>n. st_potential (size_tracker w') = st_potential (size_tracker w) + n
       \<and> st_written (size_tracker w') \<le> st_written (size_tracker w) + n
       \<and> st_potential (size_tracker w')
           \<le> st_max_file_size (size_tracker w) - st_safety_margin (size_tracker w)"
    then obtain n where n: "st_potential (size_tracker w') = st_potential (size_tracker w) + n"
      "st_written (size_tracker w') \<le> st_written (size_tracker w) + n"
      "st_potential (size_tracker w')
           \<le> st_max_file_size (size_tracker w) - st_safety_margin (size_tracker w)"
      by blast
    show ?thesis
      using assms(1) t n d(1,2,4,14,16,21,22) staged_length_erased [OF er]
      by (auto simp: accounted_def pending_attachment_def)
  qed
qed

lemma close_current_file_nts_accounted:
  assumes "accounted w"
  shows "accounted (close_current_file_nts w)"
    and "\<not> ft_is_open (file_tracker (close_current_file_nts w))"
    and "record_types (close_current_file_nts w) = record_types w"
proof -
  let ?c = "close_current_file_nts w"
  have ft: "file_tracker ?c = close_file ((file_tracker w)\<lparr>ft_current_size := final_size w\<rparr>)"
    by (subst close_current_file_nts_eq) simp
  have cfg: "configuration ?c = configuration w" "record_types ?c = record_types w"
    "dynamic_types_payload ?c = dynamic_types_payload w"
    by (subst close_current_file_nts_eq, simp)+
  show "\<not> ft_is_open (file_tracker ?c)" unfolding ft by (simp add: close_file_def)
  show "record_types ?c = record_types w" by (rule cfg)
  have fs: "final_size w \<le> st_written (size_tracker w) + pending_attachment w"
    by (simp add: final_size_def get_written_mcap_size_def pending_attachment_def)
  have "tracked ?c"
  proof (cases "ft_is_open (file_tracker w)")
    case False
    then have "ledger ?c = ledger w" unfolding ledger_def cfg ft by (simp add: close_file_def)
    from tracked_ledger [OF this] assms show ?thesis by (simp add: accounted_def)
  next
    case True
    with assms fs have b: "final_size w \<le> max_file_size (configuration w)"
      "ft_total_size (file_tracker w) + final_size w \<le> max_size (configuration w)"
      by (auto simp: accounted_def)
    with assms True show ?thesis
      unfolding tracked_def cfg ft by (simp add: close_file_def accounted_def tracked_def)
  qed
  with assms \<open>\<not> ft_is_open (file_tracker ?c)\<close> show "accounted ?c"
    unfolding accounted_def cfg by simp
qed

lemma write_each_preserves:
  assumes "\<And>x v e v'. f x v = (e, v') \<Longrightarrow> Q v \<Longrightarrow> Q v'"
    and "Q w" and "write_each f xs w = (e, w')"
  shows "Q w'"
  using assms(2,3)
proof (induction xs arbitrary: w)
  case Nil
  then show ?case by simp
next
  case (Cons x xs)
  obtain e1 w1 where f: "f x w = (e1, w1)" by (cases "f x w")
  then have 1: "Q w1" using assms(1) Cons.prems(1) by blast
  show ?case
  proof (cases e1)
    case None
    with f Cons.prems(2) have "write_each f xs w1 = (e, w')" by simp
    with Cons.IH 1 show ?thesis by blast
  next
    case (Some a)
    with f Cons.prems(2) 1 show ?thesis by simp
  qed
qed

text \<open>The reservations within the limit of the current file.\<close>

lemma write_nts_within_limit:
  assumes "write_nts r w = (e, w')" and "\<forall>a. r \<noteq> RAttachment a"
    and "st_potential (size_tracker w)
           \<le> st_max_file_size (size_tracker w) - st_safety_margin (size_tracker w)"
  shows "st_potential (size_tracker w')
           \<le> st_max_file_size (size_tracker w') - st_safety_margin (size_tracker w')"
proof (cases e)
  case (Some a)
  with assms(1) write_nts_raises [of r w a w'] have "w' = w" by simp
  with assms(3) show ?thesis by simp
next
  case None
  with assms(1) have ok: "write_nts r w = (None, w')" by simp
  note d = accounting_erasedD [OF write_nts_erased [OF ok]]
  from write_nts_amounts [OF ok assms(2)] assms(3) d(21,22) show ?thesis by auto
qed

lemma open_new_file_nts_within_limit:
  assumes "open_new_file_nts m w = (None, w')"
  shows "st_potential (size_tracker w')
           \<le> st_max_file_size (size_tracker w') - st_safety_margin (size_tracker w')"
proof -
  let ?Q = "\<lambda>v. st_potential (size_tracker v)
           \<le> st_max_file_size (size_tracker v) - st_safety_margin (size_tracker v)"
  from assms obtain w3 where run: "and_then write_metadata_nts
      (and_then write_schemas_nts
         (and_then write_channels_nts
            (and_then reserve_staged_attachment (\<lambda>w. (None, note_file_size w))))) w3
      = (None, w')"
    by (auto simp: open_new_file_nts_def Let_def
        split: sum.splits exn.splits prod.splits if_splits)
  from and_then_None [OF run] obtain w4 where 4: "write_metadata_nts w3 = (None, w4)"
    and r4: "and_then write_schemas_nts
         (and_then write_channels_nts
            (and_then reserve_staged_attachment (\<lambda>w. (None, note_file_size w)))) w4 = (None, w')"
    by blast
  from and_then_None [OF r4] obtain w5 where 5: "write_schemas_nts w4 = (None, w5)"
    and r5: "and_then write_channels_nts
            (and_then reserve_staged_attachment (\<lambda>w. (None, note_file_size w))) w5 = (None, w')"
    by blast
  from and_then_None [OF r5] obtain w6 where 6: "write_channels_nts w5 = (None, w6)"
    and r6: "and_then reserve_staged_attachment (\<lambda>w. (None, note_file_size w)) w6 = (None, w')"
    by blast
  from and_then_None [OF r6] obtain w7 where 7: "reserve_staged_attachment w6 = (None, w7)"
    and 8: "w' = note_file_size w7"
    by auto
  have q4: "?Q w4"
    using 4 by (auto simp: write_metadata_nts_def write_nts_defs tracker_defs codec_defs Let_def
        split: if_splits)
  have s: "write_nts_schema x v = (e, v') \<Longrightarrow> ?Q v \<Longrightarrow> ?Q v'" for x v e v'
    using write_nts_within_limit [of "RSchema x" v e v'] by simp
  have c: "write_nts_channel x v = (e, v') \<Longrightarrow> ?Q v \<Longrightarrow> ?Q v'" for x v e v'
    using write_nts_within_limit [of "RChannel x" v e v'] by simp
  have q5: "?Q w5"
    using 5 q4 write_each_preserves [of write_nts_schema ?Q w4 "schemas w4" None w5] s
    by (auto simp: write_schemas_nts_def split: if_splits)
  have q6: "?Q w6"
    using 6 q5 write_each_preserves [of write_nts_channel ?Q w5 "channels w5" None w6] c
    by (auto simp: write_channels_nts_def split: if_splits)
  have q7: "?Q w7"
    using 7 q6 by (auto simp: reserve_staged_attachment_def on_tracker_def tracker_defs
        split: option.splits if_splits sum.splits)
  show ?thesis using q7 8 by (simp add: note_file_size_def)
qed

lemma open_new_file_nts_ledger:
  assumes "open_new_file_nts m w = (e, w')"
  shows "ledger w' = ledger w"
proof (rule open_new_file_nts_keeps [where P = ledger, OF assms])
  fix v v' :: mcap_writer
  assume "accounting_erased v' = accounting_erased v"
  then show "ledger v' = ledger v" by (rule ledger_erased)
next
  fix v :: mcap_writer and st
  show "ledger (v\<lparr>size_tracker := st\<rparr>) = ledger v" by (simp add: ledger_def)
next
  fix v :: mcap_writer and c
  show "ledger (v\<lparr>writer := c\<rparr>) = ledger v" by (simp add: ledger_def)
next
  fix ft
  assume "new_file m (file_tracker w) = Inr ft"
  then show "ledger (w\<lparr>file_tracker := ft\<rparr>) = ledger w"
    by (auto simp: ledger_def new_file_def split: if_splits)
qed

lemma open_new_file_nts_record_types:
  "open_new_file_nts m w = (e, w') \<Longrightarrow> record_types w' = record_types w"
  by (rule open_new_file_nts_keeps [where P = record_types])
     (auto dest: accounting_erasedD)

lemma open_new_file_nts_accounted:
  assumes "tracked w" and "open_new_file_nts m w = (e, w')"
  shows "tracked w'" and "e = None \<Longrightarrow> accounted w'"
proof -
  show t: "tracked w'" using tracked_ledger [OF open_new_file_nts_ledger [OF assms(2)]] assms(1)
    by simp
  assume "e = None"
  with assms(2) have ok: "open_new_file_nts m w = (None, w')" by simp
  note k = open_new_file_nts_ok [OF ok]
  note q = open_new_file_nts_within_limit [OF ok]
  have sl: "staged_length w' = staged_length w" using k(13) by (simp add: staged_length_def)
  have mx: "st_max_file_size (size_tracker w') = min (max_file_size (configuration w))
               (u64_sub (max_size (configuration w)) (ft_total_size (file_tracker w)))"
    using arg_cong [OF k(4), of st_max_file_size] by simp
  have tot: "ft_total_size (file_tracker w') = ft_total_size (file_tracker w)"
    using arg_cong [OF k(3), of ft_total_size] by simp
  have sub: "u64_sub (max_size (configuration w)) (ft_total_size (file_tracker w))
      = max_size (configuration w) - ft_total_size (file_tracker w)"
    using assms(1) by (intro u64_sub_eq) (simp_all add: tracked_def)
  have le: "ft_total_size (file_tracker w) \<le> max_size (configuration w)"
    using assms(1) by (simp add: tracked_def)
  have wr: "st_written (size_tracker w') + pending_attachment w' \<le> st_potential (size_tracker w')"
    using k(6) k(11) sl by (auto simp: pending_attachment_def)
  show "accounted w'"
    unfolding accounted_def
    using t k(10,11,13) wr q mx sub le tot by auto
qed

lemma accounted_enabled: "accounted (w\<lparr>enabled := b\<rparr>) = accounted w"
  by (simp add: accounted_def tracked_def staged_length_def pending_attachment_def)

lemma tracked_enabled: "tracked (w\<lparr>enabled := b\<rparr>) = tracked w"
  by (simp add: tracked_def)

lemma accounted_tracked: "accounted w \<Longrightarrow> tracked w"
  by (simp add: accounted_def)

lemma on_mcap_full_nts_accounted:
  assumes "accounted w" and "on_mcap_full_nts n w = (e, w')"
  shows "tracked w'" and "record_types w' = record_types w"
    and "e = None \<or> e = Some FullDiskException \<Longrightarrow> accounted w'"
proof -
  let ?c = "(close_current_file_nts w)\<lparr>enabled := False\<rparr>"
  let ?m = "u64_add (get_min_mcap_size (size_tracker ?c)) n"
  note cl = close_current_file_nts_accounted [OF assms(1)]
  have c: "accounted ?c" "record_types ?c = record_types w"
    using cl by (simp_all add: accounted_enabled)
  obtain e3 w3 where o: "open_new_file_nts ?m ?c = (e3, w3)"
    by (cases "open_new_file_nts ?m ?c")
  note k = open_new_file_nts_accounted [OF accounted_tracked [OF c(1)] o]
  note r = open_new_file_nts_record_types [OF o]
  from assms(2) o consider (full) "w' = ?c" "e = Some FullDiskException"
    | (opened) "e3 = None" "e = None" "w' = w3\<lparr>enabled := True\<rparr>"
    | (failed) "e3 = e" "e \<noteq> None" "w' = w3"
    by (auto simp: on_mcap_full_nts_def Let_def split: if_splits option.splits)
  then have "tracked w' \<and> record_types w' = record_types w
      \<and> (e = None \<or> e = Some FullDiskException \<longrightarrow> accounted w')"
  proof cases
    case full
    with c accounted_tracked [OF c(1)] show ?thesis by simp
  next
    case opened
    with k r c(2) show ?thesis by (simp add: accounted_enabled tracked_enabled)
  next
    case failed
    from failed(1,2) o have "e = Some FullDiskException \<Longrightarrow> w3 = ?c"
      using open_new_file_nts_raises [of ?m ?c FullDiskException w3] by simp
    with failed k(1) r c show ?thesis by auto
  qed
  then show "tracked w'" and "record_types w' = record_types w"
    and "e = None \<or> e = Some FullDiskException \<Longrightarrow> accounted w'"
    by blast+
qed

lemma accounted_on_disk_full: "accounted (on_disk_full w) = accounted w"
  by (simp add: on_disk_full_def accounted_def tracked_def staged_length_def
      pending_attachment_def Let_def)

lemma record_types_on_disk_full: "record_types (on_disk_full w) = record_types w"
  by (simp add: on_disk_full_def Let_def)

lemma enable_accounted:
  assumes "accounted w" and "enable w = (e, w')"
  shows "tracked w'"
    and "e = None \<Longrightarrow> accounted w' \<and> record_types w' = record_types w
           \<and> dynamic_types_payload w' = dynamic_types_payload w"
proof -
  obtain e3 w3 where o: "open_new_file_nts (MIN_MCAP_SIZE w) w = (e3, w3)"
    by (cases "open_new_file_nts (MIN_MCAP_SIZE w) w")
  note k = open_new_file_nts_accounted [OF accounted_tracked [OF assms(1)] o]
  note r = open_new_file_nts_record_types [OF o] open_new_file_nts_payload [OF o]
  from assms(2) o consider (already) "w' = w" "e = None"
    | (full) "e3 = Some FullDiskException" "e = None" "w' = (on_disk_full w3)\<lparr>enabled := True\<rparr>"
    | (opened) "e3 = None" "e = None" "w' = w3\<lparr>enabled := True\<rparr>"
    | (failed) "e \<noteq> None" "w' = w3"
    by (auto simp: enable_def split: if_splits option.splits exn.splits)
  then have "tracked w' \<and> (e = None \<longrightarrow> accounted w' \<and> record_types w' = record_types w
      \<and> dynamic_types_payload w' = dynamic_types_payload w)"
  proof cases
    case already
    with assms(1) show ?thesis by (simp add: accounted_def)
  next
    case full
    with o open_new_file_nts_raises [of "MIN_MCAP_SIZE w" w FullDiskException w3]
    have "w3 = w" by simp
    with full assms(1) have "accounted w'"
      by (simp add: accounted_enabled accounted_on_disk_full)
    moreover from \<open>w3 = w\<close> full have "record_types w' = record_types w"
      "dynamic_types_payload w' = dynamic_types_payload w"
      by (simp_all add: on_disk_full_def Let_def)
    ultimately show ?thesis by (simp add: accounted_def)
  next
    case opened
    with k r show ?thesis by (simp add: accounted_enabled tracked_enabled)
  next
    case failed
    with k(1) show ?thesis by auto
  qed
  then show "tracked w'"
    and "e = None \<Longrightarrow> accounted w' \<and> record_types w' = record_types w
           \<and> dynamic_types_payload w' = dynamic_types_payload w"
    by blast+
qed

lemma disable_accounted:
  "accounted w \<Longrightarrow> accounted (disable w) \<and> record_types (disable w) = record_types w
     \<and> dynamic_types_payload (disable w) = dynamic_types_payload w"
proof -
  assume a: "accounted w"
  have "accounted ((close_current_file_nts w)\<lparr>channels := [], enabled := False\<rparr>)
      = accounted (close_current_file_nts w)"
    by (simp add: accounted_def tracked_def staged_length_def pending_attachment_def)
  moreover have "dynamic_types_payload (close_current_file_nts w) = dynamic_types_payload w"
    by (subst close_current_file_nts_eq) simp
  ultimately show ?thesis
    using close_current_file_nts_accounted [OF a] a by (simp add: disable_def)
qed

lemma stage_delta_accounted:
  assumes "accounted w" and "record_types w \<or> staged_length w \<le> payload_length p"
    and "delta_fits p w"
  shows "accounted (stage_payload p (delta_reserved p w))"
    and "record_types (stage_payload p (delta_reserved p w)) = record_types w"
  using assms
  by (auto simp: accounted_def tracked_def stage_payload_def delta_reserved_def delta_fits_def
      note_file_size_def set_current_file_size_def staged_length_def pending_attachment_def)

lemma stage_on_disk_full_accounted:
  assumes "accounted v" and "\<not> ft_is_open (file_tracker v)"
  shows "accounted (stage_payload p (on_disk_full v))"
    and "record_types (stage_payload p (on_disk_full v)) = record_types v"
  using assms
  by (auto simp: accounted_def tracked_def stage_payload_def on_disk_full_def Let_def
      note_file_size_def set_current_file_size_def staged_length_def pending_attachment_def)

lemma on_mcap_full_nts_staged_length:
  "on_mcap_full_nts n w = (e, w') \<Longrightarrow> staged_length w' = staged_length w"
  using on_mcap_full_nts_payload [of n w e w'] by (simp add: staged_length_def)

lemma update_dynamic_types_accounted:
  assumes "accounted w" and "record_types w \<or> staged_length w \<le> payload_length p"
    and "update_dynamic_types p w = (e, w')"
  shows "tracked w'" and "e = None \<Longrightarrow> accounted w' \<and> record_types w' = record_types w"
proof -
  have "tracked w' \<and> (e = None \<longrightarrow> accounted w' \<and> record_types w' = record_types w)"
  proof (cases "delta_fits p w")
    case True
    with assms(3) update_dynamic_types_cases [of p w] have "e = None"
      "w' = stage_payload p (delta_reserved p w)" by simp_all
    with stage_delta_accounted [OF assms(1,2) True] show ?thesis
      by (simp add: accounted_tracked)
  next
    case False
    obtain e2 v where o: "on_mcap_full_nts (payload_length p) w = (e2, v)"
      by (cases "on_mcap_full_nts (payload_length p) w")
    note k = on_mcap_full_nts_accounted [OF assms(1) o]
    note sl = on_mcap_full_nts_staged_length [OF o]
    show ?thesis
    proof (cases e2)
      case None
      with k have v: "accounted v" "record_types v \<or> staged_length v \<le> payload_length p"
        using assms(2) sl by simp_all
      show ?thesis
      proof (cases "delta_fits p v")
        case True
        with False None o assms(3) update_dynamic_types_cases [of p w undefined v]
        have "e = None" "w' = stage_payload p (delta_reserved p v)" by simp_all
        with stage_delta_accounted [OF v True] k(2) show ?thesis
          by (simp add: accounted_tracked)
      next
        case nf: False
        with False None o assms(3) update_dynamic_types_cases [of p w undefined v]
        have "e \<noteq> None" "w' = v" by auto
        with k(1) show ?thesis by auto
      qed
    next
      case (Some a)
      show ?thesis
      proof (cases "a = FullDiskException")
        case True
        with Some o False assms(3) update_dynamic_types_cases [of p w v]
        have r: "e = None" "w' = stage_payload p (on_disk_full v)" by simp_all
        from True Some o have "v = (close_current_file_nts w)\<lparr>enabled := False\<rparr>"
          using on_mcap_full_nts_disk_full by simp
        then have "\<not> ft_is_open (file_tracker v)"
          using close_current_file_nts_accounted(2) [OF assms(1)] by simp
        moreover from True Some k have "accounted v" by simp
        ultimately show ?thesis using r stage_on_disk_full_accounted [of v p] k(2)
          by (simp add: accounted_tracked)
      next
        case nd: False
        with Some o False assms(3) have "e = Some a" "w' = v"
          by (auto simp: update_dynamic_types_def update_dynamic_types_payload_cases and_then_def
              split: exn.splits)
        with k(1) show ?thesis by simp
      qed
    qed
  qed
  then show "tracked w'" and "e = None \<Longrightarrow> accounted w' \<and> record_types w' = record_types w"
    by blast+
qed

lemma write_nts_record_types:
  "write_nts r w = (e, w') \<Longrightarrow>
   record_types w' = record_types w \<and> dynamic_types_payload w' = dynamic_types_payload w"
  using accounting_erasedD(2,4) [OF write_nts_erased] by blast

lemma on_disk_full_payload: "dynamic_types_payload (on_disk_full w) = dynamic_types_payload w"
  by (simp add: on_disk_full_def Let_def)

lemma McapWriter_write_accounted:
  assumes "accounted w" and "\<forall>a. r \<noteq> RAttachment a" and "McapWriter_write r w = (e, w')"
  shows "tracked w'"
    and "e = None \<Longrightarrow> accounted w' \<and> record_types w' = record_types w
           \<and> dynamic_types_payload w' = dynamic_types_payload w"
proof -
  have "tracked w' \<and> (e = None \<longrightarrow> accounted w' \<and> record_types w' = record_types w
      \<and> dynamic_types_payload w' = dynamic_types_payload w)"
  proof (cases "enabled w")
    case False
    with assms(1,3) show ?thesis by (simp add: McapWriter_write_def accounted_tracked)
  next
    case True
    obtain e1 w1 where f: "write_nts r w = (e1, w1)" by (cases "write_nts r w")
    note a1 = write_nts_accounted [OF assms(1) f assms(2)]
    note r1 = write_nts_record_types [OF f]
    show ?thesis
    proof (cases e1)
      case None
      with True f assms(3) have "e = None" "w' = w1" by (simp_all add: McapWriter_write_def)
      with a1 r1 show ?thesis by (simp add: accounted_tracked)
    next
      case (Some x)
      with f write_nts_raises [of r w x w1] obtain n where x: "x = FullFileException n"
        and w1: "w1 = w" by auto
      obtain e2 v where o: "on_mcap_full_nts n w = (e2, v)"
        by (cases "on_mcap_full_nts n w")
      note k = on_mcap_full_nts_accounted [OF assms(1) o]
      note pl = on_mcap_full_nts_payload [OF o]
      show ?thesis
      proof (cases e2)
        case None
        with k have v: "accounted v" by simp
        obtain e3 w3 where g: "write_nts r v = (e3, w3)" by (cases "write_nts r v")
        note a3 = write_nts_accounted [OF v g assms(2)]
        note r3 = write_nts_record_types [OF g]
        have "e3 \<noteq> Some FullDiskException" using g write_nts_raises [of r v _ w3] by auto
        with True f Some x w1 o None g assms(3) have "e = e3" "w' = w3"
          by (auto simp: McapWriter_write_def and_then_def split: option.splits exn.splits)
        with a3 r3 k(2) pl show ?thesis by (simp add: accounted_tracked)
      next
        case s2: (Some y)
        show ?thesis
        proof (cases "y = FullDiskException")
          case True
          with \<open>enabled w\<close> f Some x w1 o s2 assms(3) have "e = None" "w' = on_disk_full v"
            by (simp_all add: McapWriter_write_def and_then_def)
          moreover from True s2 k have "accounted v" by simp
          ultimately show ?thesis using k(2) pl
            by (simp add: accounted_on_disk_full accounted_tracked record_types_on_disk_full
                on_disk_full_payload)
        next
          case False
          with True f Some x w1 o s2 assms(3) have "e = Some y" "w' = v"
            by (auto simp: McapWriter_write_def and_then_def split: exn.splits)
          with k(1) show ?thesis by simp
        qed
      qed
    qed
  qed
  then show "tracked w'"
    and "e = None \<Longrightarrow> accounted w' \<and> record_types w' = record_types w
           \<and> dynamic_types_payload w' = dynamic_types_payload w"
    by blast+
qed

lemma run_tracked:
  "accounted w \<Longrightarrow> budgeted (record_types w) (staged_length w) cs \<Longrightarrow>
   tracked (snd (run cs w))"
proof (induction cs arbitrary: w)
  case Nil
  then show ?case by (simp add: accounted_tracked)
next
  case (Cons c cs)
  obtain e w1 where d: "do_call c w = (e, w1)" by (cases "do_call c w")
  have "tracked w1 \<and> (e = None \<longrightarrow>
      accounted w1 \<and> budgeted (record_types w1) (staged_length w1) cs)"
  proof (cases c)
    case Enable
    with d Cons.prems enable_accounted [of w e w1] show ?thesis
      by (auto simp: staged_length_def)
  next
    case Disable
    with d Cons.prems disable_accounted [of w] show ?thesis
      by (auto simp: staged_length_def accounted_tracked)
  next
    case (Write r)
    with Cons.prems(2) have "\<forall>a. r \<noteq> RAttachment a" by auto
    moreover from this Write Cons.prems(2)
    have "budgeted (record_types w) (staged_length w) cs" by (cases r) simp_all
    ultimately show ?thesis
      using Write d Cons.prems(1) McapWriter_write_accounted [of w r e w1]
      by (auto simp: staged_length_def)
  next
    case (UpdateDynamicTypes p)
    with Cons.prems(2) have f: "record_types w \<or> staged_length w \<le> payload_length p"
      and b: "budgeted (record_types w) (payload_length p) cs" by simp_all
    from UpdateDynamicTypes d have u: "update_dynamic_types p w = (e, w1)" by simp
    note k = update_dynamic_types_accounted [OF Cons.prems(1) f u]
    have "e = None \<Longrightarrow> staged_length w1 = payload_length p"
      using update_dynamic_types_returns [of p w w1] u by (simp add: staged_length_def)
    with k b show ?thesis by auto
  next
    case (SetOnDiskFullCallback l)
    with d Cons.prems show ?thesis
      by (auto simp: set_on_disk_full_callback_def accounted_def tracked_def staged_length_def
          pending_attachment_def)
  qed
  then have k: "tracked w1" "e = None \<Longrightarrow> accounted w1"
    "e = None \<Longrightarrow> budgeted (record_types w1) (staged_length w1) cs" by blast+
  show ?case
  proof (cases e)
    case None
    from Cons.IH [OF k(2) [OF None] k(3) [OF None]] d None show ?thesis by simp
  next
    case (Some a)
    with d k(1) show ?thesis by simp
  qed
qed

lemma McapWriter_accounted:
  "max_size cfg < 2 ^ 64 \<Longrightarrow>
   accounted (McapWriter min_size md_size st cd cfg (FileTracker cfg) rt)"
  by (simp add: McapWriter_def FileTracker_def accounted_def tracked_def)

section \<open>The settings over a run\<close>

lemma open_new_file_nts_configuration:
  "open_new_file_nts m w = (e, w') \<Longrightarrow> configuration w' = configuration w"
  by (rule open_new_file_nts_keeps [where P = configuration])
     (auto dest: accounting_erasedD)

lemma write_nts_configuration:
  "write_nts r w = (e, w') \<Longrightarrow> configuration w' = configuration w"
  using accounting_erasedD(1) [OF write_nts_erased] by blast

lemma close_current_file_nts_configuration:
  "configuration (close_current_file_nts w) = configuration w"
  by (subst close_current_file_nts_eq) simp

lemma on_disk_full_configuration: "configuration (on_disk_full w) = configuration w"
  by (simp add: on_disk_full_def Let_def)

lemma on_mcap_full_nts_configuration:
  "on_mcap_full_nts n w = (e, w') \<Longrightarrow> configuration w' = configuration w"
proof -
  assume a: "on_mcap_full_nts n w = (e, w')"
  let ?c = "(close_current_file_nts w)\<lparr>enabled := False\<rparr>"
  have c: "configuration ?c = configuration w"
    by (simp add: close_current_file_nts_configuration)
  show ?thesis
  proof (cases "max_file_size (configuration ?c) = max_size (configuration ?c)")
    case True
    with a have "w' = ?c" by (simp add: on_mcap_full_nts_def Let_def)
    with c show ?thesis by simp
  next
    case False
    obtain e3 w3 where o: "open_new_file_nts (u64_add (get_min_mcap_size (size_tracker ?c)) n) ?c
        = (e3, w3)" by (cases "open_new_file_nts (u64_add (get_min_mcap_size (size_tracker ?c)) n) ?c")
    from open_new_file_nts_configuration [OF o] c have "configuration w3 = configuration w"
      by simp
    moreover from a False o have "w' = w3 \<or> w' = w3\<lparr>enabled := True\<rparr>"
      by (auto simp: on_mcap_full_nts_def Let_def split: option.splits)
    ultimately show ?thesis by auto
  qed
qed

lemma enable_configuration: "configuration (snd (enable w)) = configuration w"
proof -
  obtain e3 w3 where o: "open_new_file_nts (MIN_MCAP_SIZE w) w = (e3, w3)"
    by (cases "open_new_file_nts (MIN_MCAP_SIZE w) w")
  from open_new_file_nts_configuration [OF o] o show ?thesis
    by (auto simp: enable_def on_disk_full_configuration split: option.splits exn.splits)
qed

lemma disable_configuration: "configuration (disable w) = configuration w"
  by (simp add: disable_def close_current_file_nts_configuration)

lemma update_dynamic_types_payload_configuration:
  "update_dynamic_types_payload p w = (e, w') \<Longrightarrow> configuration w' = configuration w"
  by (auto simp: update_dynamic_types_payload_cases delta_reserved_def split: if_splits)

lemma stage_payload_configuration: "configuration (stage_payload p w) = configuration w"
  by (simp add: stage_payload_def note_file_size_def)

lemma retry_configuration:
  assumes f: "\<And>v e v'. f v = (e, v') \<Longrightarrow> configuration v' = configuration v"
  shows "configuration (snd (and_then (on_mcap_full_nts n) f w)) = configuration w"
proof -
  obtain e2 w2 where o: "on_mcap_full_nts n w = (e2, w2)" by (cases "on_mcap_full_nts n w")
  obtain e3 w3 where g: "f w2 = (e3, w3)" by (cases "f w2")
  from on_mcap_full_nts_configuration [OF o] f [OF g] o g show ?thesis
    by (cases e2) (simp_all add: and_then_def)
qed

lemma McapWriter_write_configuration:
  "configuration (snd (McapWriter_write r w)) = configuration w"
proof -
  obtain e1 w1 where a: "write_nts r w = (e1, w1)" by (cases "write_nts r w")
  note c = write_nts_configuration [OF a]
  have "configuration (snd (and_then (on_mcap_full_nts n) (write_nts r) w1)) = configuration w"
    for n using retry_configuration [of "write_nts r" n w1] write_nts_configuration c by simp
  then have "configuration w2 = configuration w"
    if "and_then (on_mcap_full_nts n) (write_nts r) w1 = (e2, w2)" for n e2 w2
    using that by (metis snd_conv)
  with a c show ?thesis
    by (auto simp: McapWriter_write_def on_disk_full_configuration
        split: option.splits exn.splits prod.splits)
qed

lemma update_dynamic_types_configuration:
  "configuration (snd (update_dynamic_types p w)) = configuration w"
proof -
  obtain e1 w1 where a: "update_dynamic_types_payload p w = (e1, w1)"
    by (cases "update_dynamic_types_payload p w")
  note c = update_dynamic_types_payload_configuration [OF a]
  have "configuration (snd (and_then (on_mcap_full_nts n) (update_dynamic_types_payload p) w1))
      = configuration w" for n
    using retry_configuration [of "update_dynamic_types_payload p" n w1]
      update_dynamic_types_payload_configuration c by simp
  then have "configuration w2 = configuration w"
    if "and_then (on_mcap_full_nts n) (update_dynamic_types_payload p) w1 = (e2, w2)"
    for n e2 w2 using that by (metis snd_conv)
  with a c show ?thesis
    by (auto simp: update_dynamic_types_def on_disk_full_configuration
        stage_payload_configuration split: option.splits exn.splits prod.splits)
qed

lemma do_call_configuration: "configuration (snd (do_call c w)) = configuration w"
  by (cases c)
    (simp_all add: enable_configuration disable_configuration McapWriter_write_configuration
      update_dynamic_types_configuration set_on_disk_full_callback_def)

lemma run_configuration: "configuration (snd (run cs w)) = configuration w"
proof (induction cs arbitrary: w)
  case Nil
  show ?case by simp
next
  case (Cons c cs)
  obtain e w1 where d: "do_call c w = (e, w1)" by (cases "do_call c w")
  with do_call_configuration [of c w] have "configuration w1 = configuration w" by simp
  with d Cons.IH [of w1] show ?case by (cases e) simp_all
qed

lemma open_new_file_nts_ceiling:
  assumes "open_new_file_nts m w = (None, w')"
  shows "st_max_file_size (size_tracker w') =
           min (max_file_size (configuration w))
               (u64_sub (max_size (configuration w)) (get_total_size (file_tracker w)))"
  using arg_cong [OF open_new_file_nts_ok(4) [OF assms], of st_max_file_size]
  by (simp add: get_total_size_def)

section \<open>Claim C4: the budget\<close>

text \<open>
  Claim C4, as it holds.  Take a writer as its constructor leaves it, on a file tracker
  without files that was given the same settings, with \<open>max_size\<close> below \<open>2 ^ 64\<close>,
  and a run of calls of \<open>enable\<close>, \<open>disable\<close>, \<open>write\<close>, \<open>update_dynamic_types\<close> and
  \<open>set_on_disk_full_callback\<close>, followed up to the first call that an exception leaves, in
  which no attachment is handed to \<open>write\<close> and, unless the writer records types, no
  payload is replaced by a shorter one.  Then every closed file has a final size of at most
  \<open>max_file_size\<close>, the sizes of the closed files sum to at most \<open>max_size\<close>, and this
  sum is the total of the file tracker.  Whenever \<open>open_new_file_nts\<close> opens a file, at any
  state, the ceiling of the size tracker is the minimum of \<open>max_file_size\<close> and the 64-bit
  difference of \<open>max_size\<close> and the total of the file tracker; at a state reached by such
  a run the difference does not wrap, and is \<open>max_size\<close> less the sizes of the closed
  files.
\<close>

theorem files_stay_within_budget:
  "max_size cfg < 2 ^ 64 \<Longrightarrow> budgeted rt 0 cs \<Longrightarrow>
   v = snd (run cs (McapWriter min_size md_size st cd cfg (FileTracker cfg) rt)) \<Longrightarrow>
   list_all (\<lambda>f. snd f \<le> max_file_size cfg) (ft_closed (file_tracker v))
   \<and> sum_list (map snd (ft_closed (file_tracker v))) \<le> max_size cfg
   \<and> files_within_budget v
   \<and> get_total_size (file_tracker v) = sum_list (map snd (ft_closed (file_tracker v)))
   \<and> (open_new_file_nts m w = (None, w') \<longrightarrow>
        st_max_file_size (size_tracker w') =
          min (max_file_size (configuration w))
              (u64_sub (max_size (configuration w)) (get_total_size (file_tracker w))))
   \<and> (open_new_file_nts m v = (None, v') \<longrightarrow>
        st_max_file_size (size_tracker v') =
          min (max_file_size cfg)
              (max_size cfg - sum_list (map snd (ft_closed (file_tracker v)))))"
proof -
  assume ms: "max_size cfg < 2 ^ 64" and b: "budgeted rt 0 cs"
    and v: "v = snd (run cs (McapWriter min_size md_size st cd cfg (FileTracker cfg) rt))"
  let ?w0 = "McapWriter min_size md_size st cd cfg (FileTracker cfg) rt"
  have 0: "record_types ?w0 = rt" "staged_length ?w0 = 0" "configuration ?w0 = cfg"
    by (simp_all add: McapWriter_def staged_length_def)
  with b have "budgeted (record_types ?w0) (staged_length ?w0) cs" by simp
  from run_tracked [OF McapWriter_accounted [OF ms] this] v
  have t: "tracked v" by simp
  have c: "configuration v = cfg" using run_configuration [of cs ?w0] 0(3) v by simp
  have f: "files_within_budget v" by (rule tracked_budget [OF t])
  have 1: "list_all (\<lambda>f. snd f \<le> max_file_size cfg) (ft_closed (file_tracker v))"
    and 2: "sum_list (map snd (ft_closed (file_tracker v))) \<le> max_size cfg"
    using f c by (simp_all add: files_within_budget_def)
  have 3: "get_total_size (file_tracker v) = sum_list (map snd (ft_closed (file_tracker v)))"
    using t by (simp add: tracked_def get_total_size_def)
  have 4: "open_new_file_nts m w = (None, w') \<longrightarrow>
        st_max_file_size (size_tracker w') =
          min (max_file_size (configuration w))
              (u64_sub (max_size (configuration w)) (get_total_size (file_tracker w)))"
    using open_new_file_nts_ceiling [of m w w'] by blast
  have "u64_sub (max_size cfg) (get_total_size (file_tracker v)) =
      max_size cfg - sum_list (map snd (ft_closed (file_tracker v)))"
    using u64_sub_eq [of "get_total_size (file_tracker v)" "max_size cfg"] 2 3 ms by simp
  then have 5: "open_new_file_nts m v = (None, v') \<longrightarrow>
        st_max_file_size (size_tracker v') =
          min (max_file_size cfg)
              (max_size cfg - sum_list (map snd (ft_closed (file_tracker v))))"
    using open_new_file_nts_ceiling [of m v v'] c by auto
  from 1 2 f 3 4 5 show ?thesis by blast
qed

lemmas budget_defs = example_fresh_def example_budget_def example_run_def
  example_attachment_run_def example_shorter_payload_run_def FileTracker_def
  files_within_budget_def

text \<open>
  A witness for claim C4: with 100 bytes a file and 200 bytes in all, the run stages a
  20-byte payload and writes messages of 50 and 30 bytes; the second message rolls the
  file over, and the files are closed at 80 and 60 bytes.  A file opened after the run has
  the ceiling \<open>min 100 (200 - 140) = 60\<close>.
\<close>

theorem files_stay_within_budget_witness:
  "max_size (example_budget 100 200) < 2 ^ 64
   \<and> budgeted True 0 example_run
   \<and> fst (run example_run (example_fresh (example_budget 100 200) True)) = None
   \<and> ft_closed (file_tracker (snd (run example_run (example_fresh (example_budget 100 200) True))))
       = [(0, 80), (1, 60)]
   \<and> files_within_budget (snd (run example_run (example_fresh (example_budget 100 200) True)))
   \<and> get_total_size
       (file_tracker (snd (run example_run (example_fresh (example_budget 100 200) True)))) = 140
   \<and> fst (open_new_file_nts 10
       (snd (run example_run (example_fresh (example_budget 100 200) True)))) = None
   \<and> st_max_file_size (size_tracker (snd (open_new_file_nts 10
       (snd (run example_run (example_fresh (example_budget 100 200) True)))))) = 60"
proof -
  let ?c = "example_budget 100 200"
  let ?v = "snd (run example_run (example_fresh ?c True))"
  let ?v' = "snd (open_new_file_nts 10 ?v)"
  have ms: "max_size ?c < 2 ^ 64" by (simp add: example_budget_def)
  have b: "budgeted True 0 example_run"
    by (simp add: example_run_def example_payload_def)
  have v: "?v = snd (run example_run
      (McapWriter 10 6 example_tracker (example_codec []) ?c (FileTracker ?c) True))"
    by (simp add: example_fresh_def)
  have r: "fst (run example_run (example_fresh ?c True)) = None"
    by (simp add: eval_defs budget_defs)
  have cl: "ft_closed (file_tracker ?v) = [(0, 80), (1, 60)]"
    by (simp add: eval_defs budget_defs)
  have f: "fst (open_new_file_nts 10 ?v) = None"
    by (simp add: eval_defs budget_defs)
  then have o: "open_new_file_nts 10 ?v = (None, ?v')"
    by (cases "open_new_file_nts 10 ?v") simp
  have c: "max_file_size ?c = 100" "max_size ?c = 200" by (simp_all add: example_budget_def)
  note k = files_stay_within_budget [OF ms b v, of 10 ?v ?v' ?v']
  note k3 = k [THEN conjunct2, THEN conjunct2, THEN conjunct1]
  note k4 = k [THEN conjunct2, THEN conjunct2, THEN conjunct2, THEN conjunct1]
  note k6 = k [THEN conjunct2, THEN conjunct2, THEN conjunct2, THEN conjunct2, THEN conjunct2,
      THEN mp, OF o]
  have t: "get_total_size (file_tracker ?v) = 140" using k4 cl by simp
  have ce: "st_max_file_size (size_tracker ?v') = 60" using k6 cl c by simp
  show ?thesis by (intro conjI ms b r cl k3 t f ce)
qed

text \<open>
  Claim C4 as the specification words it speaks of every run.  Two runs that no exception
  leaves exceed the budget.  With 100 bytes a file and 100 bytes in all, a 95-byte
  attachment handed to \<open>write\<close> is committed without a reservation, and the file is closed
  at 105 bytes.  With 100 bytes a file, on a writer that does not record types, a 50-byte
  payload is staged on the first file; on the second file, for which nothing was reserved,
  the payload is replaced by a 10-byte one, which lowers the potential size by 40 bytes
  below the bytes written, and three 40-byte messages are accepted: the file is closed at
  130 bytes.
\<close>

theorem unreserved_bytes_exceed_budget:
  "fst (run example_attachment_run (example_fresh (example_budget 100 100) False)) = None
   \<and> ft_closed (file_tracker
        (snd (run example_attachment_run (example_fresh (example_budget 100 100) False))))
       = [(0, 105)]
   \<and> \<not> files_within_budget
        (snd (run example_attachment_run (example_fresh (example_budget 100 100) False)))
   \<and> fst (run example_shorter_payload_run (example_fresh (example_budget 100 1000) False))
       = None
   \<and> ft_closed (file_tracker
        (snd (run example_shorter_payload_run (example_fresh (example_budget 100 1000) False))))
       = [(0, 10), (1, 130)]
   \<and> \<not> files_within_budget
        (snd (run example_shorter_payload_run (example_fresh (example_budget 100 1000) False)))"
proof -
  have 1: "fst (run example_attachment_run (example_fresh (example_budget 100 100) False))
      = None"
    by (simp add: eval_defs budget_defs)
  have 2: "ft_closed (file_tracker
        (snd (run example_attachment_run (example_fresh (example_budget 100 100) False))))
       = [(0, 105)]"
    by (simp add: eval_defs budget_defs)
  have 3: "fst (run example_shorter_payload_run (example_fresh (example_budget 100 1000) False))
       = None"
    by (simp add: eval_defs budget_defs)
  have 4: "ft_closed (file_tracker
        (snd (run example_shorter_payload_run (example_fresh (example_budget 100 1000) False))))
       = [(0, 10), (1, 130)]"
    by (simp add: eval_defs budget_defs)
  have c: "configuration (snd (run cs (example_fresh (example_budget a b) False)))
      = example_budget a b" for cs a b
    using run_configuration [of cs "example_fresh (example_budget a b) False"]
    by (simp add: example_fresh_def McapWriter_def)
  have m: "max_file_size (example_budget a b) = a" for a b by (simp add: example_budget_def)
  have 5: "\<not> files_within_budget
        (snd (run example_attachment_run (example_fresh (example_budget 100 100) False)))"
    using 2 by (simp add: files_within_budget_def c m)
  have 6: "\<not> files_within_budget
        (snd (run example_shorter_payload_run (example_fresh (example_budget 100 1000) False)))"
    using 4 by (simp add: files_within_budget_def c m)
  show ?thesis by (intro conjI 1 2 5 3 4 6)
qed

end
